theory Spec2Isabelle
  imports Complex_Main
begin

section \<open>Numbers of the C program\<close>

text \<open>
  The sampler computes with C \<^verbatim>\<open>float\<close> and \<^verbatim>\<open>double\<close>. Both are
  modelled by one type \<open>fl\<close>: a finite value is an exact real (rounding, overflow to
  infinity, underflow and the sign of zero are not modelled), and the two infinities and
  NaN are values of their own, with the IEEE-754 rules for arithmetic and comparison:
  NaN is absorbing in arithmetic, every ordered comparison with NaN is false, a nonzero
  finite value divided by zero is an infinity and \<open>0/0\<close> is NaN.
\<close>

datatype fl = Fin real | PInf | NInf | NaN

instantiation fl :: "{uminus, plus, minus, times, inverse, ord}"
begin

fun uminus_fl :: "fl \<Rightarrow> fl" where
  "uminus_fl (Fin a) = Fin (- a)"
| "uminus_fl PInf = NInf"
| "uminus_fl NInf = PInf"
| "uminus_fl NaN = NaN"

fun plus_fl :: "fl \<Rightarrow> fl \<Rightarrow> fl" where
  "plus_fl (Fin a) (Fin b) = Fin (a + b)"
| "plus_fl NaN y = NaN"
| "plus_fl x NaN = NaN"
| "plus_fl PInf NInf = NaN"
| "plus_fl NInf PInf = NaN"
| "plus_fl PInf y = PInf"
| "plus_fl x PInf = PInf"
| "plus_fl NInf y = NInf"
| "plus_fl x NInf = NInf"

definition minus_fl :: "fl \<Rightarrow> fl \<Rightarrow> fl" where
  "minus_fl x y = x + (- y)"

fun times_fl :: "fl \<Rightarrow> fl \<Rightarrow> fl" where
  "times_fl (Fin a) (Fin b) = Fin (a * b)"
| "times_fl NaN y = NaN"
| "times_fl x NaN = NaN"
| "times_fl PInf (Fin b) = (if b = 0 then NaN else if 0 < b then PInf else NInf)"
| "times_fl NInf (Fin b) = (if b = 0 then NaN else if 0 < b then NInf else PInf)"
| "times_fl (Fin a) PInf = (if a = 0 then NaN else if 0 < a then PInf else NInf)"
| "times_fl (Fin a) NInf = (if a = 0 then NaN else if 0 < a then NInf else PInf)"
| "times_fl PInf PInf = PInf"
| "times_fl NInf NInf = PInf"
| "times_fl PInf NInf = NInf"
| "times_fl NInf PInf = NInf"

fun divide_fl :: "fl \<Rightarrow> fl \<Rightarrow> fl" where
  "divide_fl (Fin a) (Fin b) =
     (if b = 0 then (if a = 0 then NaN else if 0 < a then PInf else NInf)
      else Fin (a / b))"
| "divide_fl NaN y = NaN"
| "divide_fl x NaN = NaN"
| "divide_fl (Fin a) PInf = Fin 0"
| "divide_fl (Fin a) NInf = Fin 0"
| "divide_fl PInf (Fin b) = (if 0 \<le> b then PInf else NInf)"
| "divide_fl NInf (Fin b) = (if 0 \<le> b then NInf else PInf)"
| "divide_fl PInf y = NaN"
| "divide_fl NInf y = NaN"

definition inverse_fl :: "fl \<Rightarrow> fl" where
  "inverse_fl x = divide (Fin 1) x"

fun less_fl :: "fl \<Rightarrow> fl \<Rightarrow> bool" where
  "less_fl (Fin a) (Fin b) = (a < b)"
| "less_fl NaN y = False"
| "less_fl x NaN = False"
| "less_fl x NInf = False"
| "less_fl PInf y = False"
| "less_fl NInf y = True"
| "less_fl x PInf = True"

fun less_eq_fl :: "fl \<Rightarrow> fl \<Rightarrow> bool" where
  "less_eq_fl (Fin a) (Fin b) = (a \<le> b)"
| "less_eq_fl NaN y = False"
| "less_eq_fl x NaN = False"
| "less_eq_fl NInf y = True"
| "less_eq_fl x PInf = True"
| "less_eq_fl x NInf = False"
| "less_eq_fl PInf y = False"

instance ..

end

text \<open>The C operators \<^verbatim>\<open>==\<close> and \<^verbatim>\<open>!=\<close>: NaN is unequal to everything, itself included.\<close>

definition fl_eq :: "fl \<Rightarrow> fl \<Rightarrow> bool" where
  "fl_eq x y = (x \<noteq> NaN \<and> y \<noteq> NaN \<and> x = y)"

fun fabs :: "fl \<Rightarrow> fl" where
  "fabs (Fin a) = Fin \<bar>a\<bar>"
| "fabs PInf = PInf"
| "fabs NInf = PInf"
| "fabs NaN = NaN"

fun sqrt_fl :: "fl \<Rightarrow> fl" where
  "sqrt_fl (Fin a) = (if a < 0 then NaN else Fin (sqrt a))"
| "sqrt_fl PInf = PInf"
| "sqrt_fl NInf = NaN"
| "sqrt_fl NaN = NaN"

fun floor_fl :: "fl \<Rightarrow> fl" where
  "floor_fl (Fin a) = Fin (of_int \<lfloor>a\<rfloor>)"
| "floor_fl x = x"

text \<open>
  Conversion of a \<^verbatim>\<open>double\<close> to a 32-bit \<^verbatim>\<open>int\<close> truncates towards zero. C
  defines it only when the truncated value is representable; otherwise (and for an
  infinity or NaN) there is no result.
\<close>

fun int_of_double :: "fl \<Rightarrow> int option" where
  "int_of_double (Fin a) =
     (let k = (if 0 \<le> a then \<lfloor>a\<rfloor> else \<lceil>a\<rceil>)
      in if - 2147483648 \<le> k \<and> k \<le> 2147483647 then Some k else None)"
| "int_of_double x = None"

definition double_of_int :: "int \<Rightarrow> fl" where
  "double_of_int k = Fin (of_int k)"

section \<open>Enumerations\<close>

datatype ErrorCode =
  SUCCESS | REPEAT | DELETE | ERROR | ERROR_OUT_OF_BOUNDS | ERROR_TIME_EXTRAPOLATION

text \<open>
  Grid codes and interpolation codes arrive as C \<^verbatim>\<open>int\<close>s and are switched on with a
  default branch, so they stay integers here.
\<close>

abbreviation (input) RECTILINEAR_Z_GRID :: int where "RECTILINEAR_Z_GRID \<equiv> 0"
abbreviation (input) RECTILINEAR_S_GRID :: int where "RECTILINEAR_S_GRID \<equiv> 1"
abbreviation (input) CURVILINEAR_Z_GRID :: int where "CURVILINEAR_Z_GRID \<equiv> 2"
abbreviation (input) CURVILINEAR_S_GRID :: int where "CURVILINEAR_S_GRID \<equiv> 3"

abbreviation (input) LINEAR :: int where "LINEAR \<equiv> 0"
abbreviation (input) NEAREST :: int where "NEAREST \<equiv> 1"

section \<open>Arrays and the linear walks\<close>

text \<open>
  A C array is modelled by the memory its pointer views: a function from element offset
  to value. The dimension arguments say which offsets belong to the array; C gives an
  access at any other offset no meaning, and here it reads whatever the function holds
  there. The pointer casts to multi-rank arrays become row-major offset arithmetic, the
  \<^verbatim>\<open>x\<close> index last. C \<^verbatim>\<open>int\<close> indices and counters are modelled by unbounded
  integers: they stay between \<open>-1\<close> and the grid dimensions or the iteration caps.
\<close>

definition idx2 :: "int \<Rightarrow> int \<Rightarrow> int \<Rightarrow> int" where
  "idx2 xdim yi xi = yi * xdim + xi"

definition idx3 :: "int \<Rightarrow> int \<Rightarrow> int \<Rightarrow> int \<Rightarrow> int \<Rightarrow> int" where
  "idx3 ydim xdim zi yi xi = (zi * ydim + yi) * xdim + xi"

definition idx4 :: "int \<Rightarrow> int \<Rightarrow> int \<Rightarrow> int \<Rightarrow> int \<Rightarrow> int \<Rightarrow> int \<Rightarrow> int" where
  "idx4 zdim ydim xdim ti zi yi xi = ((ti * zdim + zi) * ydim + yi) * xdim + xi"

text \<open>
  The walks \<^verbatim>\<open>while (*xi < xdim-1 && x > xvals[*xi+1]) ++(*xi);\<close> and
  \<^verbatim>\<open>while (*xi > 0 && x < xvals[*xi]) --(*xi);\<close> occur, with other names for the
  variables, on the x, y and z axes.
\<close>

function walk_up :: "fl \<Rightarrow> int \<Rightarrow> (int \<Rightarrow> fl) \<Rightarrow> int \<Rightarrow> int" where
  "walk_up x xdim xvals xi =
     (if xi < xdim - 1 \<and> x > xvals (xi + 1) then walk_up x xdim xvals (xi + 1) else xi)"
  by pat_completeness auto
termination
  by (relation "measure (\<lambda>(x, xdim, xvals, xi). nat (xdim - 1 - xi))") auto

function walk_down :: "fl \<Rightarrow> (int \<Rightarrow> fl) \<Rightarrow> int \<Rightarrow> int" where
  "walk_down x xvals xi =
     (if xi > 0 \<and> x < xvals xi then walk_down x xvals (xi - 1) else xi)"
  by pat_completeness auto
termination
  by (relation "measure (\<lambda>(x, xvals, xi). nat xi)") auto


section \<open>The vertical locators\<close>

definition search_indices_vertical_z ::
  "fl \<Rightarrow> int \<Rightarrow> (int \<Rightarrow> fl) \<Rightarrow> int \<Rightarrow> fl \<Rightarrow> ErrorCode \<times> int \<times> fl"
where
  "search_indices_vertical_z z zdim zvals zi zeta =
     (if z < zvals 0 \<or> z > zvals (zdim - 1) then (ERROR_OUT_OF_BOUNDS, zi, zeta)
      else
        let zi1 = walk_up z zdim zvals zi;
            zi2 = walk_down z zvals zi1;
            zi3 = (if zi2 = zdim - 1 then zi2 - 1 else zi2)
        in (SUCCESS, zi3, (z - zvals zi3) / (zvals (zi3 + 1) - zvals zi3)))"

text \<open>
  The column \<^verbatim>\<open>zcol\<close> that \<^verbatim>\<open>search_indices_vertical_s\<close> synthesises: the C
  loop fills the offsets \<open>0 .. zdim-1\<close>.
\<close>

definition zcol_s ::
  "int \<Rightarrow> int \<Rightarrow> int \<Rightarrow> (int \<Rightarrow> fl) \<Rightarrow> int \<Rightarrow> int \<Rightarrow> fl \<Rightarrow> fl \<Rightarrow>
   int \<Rightarrow> int \<Rightarrow> int \<Rightarrow> fl \<Rightarrow> fl \<Rightarrow> fl \<Rightarrow> int \<Rightarrow> fl"
where
  "zcol_s xdim ydim zdim zvals xi yi xsi eta z4d ti tdim time t0 t1 zii =
     (if z4d = 1 then
        let ti1 = (if ti < tdim - 1 then ti + 1 else ti);
            zt0 = (Fin 1 - xsi) * (Fin 1 - eta) * zvals (idx4 zdim ydim xdim ti zii yi xi)
                + xsi * (Fin 1 - eta) * zvals (idx4 zdim ydim xdim ti zii yi (xi + 1))
                + xsi * eta * zvals (idx4 zdim ydim xdim ti zii (yi + 1) (xi + 1))
                + (Fin 1 - xsi) * eta * zvals (idx4 zdim ydim xdim ti zii (yi + 1) xi);
            zt1 = (Fin 1 - xsi) * (Fin 1 - eta) * zvals (idx4 zdim ydim xdim ti1 zii yi xi)
                + xsi * (Fin 1 - eta) * zvals (idx4 zdim ydim xdim ti1 zii yi (xi + 1))
                + xsi * eta * zvals (idx4 zdim ydim xdim ti1 zii (yi + 1) (xi + 1))
                + (Fin 1 - xsi) * eta * zvals (idx4 zdim ydim xdim ti1 zii (yi + 1) xi)
        in zt0 + (zt1 - zt0) * ((time - t0) / (t1 - t0))
      else
        (Fin 1 - xsi) * (Fin 1 - eta) * zvals (idx3 ydim xdim zii yi xi)
        + xsi * (Fin 1 - eta) * zvals (idx3 ydim xdim zii yi (xi + 1))
        + xsi * eta * zvals (idx3 ydim xdim zii (yi + 1) (xi + 1))
        + (Fin 1 - xsi) * eta * zvals (idx3 ydim xdim zii (yi + 1) xi))"

definition search_indices_vertical_s ::
  "fl \<Rightarrow> int \<Rightarrow> int \<Rightarrow> int \<Rightarrow> (int \<Rightarrow> fl) \<Rightarrow> int \<Rightarrow> int \<Rightarrow> int \<Rightarrow> fl \<Rightarrow> fl \<Rightarrow> fl \<Rightarrow>
   int \<Rightarrow> int \<Rightarrow> int \<Rightarrow> fl \<Rightarrow> fl \<Rightarrow> fl \<Rightarrow> ErrorCode \<times> int \<times> fl"
where
  "search_indices_vertical_s z xdim ydim zdim zvals xi yi zi xsi eta zeta
       z4d ti tdim time t0 t1 =
     (let zcol = zcol_s xdim ydim zdim zvals xi yi xsi eta z4d ti tdim time t0 t1 in
      if z < zcol 0 \<or> z > zcol (zdim - 1) then (ERROR_OUT_OF_BOUNDS, zi, zeta)
      else
        let zi1 = walk_up z zdim zcol zi;
            zi2 = walk_down z zcol zi1;
            zi3 = (if zi2 = zdim - 1 then zi2 - 1 else zi2)
        in (SUCCESS, zi3, (z - zcol zi3) / (zcol (zi3 + 1) - zcol zi3)))"

section \<open>Index repair\<close>

text \<open>The flag \<^verbatim>\<open>sphere_mesh\<close> is tested as a C truth value: nonzero is true.\<close>

definition fix_1d_index :: "int \<Rightarrow> int \<Rightarrow> int \<Rightarrow> int" where
  "fix_1d_index xi xdim sphere_mesh =
     (let xi1 = (if xi < 0 then (if sphere_mesh \<noteq> 0 then xdim - 2 else 0) else xi)
      in if xi1 > xdim - 2 then (if sphere_mesh \<noteq> 0 then 0 else xdim - 2) else xi1)"

definition fix_2d_indices :: "int \<Rightarrow> int \<Rightarrow> int \<Rightarrow> int \<Rightarrow> int \<Rightarrow> int \<times> int" where
  "fix_2d_indices xi yi xdim ydim sphere_mesh =
     (let xi1 = (if xi < 0 then (if sphere_mesh \<noteq> 0 then xdim - 2 else 0) else xi);
          xi2 = (if xi1 > xdim - 2 then (if sphere_mesh \<noteq> 0 then 0 else xdim - 2) else xi1);
          yi1 = (if yi < 0 then 0 else yi)
      in if yi1 > ydim - 2
         then (if sphere_mesh \<noteq> 0 then xdim - xi2 else xi2, ydim - 2)
         else (xi2, yi1))"

section \<open>The rectilinear horizontal locator\<close>

text \<open>
  Longitude unwrapping on the sphere:
  \<^verbatim>\<open>if (xvalsi < x - 225) xvalsi += 360; if (xvalsi > x + 225) xvalsi -= 360;\<close> and
  \<^verbatim>\<open>if (xvalsi1 < xvalsi - 180) xvalsi1 += 360; if (xvalsi1 > xvalsi + 180) xvalsi1 -= 360;\<close>
\<close>

definition unwrap :: "fl \<Rightarrow> fl \<Rightarrow> fl \<Rightarrow> fl" where
  "unwrap w c v =
     (let v1 = (if v < c - w then v + Fin 360 else v)
      in if v1 > c + w then v1 - Fin 360 else v1)"

text \<open>
  The search loop on the sphere, entered with the unwrapped ends \<^verbatim>\<open>xvalsi\<close>,
  \<^verbatim>\<open>xvalsi1\<close> of the hinted cell and \<^verbatim>\<open>it = 0\<close>. It ends with the cell found or,
  after more than \<^verbatim>\<open>itMax = 10000\<close> steps, with \<^verbatim>\<open>ERROR_OUT_OF_BOUNDS\<close>.
\<close>

function sphere_search ::
  "fl \<Rightarrow> int \<Rightarrow> (int \<Rightarrow> fl) \<Rightarrow> int \<Rightarrow> fl \<Rightarrow> fl \<Rightarrow> int \<Rightarrow> ErrorCode \<times> int \<times> fl \<times> fl"
where
  "sphere_search x xdim xvals xi xvalsi xvalsi1 it =
     (if xvalsi > x \<or> xvalsi1 < x then
        let xi1 = (if xvalsi1 < x then xi + 1 else if xvalsi > x then xi - 1 else xi);
            xi2 = fix_1d_index xi1 xdim 1;
            xvalsi' = unwrap (Fin 225) x (xvals xi2);
            xvalsi1' = unwrap (Fin 180) xvalsi' (xvals (xi2 + 1))
        in if it + 1 > 10000 then (ERROR_OUT_OF_BOUNDS, xi2, xvalsi', xvalsi1')
           else sphere_search x xdim xvals xi2 xvalsi' xvalsi1' (it + 1)
      else (SUCCESS, xi, xvalsi, xvalsi1))"
  by pat_completeness auto
termination
  by (relation "measure (\<lambda>(x, xdim, xvals, xi, xvalsi, xvalsi1, it). nat (10001 - it))") auto

text \<open>
  The vertical stage shared by both horizontal locators. First the \<^verbatim>\<open>switch\<close> on the
  grid code under \<^verbatim>\<open>if (zdim > 1)\<close>, with the Z-grid code \<open>zcode\<close> and the S-grid code
  \<open>scode\<close> of the caller, and \<^verbatim>\<open>*zeta = 0\<close> otherwise; it yields \<^verbatim>\<open>err\<close> (which
  is \<^verbatim>\<open>SUCCESS\<close> where C leaves it unset), \<^verbatim>\<open>*zi\<close> and \<^verbatim>\<open>*zeta\<close>. Then
  \<^verbatim>\<open>CHECKERROR(err)\<close> and the final range checks on \<^verbatim>\<open>xsi\<close>, \<^verbatim>\<open>eta\<close> and
  \<^verbatim>\<open>zeta\<close>.
\<close>

definition vertical_switch ::
  "int \<Rightarrow> int \<Rightarrow> fl \<Rightarrow> int \<Rightarrow> int \<Rightarrow> int \<Rightarrow> (int \<Rightarrow> fl) \<Rightarrow> int \<Rightarrow>
   int \<Rightarrow> int \<Rightarrow> int \<Rightarrow> fl \<Rightarrow> fl \<Rightarrow> fl \<Rightarrow> int \<Rightarrow> int \<Rightarrow> int \<Rightarrow> fl \<Rightarrow> fl \<Rightarrow> fl \<Rightarrow>
   ErrorCode \<times> int \<times> fl"
where
  "vertical_switch zcode scode z xdim ydim zdim zvals gcode xi yi zi xsi eta zeta
       z4d ti tdim time t0 t1 =
     (if zdim > 1 then
        (if gcode = zcode then search_indices_vertical_z z zdim zvals zi zeta
         else if gcode = scode then
           search_indices_vertical_s z xdim ydim zdim zvals xi yi zi xsi eta zeta
             z4d ti tdim time t0 t1
         else (ERROR, zi, zeta))
      else (SUCCESS, zi, Fin 0))"

definition vertical_stage ::
  "int \<Rightarrow> int \<Rightarrow> fl \<Rightarrow> int \<Rightarrow> int \<Rightarrow> int \<Rightarrow> (int \<Rightarrow> fl) \<Rightarrow> int \<Rightarrow>
   int \<Rightarrow> int \<Rightarrow> int \<Rightarrow> fl \<Rightarrow> fl \<Rightarrow> fl \<Rightarrow> int \<Rightarrow> int \<Rightarrow> int \<Rightarrow> fl \<Rightarrow> fl \<Rightarrow> fl \<Rightarrow>
   ErrorCode \<times> int \<times> int \<times> int \<times> fl \<times> fl \<times> fl"
where
  "vertical_stage zcode scode z xdim ydim zdim zvals gcode xi yi zi xsi eta zeta
       z4d ti tdim time t0 t1 =
     (let (err, zi', zeta') =
            vertical_switch zcode scode z xdim ydim zdim zvals gcode xi yi zi xsi eta zeta
              z4d ti tdim time t0 t1
      in if err \<noteq> SUCCESS then (err, xi, yi, zi', xsi, eta, zeta')
         else if xsi < Fin 0 \<or> xsi > Fin 1 then (ERROR_OUT_OF_BOUNDS, xi, yi, zi', xsi, eta, zeta')
         else if eta < Fin 0 \<or> eta > Fin 1 then (ERROR_OUT_OF_BOUNDS, xi, yi, zi', xsi, eta, zeta')
         else if zeta' < Fin 0 \<or> zeta' > Fin 1 then (ERROR_OUT_OF_BOUNDS, xi, yi, zi', xsi, eta, zeta')
         else (SUCCESS, xi, yi, zi', xsi, eta, zeta'))"

text \<open>
  The x-axis stage of \<^verbatim>\<open>search_indices_rectilinear\<close>, that is its first
  \<^verbatim>\<open>if (sphere_mesh == 0) ... else ...\<close>: it yields \<^verbatim>\<open>ERROR_OUT_OF_BOUNDS\<close> where the
  C code returns from inside it, and otherwise \<^verbatim>\<open>SUCCESS\<close>, with \<^verbatim>\<open>*xi\<close> and
  \<^verbatim>\<open>*xsi\<close>.
\<close>

definition rectilinear_x ::
  "fl \<Rightarrow> int \<Rightarrow> (int \<Rightarrow> fl) \<Rightarrow> int \<Rightarrow> int \<Rightarrow> int \<Rightarrow> fl \<Rightarrow> ErrorCode \<times> int \<times> fl"
where
  "rectilinear_x x xdim xvals sphere_mesh zonal_periodic xi xsi =
     (if sphere_mesh = 0 then
        (if x < xvals 0 \<or> x > xvals (xdim - 1) then (ERROR_OUT_OF_BOUNDS, xi, xsi)
         else
           let xi1 = walk_down x xvals (walk_up x xdim xvals xi)
           in (SUCCESS, xi1, (x - xvals xi1) / (xvals (xi1 + 1) - xvals xi1)))
      else
        (if zonal_periodic = 0 \<and> xvals 0 < xvals (xdim - 1) \<and>
            (x < xvals 0 \<or> x > xvals (xdim - 1))
         then (ERROR_OUT_OF_BOUNDS, xi, xsi)
         else if zonal_periodic = 0 \<and> xvals 0 \<ge> xvals (xdim - 1) \<and>
            (x < xvals 0 \<and> x > xvals (xdim - 1))
         then (ERROR_OUT_OF_BOUNDS, xi, xsi)
         else
           let xvalsi = unwrap (Fin 225) x (xvals xi);
               xvalsi1 = unwrap (Fin 180) xvalsi (xvals (xi + 1));
               (err, xi1, xvalsi', xvalsi1') = sphere_search x xdim xvals xi xvalsi xvalsi1 0
           in if err \<noteq> SUCCESS then (err, xi1, xsi)
              else (SUCCESS, xi1, (x - xvalsi') / (xvalsi1' - xvalsi'))))"

definition search_indices_rectilinear ::
  "fl \<Rightarrow> fl \<Rightarrow> fl \<Rightarrow> int \<Rightarrow> int \<Rightarrow> int \<Rightarrow> (int \<Rightarrow> fl) \<Rightarrow> (int \<Rightarrow> fl) \<Rightarrow> (int \<Rightarrow> fl) \<Rightarrow>
   int \<Rightarrow> int \<Rightarrow> int \<Rightarrow> int \<Rightarrow> int \<Rightarrow> int \<Rightarrow> fl \<Rightarrow> fl \<Rightarrow> fl \<Rightarrow>
   int \<Rightarrow> int \<Rightarrow> int \<Rightarrow> fl \<Rightarrow> fl \<Rightarrow> fl \<Rightarrow>
   ErrorCode \<times> int \<times> int \<times> int \<times> fl \<times> fl \<times> fl"
where
  "search_indices_rectilinear x y z xdim ydim zdim xvals yvals zvals
       sphere_mesh zonal_periodic gcode xi yi zi xsi eta zeta z4d ti tdim time t0 t1 =
     (let (errx, xi', xsi') = rectilinear_x x xdim xvals sphere_mesh zonal_periodic xi xsi
      in if errx \<noteq> SUCCESS then (errx, xi', yi, zi, xsi', eta, zeta)
         else if y < yvals 0 \<or> y > yvals (ydim - 1)
         then (ERROR_OUT_OF_BOUNDS, xi', yi, zi, xsi', eta, zeta)
         else
           let yi' = walk_down y yvals (walk_up y ydim yvals yi);
               eta' = (y - yvals yi') / (yvals (yi' + 1) - yvals yi')
           in vertical_stage RECTILINEAR_Z_GRID RECTILINEAR_S_GRID z xdim ydim zdim zvals gcode
                xi' yi' zi xsi' eta' zeta z4d ti tdim time t0 t1)"

section \<open>The curvilinear horizontal locator\<close>

text \<open>
  One pass of the loop body up to the assignment of \<^verbatim>\<open>*xsi\<close>: the inverse bilinear
  map on the cell \<open>(xi, yi)\<close>. It returns the new \<^verbatim>\<open>(*xsi, *eta)\<close>; \<open>eta\<close> is the
  value of \<^verbatim>\<open>*eta\<close> from the pass before, kept when the discriminant is NaN.
\<close>

definition curvilinear_cell ::
  "fl \<Rightarrow> fl \<Rightarrow> int \<Rightarrow> (int \<Rightarrow> fl) \<Rightarrow> (int \<Rightarrow> fl) \<Rightarrow> int \<Rightarrow> int \<Rightarrow> int \<Rightarrow> fl \<Rightarrow> fl \<times> fl"
where
  "curvilinear_cell x y xdim xgrid ygrid sphere_mesh xi yi eta =
     (let x0 = xgrid (idx2 xdim yi xi);
          x1 = xgrid (idx2 xdim yi (xi + 1));
          x2 = xgrid (idx2 xdim (yi + 1) (xi + 1));
          x3 = xgrid (idx2 xdim (yi + 1) xi);
          xgrid_loc0 = (if sphere_mesh \<noteq> 0 then unwrap (Fin 225) x x0 else x0);
          xgrid_loc1 = (if sphere_mesh \<noteq> 0 then unwrap (Fin 180) xgrid_loc0 x1 else x1);
          xgrid_loc2 = (if sphere_mesh \<noteq> 0 then unwrap (Fin 180) xgrid_loc0 x2 else x2);
          xgrid_loc3 = (if sphere_mesh \<noteq> 0 then unwrap (Fin 180) xgrid_loc0 x3 else x3);
          ygrid_loc0 = ygrid (idx2 xdim yi xi);
          ygrid_loc1 = ygrid (idx2 xdim yi (xi + 1));
          ygrid_loc2 = ygrid (idx2 xdim (yi + 1) (xi + 1));
          ygrid_loc3 = ygrid (idx2 xdim (yi + 1) xi);
          a0 = xgrid_loc0;
          a1 = - xgrid_loc0 + xgrid_loc1;
          a2 = - xgrid_loc0 + xgrid_loc3;
          a3 = xgrid_loc0 - xgrid_loc1 + xgrid_loc2 - xgrid_loc3;
          b0 = ygrid_loc0;
          b1 = - ygrid_loc0 + ygrid_loc1;
          b2 = - ygrid_loc0 + ygrid_loc3;
          b3 = ygrid_loc0 - ygrid_loc1 + ygrid_loc2 - ygrid_loc3;
          aa = a3 * b2 - a2 * b3;
          bb = a3 * b0 - a0 * b3 + a1 * b2 - a2 * b1 + x * b3 - y * a3;
          cc = a1 * b0 - a0 * b1 + x * b1 - y * a1;
          eta' = (if fabs aa < Fin (1 / 10 ^ 12) then (- cc) / bb
                  else
                    let det = sqrt_fl (bb * bb - Fin 4 * aa * cc)
                    in if fl_eq det det then (- bb + det) / (Fin 2 * aa) else eta);
          xsi' = (x - a0 - a2 * eta') / (a1 + a3 * eta')
      in (xsi', eta'))"

text \<open>
  The search loop, entered with \<^verbatim>\<open>*xsi = *eta = -1\<close> and \<^verbatim>\<open>it = 0\<close>;
  \<^verbatim>\<open>maxIterSearch\<close> is \<open>10\<^sup>6\<close>.
\<close>

function curvilinear_search ::
  "fl \<Rightarrow> fl \<Rightarrow> int \<Rightarrow> int \<Rightarrow> (int \<Rightarrow> fl) \<Rightarrow> (int \<Rightarrow> fl) \<Rightarrow> int \<Rightarrow>
   int \<Rightarrow> int \<Rightarrow> fl \<Rightarrow> fl \<Rightarrow> int \<Rightarrow> ErrorCode \<times> int \<times> int \<times> fl \<times> fl"
where
  "curvilinear_search x y xdim ydim xgrid ygrid sphere_mesh xi yi xsi eta it =
     (if xsi < Fin 0 \<or> xsi > Fin 1 \<or> eta < Fin 0 \<or> eta > Fin 1 then
        let (xsi', eta') = curvilinear_cell x y xdim xgrid ygrid sphere_mesh xi yi eta in
        if xsi' < Fin 0 \<and> eta' < Fin 0 \<and> xi = 0 \<and> yi = 0
        then (ERROR_OUT_OF_BOUNDS, xi, yi, xsi', eta')
        else if xsi' > Fin 1 \<and> eta' > Fin 1 \<and> xi = xdim - 1 \<and> yi = ydim - 1
        then (ERROR_OUT_OF_BOUNDS, xi, yi, xsi', eta')
        else
          let xi1 = (if xsi' < Fin 0 then xi - 1 else xi);
              xi2 = (if xsi' > Fin 1 then xi1 + 1 else xi1);
              yi1 = (if eta' < Fin 0 then yi - 1 else yi);
              yi2 = (if eta' > Fin 1 then yi1 + 1 else yi1);
              (xi3, yi3) = fix_2d_indices xi2 yi2 xdim ydim sphere_mesh
          in if it + 1 > 1000000 then (ERROR_OUT_OF_BOUNDS, xi3, yi3, xsi', eta')
             else curvilinear_search x y xdim ydim xgrid ygrid sphere_mesh xi3 yi3 xsi' eta' (it + 1)
      else (SUCCESS, xi, yi, xsi, eta))"
  by pat_completeness auto
termination
  by (relation "measure (\<lambda>(x, y, xdim, ydim, xgrid, ygrid, sphere_mesh, xi, yi, xsi, eta, it).
        nat (1000001 - it))") auto

definition search_indices_curvilinear ::
  "fl \<Rightarrow> fl \<Rightarrow> fl \<Rightarrow> int \<Rightarrow> int \<Rightarrow> int \<Rightarrow> (int \<Rightarrow> fl) \<Rightarrow> (int \<Rightarrow> fl) \<Rightarrow> (int \<Rightarrow> fl) \<Rightarrow>
   int \<Rightarrow> int \<Rightarrow> int \<Rightarrow> int \<Rightarrow> int \<Rightarrow> int \<Rightarrow> fl \<Rightarrow> fl \<Rightarrow> fl \<Rightarrow>
   int \<Rightarrow> int \<Rightarrow> int \<Rightarrow> fl \<Rightarrow> fl \<Rightarrow> fl \<Rightarrow>
   ErrorCode \<times> int \<times> int \<times> int \<times> fl \<times> fl \<times> fl"
where
  "search_indices_curvilinear x y z xdim ydim zdim xvals yvals zvals
       sphere_mesh zonal_periodic gcode xi yi zi xsi eta zeta z4d ti tdim time t0 t1 =
     (if (zonal_periodic = 0 \<or> sphere_mesh = 0) \<and>
         xvals (idx2 xdim 0 0) < xvals (idx2 xdim 0 (xdim - 1)) \<and>
         (x < xvals (idx2 xdim 0 0) \<or> x > xvals (idx2 xdim 0 (xdim - 1)))
      then (ERROR_OUT_OF_BOUNDS, xi, yi, zi, xsi, eta, zeta)
      else if (zonal_periodic = 0 \<or> sphere_mesh = 0) \<and>
         xvals (idx2 xdim 0 0) \<ge> xvals (idx2 xdim 0 (xdim - 1)) \<and>
         (x < xvals (idx2 xdim 0 0) \<and> x > xvals (idx2 xdim 0 (xdim - 1)))
      then (ERROR_OUT_OF_BOUNDS, xi, yi, zi, xsi, eta, zeta)
      else
        let (err, xi', yi', xsi', eta') =
              curvilinear_search x y xdim ydim xvals yvals sphere_mesh xi yi (Fin (- 1)) (Fin (- 1)) 0
        in if err \<noteq> SUCCESS then (err, xi', yi', zi, xsi', eta', zeta)
           else if \<not> fl_eq xsi' xsi' \<or> \<not> fl_eq eta' eta'
           then (ERROR_OUT_OF_BOUNDS, xi', yi', zi, xsi', eta', zeta)
           else vertical_stage CURVILINEAR_Z_GRID CURVILINEAR_S_GRID z xdim ydim zdim zvals gcode
                  xi' yi' zi xsi' eta' zeta z4d ti tdim time t0 t1)"

definition search_indices ::
  "fl \<Rightarrow> fl \<Rightarrow> fl \<Rightarrow> int \<Rightarrow> int \<Rightarrow> int \<Rightarrow> (int \<Rightarrow> fl) \<Rightarrow> (int \<Rightarrow> fl) \<Rightarrow> (int \<Rightarrow> fl) \<Rightarrow>
   int \<Rightarrow> int \<Rightarrow> int \<Rightarrow> fl \<Rightarrow> fl \<Rightarrow> fl \<Rightarrow> int \<Rightarrow> int \<Rightarrow> int \<Rightarrow> int \<Rightarrow>
   int \<Rightarrow> int \<Rightarrow> fl \<Rightarrow> fl \<Rightarrow> fl \<Rightarrow>
   ErrorCode \<times> int \<times> int \<times> int \<times> fl \<times> fl \<times> fl"
where
  "search_indices x y z xdim ydim zdim xvals yvals zvals xi yi zi xsi eta zeta
       sphere_mesh zonal_periodic gcode z4d ti tdim time t0 t1 =
     (if gcode = RECTILINEAR_Z_GRID \<or> gcode = RECTILINEAR_S_GRID then
        search_indices_rectilinear x y z xdim ydim zdim xvals yvals zvals
          sphere_mesh zonal_periodic gcode xi yi zi xsi eta zeta z4d ti tdim time t0 t1
      else if gcode = CURVILINEAR_Z_GRID \<or> gcode = CURVILINEAR_S_GRID then
        search_indices_curvilinear x y z xdim ydim zdim xvals yvals zvals
          sphere_mesh zonal_periodic gcode xi yi zi xsi eta zeta z4d ti tdim time t0 t1
      else (ERROR, xi, yi, zi, xsi, eta, zeta))"

section \<open>The time locator\<close>

text \<open>
  The two loops of \<^verbatim>\<open>search_time_index\<close>:
  \<^verbatim>\<open>while (*ti < size-1 && *t >= tvals[*ti+1]) ++(*ti);\<close>
  \<^verbatim>\<open>while (*ti > 0 && *t < tvals[*ti]) --(*ti);\<close>
  The second loop has the shape of the downward walks of the spatial locators and shares
  their definition \<open>walk_down\<close>. The parameter \<open>tsize\<close> is the C parameter
  \<^verbatim>\<open>size\<close>. The function calls itself after reducing a periodic time and ignores
  the code that call returns; \<open>None\<close> stands for a call that yields no result (the
  recursion does not end, or the conversion to \<^verbatim>\<open>int\<close> is undefined).
\<close>

function time_walk_up :: "fl \<Rightarrow> int \<Rightarrow> (int \<Rightarrow> fl) \<Rightarrow> int \<Rightarrow> int" where
  "time_walk_up t tsize tvals ti =
     (if ti < tsize - 1 \<and> t \<ge> tvals (ti + 1) then time_walk_up t tsize tvals (ti + 1) else ti)"
  by pat_completeness auto
termination
  by (relation "measure (\<lambda>(t, tsize, tvals, ti). nat (tsize - 1 - ti))") auto

partial_function (option) search_time_index ::
  "fl \<Rightarrow> int \<Rightarrow> (int \<Rightarrow> fl) \<Rightarrow> int \<Rightarrow> int \<Rightarrow> (ErrorCode \<times> fl \<times> int) option"
where
  "search_time_index t tsize tvals ti time_periodic =
     (let ti0 = (if ti < 0 then 0 else ti) in
      if time_periodic = 1 \<and> t < tvals 0 then
        Option.bind (int_of_double (floor_fl ((t - tvals 0) / (tvals (tsize - 1) - tvals 0))))
          (\<lambda>periods.
             Option.bind
               (search_time_index (t - double_of_int periods * (tvals (tsize - 1) - tvals 0))
                  tsize tvals (tsize - 1) time_periodic)
               (\<lambda>(err, t', ti').
                  Some (SUCCESS, t', walk_down t' tvals (time_walk_up t' tsize tvals ti'))))
      else if time_periodic = 1 \<and> t > tvals (tsize - 1) then
        Option.bind (int_of_double (floor_fl ((t - tvals 0) / (tvals (tsize - 1) - tvals 0))))
          (\<lambda>periods.
             Option.bind
               (search_time_index (t - double_of_int periods * (tvals (tsize - 1) - tvals 0))
                  tsize tvals 0 time_periodic)
               (\<lambda>(err, t', ti').
                  Some (SUCCESS, t', walk_down t' tvals (time_walk_up t' tsize tvals ti'))))
      else Some (SUCCESS, t, walk_down t tvals (time_walk_up t tsize tvals ti0)))"


section \<open>Spatial kernels\<close>

text \<open>
  Each kernel receives the time slice \<^verbatim>\<open>f_data\<close> of the data cube, writes
  \<^verbatim>\<open>*value\<close> and returns \<^verbatim>\<open>SUCCESS\<close>; the model returns the code and the value
  written.
\<close>

definition spatial_interpolation_bilinear ::
  "fl \<Rightarrow> fl \<Rightarrow> int \<Rightarrow> int \<Rightarrow> int \<Rightarrow> (int \<Rightarrow> fl) \<Rightarrow> ErrorCode \<times> fl"
where
  "spatial_interpolation_bilinear xsi eta xi yi xdim f_data =
     (SUCCESS,
      (Fin 1 - xsi) * (Fin 1 - eta) * f_data (idx2 xdim yi xi)
      + xsi * (Fin 1 - eta) * f_data (idx2 xdim yi (xi + 1))
      + xsi * eta * f_data (idx2 xdim (yi + 1) (xi + 1))
      + (Fin 1 - xsi) * eta * f_data (idx2 xdim (yi + 1) xi))"

definition spatial_interpolation_trilinear ::
  "fl \<Rightarrow> fl \<Rightarrow> fl \<Rightarrow> int \<Rightarrow> int \<Rightarrow> int \<Rightarrow> int \<Rightarrow> int \<Rightarrow> (int \<Rightarrow> fl) \<Rightarrow> ErrorCode \<times> fl"
where
  "spatial_interpolation_trilinear xsi eta zeta xi yi zi xdim ydim f_data =
     (let f0 = (Fin 1 - xsi) * (Fin 1 - eta) * f_data (idx3 ydim xdim zi yi xi)
             + xsi * (Fin 1 - eta) * f_data (idx3 ydim xdim zi yi (xi + 1))
             + xsi * eta * f_data (idx3 ydim xdim zi (yi + 1) (xi + 1))
             + (Fin 1 - xsi) * eta * f_data (idx3 ydim xdim zi (yi + 1) xi);
          f1 = (Fin 1 - xsi) * (Fin 1 - eta) * f_data (idx3 ydim xdim (zi + 1) yi xi)
             + xsi * (Fin 1 - eta) * f_data (idx3 ydim xdim (zi + 1) yi (xi + 1))
             + xsi * eta * f_data (idx3 ydim xdim (zi + 1) (yi + 1) (xi + 1))
             + (Fin 1 - xsi) * eta * f_data (idx3 ydim xdim (zi + 1) (yi + 1) xi)
      in (SUCCESS, (Fin 1 - zeta) * f0 + zeta * f1))"

definition spatial_interpolation_nearest2D ::
  "fl \<Rightarrow> fl \<Rightarrow> int \<Rightarrow> int \<Rightarrow> int \<Rightarrow> (int \<Rightarrow> fl) \<Rightarrow> ErrorCode \<times> fl"
where
  "spatial_interpolation_nearest2D xsi eta xi yi xdim f_data =
     (let ii = (if xsi < Fin (1 / 2) then xi else xi + 1);
          jj = (if eta < Fin (1 / 2) then yi else yi + 1)
      in (SUCCESS, f_data (idx2 xdim jj ii)))"

definition spatial_interpolation_nearest3D ::
  "fl \<Rightarrow> fl \<Rightarrow> fl \<Rightarrow> int \<Rightarrow> int \<Rightarrow> int \<Rightarrow> int \<Rightarrow> int \<Rightarrow> (int \<Rightarrow> fl) \<Rightarrow> ErrorCode \<times> fl"
where
  "spatial_interpolation_nearest3D xsi eta zeta xi yi zi xdim ydim f_data =
     (let ii = (if xsi < Fin (1 / 2) then xi else xi + 1);
          jj = (if eta < Fin (1 / 2) then yi else yi + 1);
          kk = (if zeta < Fin (1 / 2) then zi else zi + 1)
      in (SUCCESS, f_data (idx3 ydim xdim kk jj ii)))"

section \<open>Grids, fields and cursors\<close>

text \<open>
  The C structs. A field name carries the prefix of its struct (\<open>g_\<close> for
  \<^verbatim>\<open>CStructuredGrid\<close>, \<open>c_\<close> for \<^verbatim>\<open>CGrid\<close>, \<open>f_\<close> for \<^verbatim>\<open>CField\<close>), since the
  functions above use the bare names for their parameters. The \<^verbatim>\<open>void *grid\<close> of
  \<^verbatim>\<open>CGrid\<close> is the structured grid it points to.
\<close>

record CStructuredGrid =
  g_xdim :: int
  g_ydim :: int
  g_zdim :: int
  g_tdim :: int
  g_z4d :: int
  g_sphere_mesh :: int
  g_zonal_periodic :: int
  g_lon :: "int \<Rightarrow> fl"
  g_lat :: "int \<Rightarrow> fl"
  g_depth :: "int \<Rightarrow> fl"
  g_time :: "int \<Rightarrow> fl"

record CGrid =
  c_gtype :: int
  c_grid :: CStructuredGrid

record CField =
  f_xdim :: int
  f_ydim :: int
  f_zdim :: int
  f_tdim :: int
  f_igrid :: int
  f_allow_time_extrapolation :: int
  f_time_periodic :: int
  f_data :: "int \<Rightarrow> fl"
  f_grid :: CGrid

text \<open>
  The caller's cursor arrays \<^verbatim>\<open>xi\<close>, \<^verbatim>\<open>yi\<close>, \<^verbatim>\<open>zi\<close>, \<^verbatim>\<open>ti\<close>, indexed by the
  slot \<^verbatim>\<open>igrid\<close> of a field's grid.
\<close>

type_synonym cursors = "(int \<Rightarrow> int) \<times> (int \<Rightarrow> int) \<times> (int \<Rightarrow> int) \<times> (int \<Rightarrow> int)"

section \<open>The temporal interpolation driver\<close>

text \<open>
  The time slice \<^verbatim>\<open>data[ti]\<close> of the cube
  \<^verbatim>\<open>data[tdim][f->zdim][f->ydim][f->xdim]\<close>, as the memory seen from its first
  element.
\<close>

definition data_slice :: "CField \<Rightarrow> int \<Rightarrow> int \<Rightarrow> fl" where
  "data_slice f ti = (\<lambda>i. f_data f (ti * (f_zdim f * f_ydim f * f_xdim f) + i))"

text \<open>
  The choice of spatial kernel, which the driver spells out three times: by
  \<^verbatim>\<open>interp_method\<close> and by \<^verbatim>\<open>grid->zdim == 1\<close>. \<open>None\<close> is the driver's
  \<^verbatim>\<open>return ERROR\<close> for an unknown method. The code a kernel returns is assigned to
  \<^verbatim>\<open>err\<close> and not looked at.
\<close>

definition spatial_kernel ::
  "int \<Rightarrow> CStructuredGrid \<Rightarrow> fl \<Rightarrow> fl \<Rightarrow> fl \<Rightarrow> int \<Rightarrow> int \<Rightarrow> int \<Rightarrow> (int \<Rightarrow> fl) \<Rightarrow> fl option"
where
  "spatial_kernel interp_method grid xsi eta zeta xi yi zi slice =
     (if interp_method = LINEAR then
        (if g_zdim grid = 1
         then Some (snd (spatial_interpolation_bilinear xsi eta xi yi (g_xdim grid) slice))
         else Some (snd (spatial_interpolation_trilinear xsi eta zeta xi yi zi
                           (g_xdim grid) (g_ydim grid) slice)))
      else if interp_method = NEAREST then
        (if g_zdim grid = 1
         then Some (snd (spatial_interpolation_nearest2D xsi eta xi yi (g_xdim grid) slice))
         else Some (snd (spatial_interpolation_nearest3D xsi eta zeta xi yi zi
                           (g_xdim grid) (g_ydim grid) slice)))
      else None)"

text \<open>
  The driver takes the cursor arrays and the content of \<^verbatim>\<open>*value\<close> and returns the
  code, the cursor arrays and \<^verbatim>\<open>*value\<close> as they are when it returns. Its locals
  \<^verbatim>\<open>xsi\<close>, \<^verbatim>\<open>eta\<close>, \<^verbatim>\<open>zeta\<close> are uninitialised in C and written by the locator
  before being read; they start as \<open>Fin 0\<close> here. The variable \<^verbatim>\<open>time\<close> is the
  driver's own copy, which \<^verbatim>\<open>search_time_index\<close> updates through its pointer.

  The two branches of the driver's \<^verbatim>\<open>if (ti[igrid] < grid->tdim-1 && time > grid->time[ti[igrid]])\<close>
  come first; \<open>cur\<close> holds the time index already located.
\<close>

definition two_sample_branch ::
  "fl \<Rightarrow> fl \<Rightarrow> fl \<Rightarrow> fl \<Rightarrow> CField \<Rightarrow> int \<Rightarrow> cursors \<Rightarrow> fl \<Rightarrow> int \<Rightarrow>
   (ErrorCode \<times> cursors \<times> fl) option"
where
  "two_sample_branch x y z time f gcode cur val interp_method =
     (let grid = c_grid (f_grid f);
          igrid = f_igrid f;
          (xi, yi, zi, ti) = cur;
          t0 = g_time grid (ti igrid);
          t1 = g_time grid (ti igrid + 1);
          (err, xi', yi', zi', xsi, eta, zeta) =
            search_indices x y z (g_xdim grid) (g_ydim grid) (g_zdim grid)
              (g_lon grid) (g_lat grid) (g_depth grid) (xi igrid) (yi igrid) (zi igrid)
              (Fin 0) (Fin 0) (Fin 0) (g_sphere_mesh grid) (g_zonal_periodic grid) gcode
              (g_z4d grid) (ti igrid) (g_tdim grid) time t0 t1;
          cur' = (xi(igrid := xi'), yi(igrid := yi'), zi(igrid := zi'), ti)
      in
      if err \<noteq> SUCCESS then Some (err, cur', val)
      else
        (case (spatial_kernel interp_method grid xsi eta zeta xi' yi' zi'
                 (data_slice f (ti igrid)),
               spatial_kernel interp_method grid xsi eta zeta xi' yi' zi'
                 (data_slice f (ti igrid + 1))) of
           (Some f0, Some f1) \<Rightarrow>
             Some (SUCCESS, cur', f0 + (f1 - f0) * ((time - t0) / (t1 - t0)))
         | _ \<Rightarrow> Some (ERROR, cur', val)))"

definition single_sample_branch ::
  "fl \<Rightarrow> fl \<Rightarrow> fl \<Rightarrow> CField \<Rightarrow> int \<Rightarrow> cursors \<Rightarrow> fl \<Rightarrow> int \<Rightarrow>
   (ErrorCode \<times> cursors \<times> fl) option"
where
  "single_sample_branch x y z f gcode cur val interp_method =
     (let grid = c_grid (f_grid f);
          igrid = f_igrid f;
          (xi, yi, zi, ti) = cur;
          t0 = g_time grid (ti igrid);
          (err, xi', yi', zi', xsi, eta, zeta) =
            search_indices x y z (g_xdim grid) (g_ydim grid) (g_zdim grid)
              (g_lon grid) (g_lat grid) (g_depth grid) (xi igrid) (yi igrid) (zi igrid)
              (Fin 0) (Fin 0) (Fin 0) (g_sphere_mesh grid) (g_zonal_periodic grid) gcode
              (g_z4d grid) (ti igrid) (g_tdim grid) t0 t0 (t0 + Fin 1);
          cur' = (xi(igrid := xi'), yi(igrid := yi'), zi(igrid := zi'), ti)
      in
      if err \<noteq> SUCCESS then Some (err, cur', val)
      else
        (case spatial_kernel interp_method grid xsi eta zeta xi' yi' zi'
                (data_slice f (ti igrid)) of
           Some v \<Rightarrow> Some (SUCCESS, cur', v)
         | None \<Rightarrow> Some (ERROR, cur', val)))"

definition temporal_interpolation_structured_grid ::
  "fl \<Rightarrow> fl \<Rightarrow> fl \<Rightarrow> fl \<Rightarrow> CField \<Rightarrow> int \<Rightarrow> cursors \<Rightarrow> fl \<Rightarrow> int \<Rightarrow>
   (ErrorCode \<times> cursors \<times> fl) option"
where
  "temporal_interpolation_structured_grid x y z time f gcode cur val interp_method =
     (let grid = c_grid (f_grid f);
          igrid = f_igrid f;
          (xi, yi, zi, ti) = cur
      in
      if f_time_periodic f = 0 \<and> f_allow_time_extrapolation f = 0 \<and>
         (time < g_time grid 0 \<or> time > g_time grid (g_tdim grid - 1))
      then Some (ERROR_TIME_EXTRAPOLATION, cur, val)
      else
        Option.bind
          (search_time_index time (g_tdim grid) (g_time grid) (ti igrid) (f_time_periodic f))
          (\<lambda>(err0, time', ti').
             let cur1 = (xi, yi, zi, ti(igrid := ti')) in
             if ti' < g_tdim grid - 1 \<and> time' > g_time grid ti'
             then two_sample_branch x y z time' f gcode cur1 val interp_method
             else single_sample_branch x y z f gcode cur1 val interp_method))"

definition temporal_interpolation ::
  "fl \<Rightarrow> fl \<Rightarrow> fl \<Rightarrow> fl \<Rightarrow> CField \<Rightarrow> cursors \<Rightarrow> fl \<Rightarrow> int \<Rightarrow> (ErrorCode \<times> cursors \<times> fl) option"
where
  "temporal_interpolation x y z time f cur val interp_method =
     (let gcode = c_gtype (f_grid f) in
      if gcode = RECTILINEAR_Z_GRID \<or> gcode = RECTILINEAR_S_GRID \<or>
         gcode = CURVILINEAR_Z_GRID \<or> gcode = CURVILINEAR_S_GRID
      then temporal_interpolation_structured_grid x y z time f gcode cur val interp_method
      else Some (ERROR, cur, val))"

section \<open>Vector field adapters\<close>

text \<open>
  \<^verbatim>\<open>CHECKERROR(err)\<close> returns \<^verbatim>\<open>err\<close> from the adapter when it is not
  \<^verbatim>\<open>SUCCESS\<close>. The adapters return the code, the cursor arrays and the contents of
  \<^verbatim>\<open>*valueU\<close> and \<^verbatim>\<open>*valueV\<close>. The locals \<^verbatim>\<open>u_val\<close> ... \<^verbatim>\<open>sinV_val\<close> of the
  rotation adapter are uninitialised before the query that writes them; they start as
  \<open>Fin 0\<close> here.
\<close>

definition temporal_interpolationUV ::
  "fl \<Rightarrow> fl \<Rightarrow> fl \<Rightarrow> fl \<Rightarrow> CField \<Rightarrow> CField \<Rightarrow> cursors \<Rightarrow> fl \<Rightarrow> fl \<Rightarrow> int \<Rightarrow>
   (ErrorCode \<times> cursors \<times> fl \<times> fl) option"
where
  "temporal_interpolationUV x y z time U V cur valueU valueV interp_method =
     Option.bind (temporal_interpolation x y z time U cur valueU interp_method)
       (\<lambda>(err, cur1, valueU').
          if err \<noteq> SUCCESS then Some (err, cur1, valueU', valueV)
          else
            Option.bind (temporal_interpolation x y z time V cur1 valueV interp_method)
              (\<lambda>(err, cur2, valueV').
                 if err \<noteq> SUCCESS then Some (err, cur2, valueU', valueV')
                 else Some (SUCCESS, cur2, valueU', valueV')))"

definition temporal_interpolationUVrotation ::
  "fl \<Rightarrow> fl \<Rightarrow> fl \<Rightarrow> fl \<Rightarrow> CField \<Rightarrow> CField \<Rightarrow> CField \<Rightarrow> CField \<Rightarrow> CField \<Rightarrow> CField \<Rightarrow>
   cursors \<Rightarrow> fl \<Rightarrow> fl \<Rightarrow> int \<Rightarrow> (ErrorCode \<times> cursors \<times> fl \<times> fl) option"
where
  "temporal_interpolationUVrotation x y z time U V cosU sinU cosV sinV cur valueU valueV
       interp_method =
     Option.bind (temporal_interpolation x y z time U cur (Fin 0) interp_method)
       (\<lambda>(err, cur1, u_val).
     if err \<noteq> SUCCESS then Some (err, cur1, valueU, valueV) else
     Option.bind (temporal_interpolation x y z time V cur1 (Fin 0) interp_method)
       (\<lambda>(err, cur2, v_val).
     if err \<noteq> SUCCESS then Some (err, cur2, valueU, valueV) else
     Option.bind (temporal_interpolation x y z time cosU cur2 (Fin 0) interp_method)
       (\<lambda>(err, cur3, cosU_val).
     if err \<noteq> SUCCESS then Some (err, cur3, valueU, valueV) else
     Option.bind (temporal_interpolation x y z time sinU cur3 (Fin 0) interp_method)
       (\<lambda>(err, cur4, sinU_val).
     if err \<noteq> SUCCESS then Some (err, cur4, valueU, valueV) else
     Option.bind (temporal_interpolation x y z time cosV cur4 (Fin 0) interp_method)
       (\<lambda>(err, cur5, cosV_val).
     if err \<noteq> SUCCESS then Some (err, cur5, valueU, valueV) else
     Option.bind (temporal_interpolation x y z time sinV cur5 (Fin 0) interp_method)
       (\<lambda>(err, cur6, sinV_val).
     if err \<noteq> SUCCESS then Some (err, cur6, valueU, valueV) else
     Some (SUCCESS, cur6, u_val * cosU_val - v_val * sinV_val,
           u_val * sinU_val + v_val * cosV_val)))))))"

section \<open>Well-formed axes\<close>

text \<open>
  The spec's grids have finite coordinates and strictly increasing axes. \<open>real_array a n r\<close>
  says that the \<open>n\<close> elements of the array \<open>a\<close> are the finite values \<open>r 0 .. r (n-1)\<close>;
  \<open>increasing r n\<close> says that these are strictly increasing.
\<close>

definition real_array :: "(int \<Rightarrow> fl) \<Rightarrow> int \<Rightarrow> (int \<Rightarrow> real) \<Rightarrow> bool" where
  "real_array a n r = (\<forall>i. 0 \<le> i \<and> i < n \<longrightarrow> a i = Fin (r i))"

definition increasing :: "(int \<Rightarrow> real) \<Rightarrow> int \<Rightarrow> bool" where
  "increasing r n = (\<forall>i j. 0 \<le> i \<and> i < j \<and> j < n \<longrightarrow> r i < r j)"

text \<open>
  The periodic reduction of \<^verbatim>\<open>search_time_index\<close> in terms of the real time axis:
  the number of periods \<open>\<lfloor>(t - tvals[0]) / (tvals[size-1] - tvals[0])\<rfloor>\<close>, which the C
  code stores in an \<^verbatim>\<open>int\<close>.
\<close>

definition fits_int :: "int \<Rightarrow> bool" where
  "fits_int k = (- 2147483648 \<le> k \<and> k \<le> 2147483647)"

definition periods_of :: "(int \<Rightarrow> real) \<Rightarrow> int \<Rightarrow> real \<Rightarrow> int" where
  "periods_of r tsize tr = \<lfloor>(tr - r 0) / (r (tsize - 1) - r 0)\<rfloor>"

section \<open>An example grid and field\<close>

text \<open>
  A rectilinear Z-grid with three nodes on each horizontal axis, one depth level and the
  time axis \<open>[0, 10]\<close>; the field is 0 at the first time and 1 at the second.
\<close>

definition ex_grid :: CStructuredGrid where
  "ex_grid = \<lparr>g_xdim = 3, g_ydim = 3, g_zdim = 1, g_tdim = 2, g_z4d = 0, g_sphere_mesh = 0,
               g_zonal_periodic = 0, g_lon = (\<lambda>i. Fin (of_int i)), g_lat = (\<lambda>i. Fin (of_int i)),
               g_depth = (\<lambda>i. Fin 0), g_time = (\<lambda>i. Fin (10 * of_int i))\<rparr>"

definition ex_field :: CField where
  "ex_field = \<lparr>f_xdim = 3, f_ydim = 3, f_zdim = 1, f_tdim = 2, f_igrid = 0,
                f_allow_time_extrapolation = 0, f_time_periodic = 0,
                f_data = (\<lambda>i. if i < 9 then Fin 0 else Fin 1),
                f_grid = \<lparr>c_gtype = RECTILINEAR_Z_GRID, c_grid = ex_grid\<rparr>\<rparr>"

text \<open>The example field with the constant value \<open>c\<close> in every node and at every time.\<close>

definition const_field :: "real \<Rightarrow> CField" where
  "const_field c = ex_field\<lparr>f_data := (\<lambda>i. Fin c)\<rparr>"

section \<open>Longitudes modulo a full turn\<close>

text \<open>
  On the sphere a longitude stands for all its translates by 360 degrees. \<open>lon_cell r i x\<close>
  says that \<open>x\<close> lies in the cell \<open>i\<close> of the longitude axis \<open>r\<close>: between a translate
  of \<open>r i\<close> and a translate of \<open>r (i+1)\<close> that lies less than a full turn to its east.
  \<open>lon_covered r xdim x\<close> says that \<open>x\<close> lies in one of the cells \<open>0 .. xdim-2\<close>.
\<close>

definition lon_cell :: "(int \<Rightarrow> real) \<Rightarrow> int \<Rightarrow> real \<Rightarrow> bool" where
  "lon_cell r i x =
     (\<exists>m\<in>{- 1, 0, 1 :: int}. \<exists>m'\<in>{- 1, 0, 1 :: int}.
        r i + 360 * of_int m \<le> x \<and> x \<le> r (i + 1) + 360 * of_int m' \<and>
        (r (i + 1) + 360 * of_int m') - (r i + 360 * of_int m) < 360)"

definition lon_covered :: "(int \<Rightarrow> real) \<Rightarrow> int \<Rightarrow> real \<Rightarrow> bool" where
  "lon_covered r xdim x = (\<exists>i\<in>{0 .. xdim - 2}. lon_cell r i x)"

section \<open>Normalised coordinates\<close>

text \<open>\<open>unit_coord v\<close>: the value \<open>v\<close> is a number in \<open>[0, 1]\<close>.\<close>

fun unit_coord :: "fl \<Rightarrow> bool" where
  "unit_coord (Fin a) = (0 \<le> a \<and> a \<le> 1)"
| "unit_coord v = False"

section \<open>The longitude search with rounding\<close>

text \<open>
  On the sphere \<^verbatim>\<open>search_indices_rectilinear\<close> shifts the longitudes of a cell by a full
  turn in \<^verbatim>\<open>float\<close> arithmetic (\<^verbatim>\<open>xvalsi += 360\<close>) and decides by comparing the
  rounded sums with \<open>x\<close>. The definitions of this section are \<open>unwrap\<close>,
  \<open>sphere_search\<close>, \<open>rectilinear_x\<close> and \<^verbatim>\<open>search_indices_rectilinear\<close> again, with the
  rounding of the \<^verbatim>\<open>float\<close> operations of the two horizontal stages explicit: \<open>rf\<close> maps
  the exact result of an operation to the \<^verbatim>\<open>float\<close> that is stored. With \<open>rf\<close> the
  identity they are the definitions above. \<open>round_fl\<close> applies a rounding to a finite
  value (overflow to an infinity is not modelled).
\<close>

fun round_fl :: "(real \<Rightarrow> real) \<Rightarrow> fl \<Rightarrow> fl" where
  "round_fl rd (Fin a) = Fin (rd a)"
| "round_fl rd x = x"

definition unwrap_rf :: "(real \<Rightarrow> real) \<Rightarrow> fl \<Rightarrow> fl \<Rightarrow> fl \<Rightarrow> fl" where
  "unwrap_rf rf w c v =
     (let v1 = (if v < round_fl rf (c - w) then round_fl rf (v + Fin 360) else v)
      in if v1 > round_fl rf (c + w) then round_fl rf (v1 - Fin 360) else v1)"

function sphere_search_rf ::
  "(real \<Rightarrow> real) \<Rightarrow> fl \<Rightarrow> int \<Rightarrow> (int \<Rightarrow> fl) \<Rightarrow> int \<Rightarrow> fl \<Rightarrow> fl \<Rightarrow> int \<Rightarrow>
   ErrorCode \<times> int \<times> fl \<times> fl"
where
  "sphere_search_rf rf x xdim xvals xi xvalsi xvalsi1 it =
     (if xvalsi > x \<or> xvalsi1 < x then
        let xi1 = (if xvalsi1 < x then xi + 1 else if xvalsi > x then xi - 1 else xi);
            xi2 = fix_1d_index xi1 xdim 1;
            xvalsi' = unwrap_rf rf (Fin 225) x (xvals xi2);
            xvalsi1' = unwrap_rf rf (Fin 180) xvalsi' (xvals (xi2 + 1))
        in if it + 1 > 10000 then (ERROR_OUT_OF_BOUNDS, xi2, xvalsi', xvalsi1')
           else sphere_search_rf rf x xdim xvals xi2 xvalsi' xvalsi1' (it + 1)
      else (SUCCESS, xi, xvalsi, xvalsi1))"
  by pat_completeness auto
termination
  by (relation "measure (\<lambda>(rf, x, xdim, xvals, xi, xvalsi, xvalsi1, it). nat (10001 - it))") auto

definition rectilinear_x_rf ::
  "(real \<Rightarrow> real) \<Rightarrow> fl \<Rightarrow> int \<Rightarrow> (int \<Rightarrow> fl) \<Rightarrow> int \<Rightarrow> int \<Rightarrow> int \<Rightarrow> fl \<Rightarrow> ErrorCode \<times> int \<times> fl"
where
  "rectilinear_x_rf rf x xdim xvals sphere_mesh zonal_periodic xi xsi =
     (if sphere_mesh = 0 then
        (if x < xvals 0 \<or> x > xvals (xdim - 1) then (ERROR_OUT_OF_BOUNDS, xi, xsi)
         else
           let xi1 = walk_down x xvals (walk_up x xdim xvals xi)
           in (SUCCESS, xi1,
                 round_fl rf (round_fl rf (x - xvals xi1)
                                / round_fl rf (xvals (xi1 + 1) - xvals xi1))))
      else
        (if zonal_periodic = 0 \<and> xvals 0 < xvals (xdim - 1) \<and>
            (x < xvals 0 \<or> x > xvals (xdim - 1))
         then (ERROR_OUT_OF_BOUNDS, xi, xsi)
         else if zonal_periodic = 0 \<and> xvals 0 \<ge> xvals (xdim - 1) \<and>
            (x < xvals 0 \<and> x > xvals (xdim - 1))
         then (ERROR_OUT_OF_BOUNDS, xi, xsi)
         else
           let xvalsi = unwrap_rf rf (Fin 225) x (xvals xi);
               xvalsi1 = unwrap_rf rf (Fin 180) xvalsi (xvals (xi + 1));
               (err, xi1, xvalsi', xvalsi1') = sphere_search_rf rf x xdim xvals xi xvalsi xvalsi1 0
           in if err \<noteq> SUCCESS then (err, xi1, xsi)
              else (SUCCESS, xi1,
                      round_fl rf (round_fl rf (x - xvalsi') / round_fl rf (xvalsi1' - xvalsi')))))"

definition search_indices_rectilinear_rf ::
  "(real \<Rightarrow> real) \<Rightarrow> fl \<Rightarrow> fl \<Rightarrow> fl \<Rightarrow> int \<Rightarrow> int \<Rightarrow> int \<Rightarrow>
   (int \<Rightarrow> fl) \<Rightarrow> (int \<Rightarrow> fl) \<Rightarrow> (int \<Rightarrow> fl) \<Rightarrow>
   int \<Rightarrow> int \<Rightarrow> int \<Rightarrow> int \<Rightarrow> int \<Rightarrow> int \<Rightarrow> fl \<Rightarrow> fl \<Rightarrow> fl \<Rightarrow>
   int \<Rightarrow> int \<Rightarrow> int \<Rightarrow> fl \<Rightarrow> fl \<Rightarrow> fl \<Rightarrow>
   ErrorCode \<times> int \<times> int \<times> int \<times> fl \<times> fl \<times> fl"
where
  "search_indices_rectilinear_rf rf x y z xdim ydim zdim xvals yvals zvals
       sphere_mesh zonal_periodic gcode xi yi zi xsi eta zeta z4d ti tdim time t0 t1 =
     (let (errx, xi', xsi') = rectilinear_x_rf rf x xdim xvals sphere_mesh zonal_periodic xi xsi
      in if errx \<noteq> SUCCESS then (errx, xi', yi, zi, xsi', eta, zeta)
         else if y < yvals 0 \<or> y > yvals (ydim - 1)
         then (ERROR_OUT_OF_BOUNDS, xi', yi, zi, xsi', eta, zeta)
         else
           let yi' = walk_down y yvals (walk_up y ydim yvals yi);
               eta' = round_fl rf (round_fl rf (y - yvals yi')
                                     / round_fl rf (yvals (yi' + 1) - yvals yi'))
           in vertical_stage RECTILINEAR_Z_GRID RECTILINEAR_S_GRID z xdim ydim zdim zvals gcode
                xi' yi' zi xsi' eta' zeta z4d ti tdim time t0 t1)"

section \<open>The time locator with rounding\<close>

text \<open>
  The reduction of a periodic time is the one place of \<^verbatim>\<open>search_time_index\<close> that
  computes: subtractions, a division and a product of \<^verbatim>\<open>double\<close>s, each rounded
  by the machine. \<open>search_time_index_rd rd\<close> is the function again with the rounding of
  each operation explicit: \<open>rd\<close> maps the exact result of an operation to the
  \<^verbatim>\<open>double\<close> that is stored (overflow to an infinity is not modelled). With \<open>rd\<close> the
  identity it is \<open>search_time_index\<close>; what is proved for every \<open>rd\<close> holds for the
  rounding of the machine, whichever it is.
\<close>

partial_function (option) search_time_index_rd ::
  "(real \<Rightarrow> real) \<Rightarrow> fl \<Rightarrow> int \<Rightarrow> (int \<Rightarrow> fl) \<Rightarrow> int \<Rightarrow> int \<Rightarrow> (ErrorCode \<times> fl \<times> int) option"
where
  "search_time_index_rd rd t tsize tvals ti time_periodic =
     (let ti0 = (if ti < 0 then 0 else ti) in
      if time_periodic = 1 \<and> t < tvals 0 then
        Option.bind
          (int_of_double (floor_fl (round_fl rd
             (round_fl rd (t - tvals 0) / round_fl rd (tvals (tsize - 1) - tvals 0)))))
          (\<lambda>periods.
             Option.bind
               (search_time_index_rd rd
                  (round_fl rd (t - round_fl rd
                     (double_of_int periods * round_fl rd (tvals (tsize - 1) - tvals 0))))
                  tsize tvals (tsize - 1) time_periodic)
               (\<lambda>(err, t', ti').
                  Some (SUCCESS, t', walk_down t' tvals (time_walk_up t' tsize tvals ti'))))
      else if time_periodic = 1 \<and> t > tvals (tsize - 1) then
        Option.bind
          (int_of_double (floor_fl (round_fl rd
             (round_fl rd (t - tvals 0) / round_fl rd (tvals (tsize - 1) - tvals 0)))))
          (\<lambda>periods.
             Option.bind
               (search_time_index_rd rd
                  (round_fl rd (t - round_fl rd
                     (double_of_int periods * round_fl rd (tvals (tsize - 1) - tvals 0))))
                  tsize tvals 0 time_periodic)
               (\<lambda>(err, t', ti').
                  Some (SUCCESS, t', walk_down t' tvals (time_walk_up t' tsize tvals ti'))))
      else Some (SUCCESS, t, walk_down t tvals (time_walk_up t tsize tvals ti0)))"

text \<open>
  The driver reads the query time in its own check and passes it to the time locator;
  \<open>temporal_interpolation_structured_grid_rd rd\<close> and \<open>temporal_interpolation_rd rd\<close>
  are \<^verbatim>\<open>temporal_interpolation_structured_grid\<close> and \<^verbatim>\<open>temporal_interpolation\<close>
  with \<open>search_time_index_rd rd\<close> for the locator.
\<close>

definition temporal_interpolation_structured_grid_rd ::
  "(real \<Rightarrow> real) \<Rightarrow> fl \<Rightarrow> fl \<Rightarrow> fl \<Rightarrow> fl \<Rightarrow> CField \<Rightarrow> int \<Rightarrow> cursors \<Rightarrow> fl \<Rightarrow> int \<Rightarrow>
   (ErrorCode \<times> cursors \<times> fl) option"
where
  "temporal_interpolation_structured_grid_rd rd x y z time f gcode cur val interp_method =
     (let grid = c_grid (f_grid f);
          igrid = f_igrid f;
          (xi, yi, zi, ti) = cur
      in
      if f_time_periodic f = 0 \<and> f_allow_time_extrapolation f = 0 \<and>
         (time < g_time grid 0 \<or> time > g_time grid (g_tdim grid - 1))
      then Some (ERROR_TIME_EXTRAPOLATION, cur, val)
      else
        Option.bind
          (search_time_index_rd rd time (g_tdim grid) (g_time grid) (ti igrid) (f_time_periodic f))
          (\<lambda>(err0, time', ti').
             let cur1 = (xi, yi, zi, ti(igrid := ti')) in
             if ti' < g_tdim grid - 1 \<and> time' > g_time grid ti'
             then two_sample_branch x y z time' f gcode cur1 val interp_method
             else single_sample_branch x y z f gcode cur1 val interp_method))"

definition temporal_interpolation_rd ::
  "(real \<Rightarrow> real) \<Rightarrow> fl \<Rightarrow> fl \<Rightarrow> fl \<Rightarrow> fl \<Rightarrow> CField \<Rightarrow> cursors \<Rightarrow> fl \<Rightarrow> int \<Rightarrow>
   (ErrorCode \<times> cursors \<times> fl) option"
where
  "temporal_interpolation_rd rd x y z time f cur val interp_method =
     (let gcode = c_gtype (f_grid f) in
      if gcode = RECTILINEAR_Z_GRID \<or> gcode = RECTILINEAR_S_GRID \<or>
         gcode = CURVILINEAR_Z_GRID \<or> gcode = CURVILINEAR_S_GRID
      then temporal_interpolation_structured_grid_rd rd x y z time f gcode cur val interp_method
      else Some (ERROR, cur, val))"

text \<open>
  The reduction in terms of the real time axis \<open>r\<close>: \<open>periods_rd\<close> is the number of
  periods the C code computes, \<open>reduced_rd\<close> the time it stores. \<open>exact_reduction\<close> says
  that for a time outside the axis no operation of the reduction is changed by the
  rounding: then they are \<open>periods_of\<close> and \<open>t - periods_of * T\<close>.
\<close>

definition periods_rd :: "(real \<Rightarrow> real) \<Rightarrow> (int \<Rightarrow> real) \<Rightarrow> int \<Rightarrow> real \<Rightarrow> int" where
  "periods_rd rd r tsize tr = \<lfloor>rd (rd (tr - r 0) / rd (r (tsize - 1) - r 0))\<rfloor>"

definition reduced_rd :: "(real \<Rightarrow> real) \<Rightarrow> (int \<Rightarrow> real) \<Rightarrow> int \<Rightarrow> real \<Rightarrow> real" where
  "reduced_rd rd r tsize tr =
     rd (tr - rd (of_int (periods_rd rd r tsize tr) * rd (r (tsize - 1) - r 0)))"

definition exact_reduction :: "(real \<Rightarrow> real) \<Rightarrow> (int \<Rightarrow> real) \<Rightarrow> int \<Rightarrow> real \<Rightarrow> bool" where
  "exact_reduction rd r tsize tr =
     (tr < r 0 \<or> r (tsize - 1) < tr \<longrightarrow>
        rd (tr - r 0) = tr - r 0 \<and>
        rd (r (tsize - 1) - r 0) = r (tsize - 1) - r 0 \<and>
        \<lfloor>rd ((tr - r 0) / (r (tsize - 1) - r 0))\<rfloor> = periods_of r tsize tr \<and>
        rd (of_int (periods_of r tsize tr) * (r (tsize - 1) - r 0))
          = of_int (periods_of r tsize tr) * (r (tsize - 1) - r 0) \<and>
        rd (tr - of_int (periods_of r tsize tr) * (r (tsize - 1) - r 0))
          = tr - of_int (periods_of r tsize tr) * (r (tsize - 1) - r 0))"
section \<open>Points outside a cell\<close>

text \<open>
  \<open>separated gx gy xdim xi yi x y u v c\<close>: the line \<open>u p\<^sub>x + v p\<^sub>y = c\<close> has the four
  corners of the cell \<open>(xi, yi)\<close> of the mesh \<open>gx\<close>, \<open>gy\<close> on one side and the point
  \<open>(x, y)\<close> strictly on the other, so the point is outside the cell.
\<close>

definition separated ::
  "(int \<Rightarrow> real) \<Rightarrow> (int \<Rightarrow> real) \<Rightarrow> int \<Rightarrow> int \<Rightarrow> int \<Rightarrow> real \<Rightarrow> real \<Rightarrow>
   real \<Rightarrow> real \<Rightarrow> real \<Rightarrow> bool"
where
  "separated gx gy xdim xi yi x y u v c =
     (u * x + v * y < c \<and>
      list_all (\<lambda>k. c \<le> u * gx k + v * gy k)
        [idx2 xdim yi xi, idx2 xdim yi (xi + 1), idx2 xdim (yi + 1) (xi + 1),
         idx2 xdim (yi + 1) xi])"

text \<open>
  Three meshes in the row-major layout of the curvilinear locator. \<open>skew\<close>: three by
  two nodes, rows \<open>x = 0, 1, 2\<close> and \<open>0, 1, 5/2\<close>, \<open>y = 0, 0, 5\<close> and \<open>1, 1, 8\<close>; its cell
  \<open>(1, 0)\<close> is a convex quadrilateral. \<open>sliver\<close>: the single cell with the corners
  \<open>(0, 0)\<close>, \<open>(2\<^sup>-\<^sup>2\<^sup>0, 0)\<close>, \<open>(2\<^sup>-\<^sup>2\<^sup>1, 2\<^sup>-\<^sup>2\<^sup>0)\<close>, \<open>(0, 2\<^sup>-\<^sup>2\<^sup>0)\<close>. \<open>polar\<close>: four by four
  nodes, longitudes \<open>0, 10, 20, 30\<close> in every row, latitudes \<open>0, 10, 20, 30\<close> by row;
  its arrays are the elements \<open>0 .. 15\<close>, and \<open>polar_y h\<close> holds the value \<open>h\<close> in the
  memory after them.
\<close>

definition skew_x :: "int \<Rightarrow> real" where
  "skew_x k = (if k = 1 \<or> k = 4 then 1 else if k = 2 then 2 else if k = 5 then 5 / 2 else 0)"

definition skew_y :: "int \<Rightarrow> real" where
  "skew_y k = (if k = 2 then 5 else if k = 3 \<or> k = 4 then 1 else if k = 5 then 8 else 0)"

definition sliver_x :: "int \<Rightarrow> real" where
  "sliver_x k = (if k = 1 then 1 / 2 ^ 20 else if k = 3 then 1 / 2 ^ 21 else 0)"

definition sliver_y :: "int \<Rightarrow> real" where
  "sliver_y k = (if 2 \<le> k then 1 / 2 ^ 20 else 0)"

definition polar_x :: "int \<Rightarrow> real" where
  "polar_x k = 10 * of_int (k mod 4)"

definition polar_y :: "real \<Rightarrow> int \<Rightarrow> real" where
  "polar_y h k = (if k < 16 then 10 * of_int (k div 4) else h)"

section \<open>Properties of the walks\<close>

declare walk_up.simps [simp del] walk_down.simps [simp del] time_walk_up.simps [simp del]
  sphere_search.simps [simp del] curvilinear_search.simps [simp del]

lemma fl_minus_Fin [simp]: "Fin a - Fin b = Fin (a - b)"
  by (simp add: minus_fl_def)


lemma walk_down_bounds: "walk_down x xvals xi \<le> xi \<and> min xi 0 \<le> walk_down x xvals xi"
  by (induction x xvals xi rule: walk_down.induct) (subst walk_down.simps, subst (2) walk_down.simps, auto)


lemma walk_down_real:
  assumes "real_array xvals xdim r" "xi < xdim"
  shows "(walk_down (Fin xr) xvals xi \<le> 0 \<or> r (walk_down (Fin xr) xvals xi) \<le> xr)
       \<and> (\<forall>k. walk_down (Fin xr) xvals xi < k \<and> k \<le> xi \<longrightarrow> xr < r k)"
  using assms
proof (induction "Fin xr" xvals xi rule: walk_down.induct)
  case (1 xvals xi)
  show ?case
  proof (cases "xi > 0 \<and> Fin xr < xvals xi")
    case True
    then have step: "walk_down (Fin xr) xvals xi = walk_down (Fin xr) xvals (xi - 1)"
      by (subst walk_down.simps) simp
    from True 1(2) 1(3) have v: "xvals xi = Fin (r xi)" by (simp add: real_array_def)
    with True have lt: "xr < r xi" by simp
    have ih: "(walk_down (Fin xr) xvals (xi - 1) \<le> 0 \<or> r (walk_down (Fin xr) xvals (xi - 1)) \<le> xr)
       \<and> (\<forall>k. walk_down (Fin xr) xvals (xi - 1) < k \<and> k \<le> xi - 1 \<longrightarrow> xr < r k)"
      using 1(1)[OF True 1(2)] 1(3) by simp
    have "\<And>k. walk_down (Fin xr) xvals (xi - 1) < k \<Longrightarrow> k \<le> xi \<Longrightarrow> xr < r k"
    proof -
      fix k assume k: "walk_down (Fin xr) xvals (xi - 1) < k" "k \<le> xi"
      show "xr < r k"
      proof (cases "k = xi")
        case True then show ?thesis using lt by simp
      next
        case False
        with k have "k \<le> xi - 1" by simp
        with ih k show ?thesis by blast
      qed
    qed
    with ih show ?thesis unfolding step by blast
  next
    case False
    then have stop: "walk_down (Fin xr) xvals xi = xi"
      by (subst walk_down.simps) auto
    show ?thesis
    proof (cases "xi > 0")
      case True
      with 1(2) 1(3) have v: "xvals xi = Fin (r xi)" by (simp add: real_array_def)
      with False True have "r xi \<le> xr" by simp
      then show ?thesis unfolding stop by simp
    next
      case False
      then show ?thesis unfolding stop by auto
    qed
  qed
qed


lemma increasing_le: "increasing r n \<Longrightarrow> 0 \<le> i \<Longrightarrow> i \<le> j \<Longrightarrow> j < n \<Longrightarrow> r i \<le> r j"
  unfolding increasing_def by (cases "i = j") (auto simp: less_imp_le)

lemma increasing_inj_le: "increasing r n \<Longrightarrow> 0 \<le> i \<Longrightarrow> i < n \<Longrightarrow> 0 \<le> j \<Longrightarrow> j < n \<Longrightarrow> r i \<le> r j \<Longrightarrow> i \<le> j"
  unfolding increasing_def by (rule ccontr) (force simp: not_le)


section \<open>The Z-grid vertical locator\<close>




section \<open>The time locator finds the greatest index\<close>

lemma time_walk_up_bounds:
  "ti \<le> time_walk_up t tsize tvals ti \<and> time_walk_up t tsize tvals ti \<le> max ti (tsize - 1)"
  by (induction t tsize tvals ti rule: time_walk_up.induct)
     (subst time_walk_up.simps, subst (2) time_walk_up.simps, auto)

lemma time_walk_up_real:
  assumes "real_array tvals tsize r" "0 \<le> ti"
  shows "(time_walk_up (Fin tr) tsize tvals ti \<ge> tsize - 1
            \<or> tr < r (time_walk_up (Fin tr) tsize tvals ti + 1))
       \<and> (\<forall>k. ti < k \<and> k \<le> time_walk_up (Fin tr) tsize tvals ti \<longrightarrow> r k \<le> tr)"
  using assms
proof (induction "Fin tr" tsize tvals ti rule: time_walk_up.induct)
  case (1 tsize tvals ti)
  show ?case
  proof (cases "ti < tsize - 1 \<and> Fin tr \<ge> tvals (ti + 1)")
    case True
    then have step: "time_walk_up (Fin tr) tsize tvals ti = time_walk_up (Fin tr) tsize tvals (ti + 1)"
      by (subst time_walk_up.simps) simp
    from True 1(2) 1(3) have v: "tvals (ti + 1) = Fin (r (ti + 1))" by (simp add: real_array_def)
    with True have lt: "r (ti + 1) \<le> tr" by simp
    have ih: "(time_walk_up (Fin tr) tsize tvals (ti + 1) \<ge> tsize - 1
                 \<or> tr < r (time_walk_up (Fin tr) tsize tvals (ti + 1) + 1))
       \<and> (\<forall>k. ti + 1 < k \<and> k \<le> time_walk_up (Fin tr) tsize tvals (ti + 1) \<longrightarrow> r k \<le> tr)"
      using 1(1)[OF True 1(2)] 1(3) by simp
    have "\<And>k. ti < k \<Longrightarrow> k \<le> time_walk_up (Fin tr) tsize tvals (ti + 1) \<Longrightarrow> r k \<le> tr"
    proof -
      fix k assume k: "ti < k" "k \<le> time_walk_up (Fin tr) tsize tvals (ti + 1)"
      show "r k \<le> tr"
      proof (cases "k = ti + 1")
        case True then show ?thesis using lt by simp
      next
        case False
        with k have "ti + 1 < k" by simp
        with ih k show ?thesis by blast
      qed
    qed
    with ih show ?thesis unfolding step by blast
  next
    case False
    then have stop: "time_walk_up (Fin tr) tsize tvals ti = ti"
      by (subst time_walk_up.simps) auto
    show ?thesis
    proof (cases "ti < tsize - 1")
      case True
      with 1(2) 1(3) have v: "tvals (ti + 1) = Fin (r (ti + 1))" by (simp add: real_array_def)
      with False True have "tr < r (ti + 1)" by simp
      then show ?thesis unfolding stop by simp
    next
      case False
      then show ?thesis unfolding stop by auto
    qed
  qed
qed

text \<open>The index the two time walks end at, from a hint \<open>ti\<close> in \<open>[0, tsize-1]\<close>.\<close>

lemma time_locate:
  assumes sz: "1 \<le> tsize" and arr: "real_array tvals tsize r" and inc: "increasing r tsize"
    and ti: "0 \<le> ti" "ti \<le> tsize - 1" and lo: "r 0 \<le> tr"
    and k2: "k2 = walk_down (Fin tr) tvals (time_walk_up (Fin tr) tsize tvals ti)"
  shows "0 \<le> k2 \<and> k2 < tsize \<and> r k2 \<le> tr \<and> (\<forall>j. k2 < j \<and> j < tsize \<longrightarrow> tr < r j)"
proof -
  define k1 where "k1 = time_walk_up (Fin tr) tsize tvals ti"
  have k1b: "ti \<le> k1" "k1 \<le> tsize - 1"
    using time_walk_up_bounds[of ti "Fin tr" tsize tvals] ti by (auto simp: k1_def)
  have k1u: "k1 \<ge> tsize - 1 \<or> tr < r (k1 + 1)"
    using time_walk_up_real[OF arr ti(1), of tr] by (simp add: k1_def)
  have k2b: "0 \<le> k2" "k2 \<le> k1"
    using walk_down_bounds[of "Fin tr" tvals k1] k1b ti by (auto simp: k2 k1_def)
  have k1lt: "k1 < tsize" using k1b by simp
  have k2d: "k2 \<le> 0 \<or> r k2 \<le> tr" and k2a: "\<And>m. k2 < m \<Longrightarrow> m \<le> k1 \<Longrightarrow> tr < r m"
    using walk_down_real[OF arr k1lt, of tr] by (auto simp: k2 k1_def)
  have low: "r k2 \<le> tr" using k2d k2b lo by (cases "k2 = 0") auto
  have above: "tr < r j" if j: "k2 < j" "j < tsize" for j
  proof (cases "j \<le> k1")
    case True
    with j k2a show ?thesis by simp
  next
    case False
    then have a: "k1 + 1 \<le> j" by simp
    with j have "k1 < tsize - 1" by simp
    with k1u have "tr < r (k1 + 1)" by simp
    moreover have "r (k1 + 1) \<le> r j"
      using increasing_le[OF inc, of "k1 + 1" j] a j k1b ti by simp
    ultimately show ?thesis by simp
  qed
  show ?thesis using k2b k1lt low above by auto
qed

lemma greatest_index_unique:
  fixes r :: "int \<Rightarrow> real"
  assumes "0 \<le> k" "k < n" "r k \<le> tr" "\<forall>j. k < j \<and> j < n \<longrightarrow> tr < r j"
    and "0 \<le> k'" "k' < n" "r k' \<le> tr" "\<forall>j. k' < j \<and> j < n \<longrightarrow> tr < r j"
  shows "k = (k'::int)"
proof (rule ccontr)
  assume "k \<noteq> k'"
  then consider "k < k'" | "k' < k" by linarith
  then show False
  proof cases
    case 1
    with assms(4) assms(6) have "tr < r k'" by simp
    with assms(7) show False by simp
  next
    case 2
    with assms(8) assms(2) have "tr < r k" by simp
    with assms(3) show False by simp
  qed
qed

lemma search_time_index_no_reduction:
  assumes "\<not> (time_periodic = 1 \<and> (t < tvals 0 \<or> t > tvals (tsize - 1)))"
  shows "search_time_index t tsize tvals ti time_periodic
           = Some (SUCCESS, t, walk_down t tvals (time_walk_up t tsize tvals (if ti < 0 then 0 else ti)))"
  using assms by (subst search_time_index.simps) (auto simp: Let_def)


lemma int_of_double_of_int: "fits_int k \<Longrightarrow> int_of_double (Fin (of_int k)) = Some k"
  by (simp add: fits_int_def Let_def)

lemma reduced_time_range:
  fixes r :: "int \<Rightarrow> real"
  assumes T: "r 0 < r (tsize - 1)"
  shows "r 0 \<le> tr - of_int (periods_of r tsize tr) * (r (tsize - 1) - r 0)"
    and "tr - of_int (periods_of r tsize tr) * (r (tsize - 1) - r 0) < r (tsize - 1)"
proof -
  define T where "T = r (tsize - 1) - r 0"
  define q where "q = (tr - r 0) / T"
  have Tpos: "0 < T" using T by (simp add: T_def)
  have p: "periods_of r tsize tr = \<lfloor>q\<rfloor>" by (simp add: periods_of_def q_def T_def)
  have qT: "q * T = tr - r 0" using Tpos by (simp add: q_def)
  have "of_int \<lfloor>q\<rfloor> \<le> q" by simp
  then have "of_int \<lfloor>q\<rfloor> * T \<le> q * T" using Tpos by (simp add: mult_right_mono)
  then have a: "of_int \<lfloor>q\<rfloor> * T \<le> tr - r 0" using qT by simp
  have "q < of_int \<lfloor>q\<rfloor> + 1" by linarith
  then have "q * T < (of_int \<lfloor>q\<rfloor> + 1) * T" using Tpos by (simp add: mult_strict_right_mono)
  then have b: "tr - r 0 < of_int \<lfloor>q\<rfloor> * T + T" using qT by (simp add: algebra_simps)
  show "r 0 \<le> tr - of_int (periods_of r tsize tr) * (r (tsize - 1) - r 0)"
    using a unfolding p T_def by simp
  show "tr - of_int (periods_of r tsize tr) * (r (tsize - 1) - r 0) < r (tsize - 1)"
    using b unfolding p T_def by simp
qed

lemma search_time_index_reduction:
  assumes sz: "2 \<le> tsize" and arr: "real_array tvals tsize r" and inc: "increasing r tsize"
    and out: "tr < r 0 \<or> r (tsize - 1) < tr" and fits: "fits_int (periods_of r tsize tr)"
    and t': "t' = tr - of_int (periods_of r tsize tr) * (r (tsize - 1) - r 0)"
  shows "search_time_index (Fin tr) tsize tvals ti 1 =
           Some (SUCCESS, Fin t',
             walk_down (Fin t') tvals (time_walk_up (Fin t') tsize tvals
               (walk_down (Fin t') tvals (time_walk_up (Fin t') tsize tvals
                  (if tr < r 0 then tsize - 1 else 0)))))"
proof -
  have v0: "tvals 0 = Fin (r 0)" and vn: "tvals (tsize - 1) = Fin (r (tsize - 1))"
    using sz arr by (auto simp: real_array_def)
  have T: "r 0 < r (tsize - 1)" using inc sz by (auto simp: increasing_def)
  then have Tnz: "r (tsize - 1) - r 0 \<noteq> 0" by simp
  have conv: "int_of_double (floor_fl ((Fin tr - tvals 0) / (tvals (tsize - 1) - tvals 0)))
                = Some (periods_of r tsize tr)"
    using Tnz int_of_double_of_int[OF fits] by (simp add: v0 vn periods_of_def)
  have red: "Fin tr - double_of_int (periods_of r tsize tr) * (tvals (tsize - 1) - tvals 0) = Fin t'"
    by (simp add: v0 vn double_of_int_def t')
  have rng: "r 0 \<le> t'" "t' < r (tsize - 1)"
    using reduced_time_range[OF T, of tr] by (simp_all add: t')
  have inner: "search_time_index (Fin t') tsize tvals h 1
          = Some (SUCCESS, Fin t', walk_down (Fin t') tvals (time_walk_up (Fin t') tsize tvals h))"
    if "0 \<le> h" for h
    using search_time_index_no_reduction[of 1 "Fin t'" tvals tsize h] rng that
    by (simp add: v0 vn)
  show ?thesis
  proof (cases "tr < r 0")
    case True
    have "0 \<le> tsize - 1" using sz by simp
    note i = inner[OF this]
    have c: "Fin tr < tvals 0" using True by (simp add: v0)
    show ?thesis
      by (subst search_time_index.simps)
         (simp only: Let_def c conv red i simp_thms if_True True Option.bind.simps prod.case)
  next
    case False
    with out have gt: "r (tsize - 1) < tr" by simp
    have "(0::int) \<le> 0" by simp
    note i = inner[OF this]
    have c: "\<not> Fin tr < tvals 0" "Fin tr > tvals (tsize - 1)" using False gt by (simp_all add: v0 vn)
    show ?thesis
      by (subst search_time_index.simps)
         (simp only: Let_def c conv red i simp_thms if_True if_False False Option.bind.simps prod.case)
  qed
qed


section \<open>Error codes and loop invariants of the spatial locators\<close>

lemma vertical_z_codes:
  "fst (search_indices_vertical_z z zdim zvals zi zeta) \<in> {SUCCESS, ERROR_OUT_OF_BOUNDS}"
  by (simp add: search_indices_vertical_z_def Let_def)

lemma vertical_s_codes:
  "fst (search_indices_vertical_s z xdim ydim zdim zvals xi yi zi xsi eta zeta z4d ti tdim time t0 t1)
     \<in> {SUCCESS, ERROR_OUT_OF_BOUNDS}"
  by (simp add: search_indices_vertical_s_def Let_def)

lemma vertical_switch_codes:
  "fst (vertical_switch zcode scode z xdim ydim zdim zvals gcode xi yi zi xsi eta zeta z4d ti tdim time t0 t1)
     \<in> {SUCCESS, ERROR, ERROR_OUT_OF_BOUNDS}"
  using vertical_z_codes[of z zdim zvals zi zeta]
        vertical_s_codes[of z xdim ydim zdim zvals xi yi zi xsi eta zeta z4d ti tdim time t0 t1]
  by (auto simp: vertical_switch_def)

lemma vertical_stage_codes:
  "fst (vertical_stage zcode scode z xdim ydim zdim zvals gcode xi yi zi xsi eta zeta z4d ti tdim time t0 t1)
     \<in> {SUCCESS, ERROR, ERROR_OUT_OF_BOUNDS}"
proof -
  obtain err zi' zeta' where v:
    "vertical_switch zcode scode z xdim ydim zdim zvals gcode xi yi zi xsi eta zeta z4d ti tdim time t0 t1
       = (err, zi', zeta')" by (rule prod_cases3)
  have "err \<in> {SUCCESS, ERROR, ERROR_OUT_OF_BOUNDS}"
    using vertical_switch_codes[of zcode scode z xdim ydim zdim zvals gcode xi yi zi xsi eta zeta z4d ti tdim time t0 t1]
    by (simp add: v)
  then show ?thesis by (auto simp: vertical_stage_def v)
qed

lemma sphere_search_codes:
  "fst (sphere_search x xdim xvals xi xvalsi xvalsi1 it) \<in> {SUCCESS, ERROR_OUT_OF_BOUNDS}"
proof (induction x xdim xvals xi xvalsi xvalsi1 it rule: sphere_search.induct)
  case (1 x xdim xvals xi xvalsi xvalsi1 it)
  show ?case
  proof (cases "xvalsi > x \<or> xvalsi1 < x")
    case False
    then show ?thesis by (subst sphere_search.simps) auto
  next
    case c: True
    show ?thesis
    proof (cases "it + 1 > 10000")
      case True
      with c show ?thesis by (subst sphere_search.simps) (simp add: Let_def)
    next
      case False
      from 1[OF c refl refl refl refl False] c False
      show ?thesis by (subst sphere_search.simps) (simp add: Let_def)
    qed
  qed
qed

lemma curvilinear_search_unfold:
  assumes "curvilinear_cell x y xdim xgrid ygrid sphere_mesh xi yi eta = (xsi', eta')"
    and "fix_2d_indices
           (if xsi' > Fin 1 then (if xsi' < Fin 0 then xi - 1 else xi) + 1
            else (if xsi' < Fin 0 then xi - 1 else xi))
           (if eta' > Fin 1 then (if eta' < Fin 0 then yi - 1 else yi) + 1
            else (if eta' < Fin 0 then yi - 1 else yi))
           xdim ydim sphere_mesh = (xi3, yi3)"
  shows "curvilinear_search x y xdim ydim xgrid ygrid sphere_mesh xi yi xsi eta it =
     (if xsi < Fin 0 \<or> xsi > Fin 1 \<or> eta < Fin 0 \<or> eta > Fin 1 then
        if xsi' < Fin 0 \<and> eta' < Fin 0 \<and> xi = 0 \<and> yi = 0
        then (ERROR_OUT_OF_BOUNDS, xi, yi, xsi', eta')
        else if xsi' > Fin 1 \<and> eta' > Fin 1 \<and> xi = xdim - 1 \<and> yi = ydim - 1
        then (ERROR_OUT_OF_BOUNDS, xi, yi, xsi', eta')
        else if it + 1 > 1000000 then (ERROR_OUT_OF_BOUNDS, xi3, yi3, xsi', eta')
        else curvilinear_search x y xdim ydim xgrid ygrid sphere_mesh xi3 yi3 xsi' eta' (it + 1)
      else (SUCCESS, xi, yi, xsi, eta))"
  by (subst curvilinear_search.simps) (simp only: Let_def assms prod.case)

text \<open>
  A loop invariant \<open>I\<close> of the curvilinear search holds of the state it succeeds with,
  and the loop condition is false there.
\<close>

lemma curvilinear_search_codes:
  "fst (curvilinear_search x y xdim ydim xgrid ygrid sphere_mesh xi yi xsi eta it)
     \<in> {SUCCESS, ERROR_OUT_OF_BOUNDS}"
proof (induction x y xdim ydim xgrid ygrid sphere_mesh xi yi xsi eta it rule: curvilinear_search.induct)
  case (1 x y xdim ydim xgrid ygrid sphere_mesh xi yi xsi eta it)
  obtain xsi' eta' where c: "curvilinear_cell x y xdim xgrid ygrid sphere_mesh xi yi eta = (xsi', eta')"
    by (rule prod.exhaust)
  obtain xi3 yi3 where f: "fix_2d_indices
           (if xsi' > Fin 1 then (if xsi' < Fin 0 then xi - 1 else xi) + 1
            else (if xsi' < Fin 0 then xi - 1 else xi))
           (if eta' > Fin 1 then (if eta' < Fin 0 then yi - 1 else yi) + 1
            else (if eta' < Fin 0 then yi - 1 else yi))
           xdim ydim sphere_mesh = (xi3, yi3)"
    by (rule prod.exhaust)
  note u = curvilinear_search_unfold[OF c f, where xsi=xsi and it=it]
  show ?case
  proof (cases "(xsi < Fin 0 \<or> xsi > Fin 1 \<or> eta < Fin 0 \<or> eta > Fin 1)
      \<and> \<not> (xsi' < Fin 0 \<and> eta' < Fin 0 \<and> xi = 0 \<and> yi = 0)
      \<and> \<not> (xsi' > Fin 1 \<and> eta' > Fin 1 \<and> xi = xdim - 1 \<and> yi = ydim - 1)
      \<and> \<not> it + 1 > 1000000")
    case False
    then show ?thesis unfolding u by auto
  next
    case True
    then have go: "xsi < Fin 0 \<or> xsi > Fin 1 \<or> eta < Fin 0 \<or> eta > Fin 1"
      and n1: "\<not> (xsi' < Fin 0 \<and> eta' < Fin 0 \<and> xi = 0 \<and> yi = 0)"
      and n2: "\<not> (xsi' > Fin 1 \<and> eta' > Fin 1 \<and> xi = xdim - 1 \<and> yi = ydim - 1)"
      and n3: "\<not> it + 1 > 1000000" by auto
    have "curvilinear_search x y xdim ydim xgrid ygrid sphere_mesh xi yi xsi eta it
            = curvilinear_search x y xdim ydim xgrid ygrid sphere_mesh xi3 yi3 xsi' eta' (it + 1)"
      by (simp only: u go n1 n2 n3 if_True if_False)
    with "1.IH"[OF go c[symmetric] refl n1 n2 refl refl refl refl f[symmetric] refl n3]
    show ?thesis by simp
  qed
qed


text \<open>The same for the search loop on the sphere.\<close>

lemma sphere_search_invariant:
  assumes "\<And>xi v v1. J xi v v1 \<Longrightarrow> v > x \<or> v1 < x \<Longrightarrow>
      J (fix_1d_index (if v1 < x then xi + 1 else if v > x then xi - 1 else xi) xdim 1)
        (unwrap (Fin 225) x
           (xvals (fix_1d_index (if v1 < x then xi + 1 else if v > x then xi - 1 else xi) xdim 1)))
        (unwrap (Fin 180)
           (unwrap (Fin 225) x
              (xvals (fix_1d_index (if v1 < x then xi + 1 else if v > x then xi - 1 else xi) xdim 1)))
           (xvals (fix_1d_index (if v1 < x then xi + 1 else if v > x then xi - 1 else xi) xdim 1 + 1)))"
    and "J xi xvalsi xvalsi1"
    and "sphere_search x xdim xvals xi xvalsi xvalsi1 it = (SUCCESS, a, b, c)"
  shows "J a b c \<and> \<not> (b > x \<or> c < x)"
  using assms
proof (induction x xdim xvals xi xvalsi xvalsi1 it rule: sphere_search.induct)
  case (1 x xdim xvals xi xvalsi xvalsi1 it)
  show ?case
  proof (cases "xvalsi > x \<or> xvalsi1 < x")
    case False
    then have "sphere_search x xdim xvals xi xvalsi xvalsi1 it = (SUCCESS, xi, xvalsi, xvalsi1)"
      by (subst sphere_search.simps) auto
    with "1.prems"(3) have "(SUCCESS, xi, xvalsi, xvalsi1) = (SUCCESS, a, b, c)" by simp
    with False "1.prems"(2) show ?thesis by auto
  next
    case go: True
    define xi2 where "xi2 = fix_1d_index (if xvalsi1 < x then xi + 1 else if xvalsi > x then xi - 1 else xi) xdim 1"
    define v where "v = unwrap (Fin 225) x (xvals xi2)"
    define v1 where "v1 = unwrap (Fin 180) v (xvals (xi2 + 1))"
    have u: "sphere_search x xdim xvals xi xvalsi xvalsi1 it =
               (if it + 1 > 10000 then (ERROR_OUT_OF_BOUNDS, xi2, v, v1)
                else sphere_search x xdim xvals xi2 v v1 (it + 1))"
      by (subst sphere_search.simps) (simp only: go if_True Let_def xi2_def v_def v1_def)
    have n: "\<not> it + 1 > 10000"
    proof
      assume "it + 1 > 10000"
      with "1.prems"(3) u show False by simp
    qed
    with "1.prems"(3) u have rec: "sphere_search x xdim xvals xi2 v v1 (it + 1) = (SUCCESS, a, b, c)"
      by simp
    have J': "J xi2 v v1"
      using "1.prems"(1)[OF "1.prems"(2) go] by (simp only: xi2_def v_def v1_def)
    show ?thesis
      by (rule "1.IH"[OF go refl refl refl refl n "1.prems"(1)
            J'[unfolded v1_def v_def xi2_def] rec[unfolded v1_def v_def xi2_def]])
  qed
qed


lemma rectilinear_x_codes:
  "fst (rectilinear_x x xdim xvals sphere_mesh zonal_periodic xi xsi) \<in> {SUCCESS, ERROR_OUT_OF_BOUNDS}"
proof -
  obtain e a b c where s: "sphere_search x xdim xvals xi (unwrap (Fin 225) x (xvals xi))
          (unwrap (Fin 180) (unwrap (Fin 225) x (xvals xi)) (xvals (xi + 1))) 0 = (e, a, b, c)"
    by (rule prod_cases4)
  have "e \<in> {SUCCESS, ERROR_OUT_OF_BOUNDS}"
    using sphere_search_codes[of x xdim xvals xi "unwrap (Fin 225) x (xvals xi)"
          "unwrap (Fin 180) (unwrap (Fin 225) x (xvals xi)) (xvals (xi + 1))" 0]
    by (simp add: s)
  then show ?thesis by (auto simp: rectilinear_x_def Let_def s)
qed

lemma search_indices_rectilinear_codes:
  "fst (search_indices_rectilinear x y z xdim ydim zdim xvals yvals zvals
       sphere_mesh zonal_periodic gcode xi yi zi xsi eta zeta z4d ti tdim time t0 t1)
     \<in> {SUCCESS, ERROR, ERROR_OUT_OF_BOUNDS}"
proof -
  obtain e a b where s: "rectilinear_x x xdim xvals sphere_mesh zonal_periodic xi xsi = (e, a, b)"
    by (rule prod_cases3)
  have "e \<in> {SUCCESS, ERROR_OUT_OF_BOUNDS}"
    using rectilinear_x_codes[of x xdim xvals sphere_mesh zonal_periodic xi xsi] by (simp add: s)
  then show ?thesis
    using vertical_stage_codes by (auto simp: search_indices_rectilinear_def Let_def s)
qed

lemma search_indices_curvilinear_codes:
  "fst (search_indices_curvilinear x y z xdim ydim zdim xvals yvals zvals
       sphere_mesh zonal_periodic gcode xi yi zi xsi eta zeta z4d ti tdim time t0 t1)
     \<in> {SUCCESS, ERROR, ERROR_OUT_OF_BOUNDS}"
proof -
  obtain e a b c d where s: "curvilinear_search x y xdim ydim xvals yvals sphere_mesh xi yi (Fin (- 1)) (Fin (- 1)) 0
      = (e, a, b, c, d)"
    by (rule prod_cases5)
  have "e \<in> {SUCCESS, ERROR_OUT_OF_BOUNDS}"
    using curvilinear_search_codes[of x y xdim ydim xvals yvals sphere_mesh xi yi "Fin (- 1)" "Fin (- 1)" 0]
    by (simp add: s)
  then show ?thesis
    using vertical_stage_codes by (auto simp: search_indices_curvilinear_def Let_def s)
qed

lemma search_indices_codes:
  "fst (search_indices x y z xdim ydim zdim xvals yvals zvals xi yi zi xsi eta zeta
       sphere_mesh zonal_periodic gcode z4d ti tdim time t0 t1)
     \<in> {SUCCESS, ERROR, ERROR_OUT_OF_BOUNDS}"
  using search_indices_rectilinear_codes search_indices_curvilinear_codes
  by (simp add: search_indices_def)

lemma two_sample_branch_unfold:
  assumes "search_indices x y z (g_xdim (c_grid (f_grid f))) (g_ydim (c_grid (f_grid f)))
             (g_zdim (c_grid (f_grid f))) (g_lon (c_grid (f_grid f))) (g_lat (c_grid (f_grid f)))
             (g_depth (c_grid (f_grid f))) (xi (f_igrid f)) (yi (f_igrid f)) (zi (f_igrid f))
             (Fin 0) (Fin 0) (Fin 0) (g_sphere_mesh (c_grid (f_grid f)))
             (g_zonal_periodic (c_grid (f_grid f))) gcode (g_z4d (c_grid (f_grid f)))
             (ti (f_igrid f)) (g_tdim (c_grid (f_grid f))) time
             (g_time (c_grid (f_grid f)) (ti (f_igrid f)))
             (g_time (c_grid (f_grid f)) (ti (f_igrid f) + 1))
           = (err, xi', yi', zi', xsi, eta, zeta)"
  shows "two_sample_branch x y z time f gcode (xi, yi, zi, ti) val interp_method =
     (if err \<noteq> SUCCESS
      then Some (err, (xi(f_igrid f := xi'), yi(f_igrid f := yi'), zi(f_igrid f := zi'), ti), val)
      else
        (case (spatial_kernel interp_method (c_grid (f_grid f)) xsi eta zeta xi' yi' zi'
                 (data_slice f (ti (f_igrid f))),
               spatial_kernel interp_method (c_grid (f_grid f)) xsi eta zeta xi' yi' zi'
                 (data_slice f (ti (f_igrid f) + 1))) of
           (Some f0, Some f1) \<Rightarrow>
             Some (SUCCESS, (xi(f_igrid f := xi'), yi(f_igrid f := yi'), zi(f_igrid f := zi'), ti),
                   f0 + (f1 - f0) * ((time - g_time (c_grid (f_grid f)) (ti (f_igrid f)))
                      / (g_time (c_grid (f_grid f)) (ti (f_igrid f) + 1)
                           - g_time (c_grid (f_grid f)) (ti (f_igrid f)))))
         | _ \<Rightarrow> Some (ERROR, (xi(f_igrid f := xi'), yi(f_igrid f := yi'), zi(f_igrid f := zi'), ti), val)))"
  unfolding two_sample_branch_def Let_def prod.case assms by (rule refl)

lemma single_sample_branch_unfold:
  assumes "search_indices x y z (g_xdim (c_grid (f_grid f))) (g_ydim (c_grid (f_grid f)))
             (g_zdim (c_grid (f_grid f))) (g_lon (c_grid (f_grid f))) (g_lat (c_grid (f_grid f)))
             (g_depth (c_grid (f_grid f))) (xi (f_igrid f)) (yi (f_igrid f)) (zi (f_igrid f))
             (Fin 0) (Fin 0) (Fin 0) (g_sphere_mesh (c_grid (f_grid f)))
             (g_zonal_periodic (c_grid (f_grid f))) gcode (g_z4d (c_grid (f_grid f)))
             (ti (f_igrid f)) (g_tdim (c_grid (f_grid f)))
             (g_time (c_grid (f_grid f)) (ti (f_igrid f)))
             (g_time (c_grid (f_grid f)) (ti (f_igrid f)))
             (g_time (c_grid (f_grid f)) (ti (f_igrid f)) + Fin 1)
           = (err, xi', yi', zi', xsi, eta, zeta)"
  shows "single_sample_branch x y z f gcode (xi, yi, zi, ti) val interp_method =
     (if err \<noteq> SUCCESS
      then Some (err, (xi(f_igrid f := xi'), yi(f_igrid f := yi'), zi(f_igrid f := zi'), ti), val)
      else
        (case spatial_kernel interp_method (c_grid (f_grid f)) xsi eta zeta xi' yi' zi'
                 (data_slice f (ti (f_igrid f))) of
           Some v \<Rightarrow>
             Some (SUCCESS, (xi(f_igrid f := xi'), yi(f_igrid f := yi'), zi(f_igrid f := zi'), ti), v)
         | None \<Rightarrow> Some (ERROR, (xi(f_igrid f := xi'), yi(f_igrid f := yi'), zi(f_igrid f := zi'), ti), val)))"
  unfolding single_sample_branch_def Let_def prod.case assms by (rule refl)

lemma driver_unfold:
  assumes "\<not> (f_time_periodic f = 0 \<and> f_allow_time_extrapolation f = 0 \<and>
              (time < g_time (c_grid (f_grid f)) 0
               \<or> time > g_time (c_grid (f_grid f)) (g_tdim (c_grid (f_grid f)) - 1)))"
    and "search_time_index time (g_tdim (c_grid (f_grid f))) (g_time (c_grid (f_grid f)))
           (ti (f_igrid f)) (f_time_periodic f) = Some (e0, t, ti')"
  shows "temporal_interpolation_structured_grid x y z time f gcode (xi, yi, zi, ti) val interp_method =
     (if ti' < g_tdim (c_grid (f_grid f)) - 1 \<and> t > g_time (c_grid (f_grid f)) ti'
      then two_sample_branch x y z t f gcode (xi, yi, zi, ti(f_igrid f := ti')) val interp_method
      else single_sample_branch x y z f gcode (xi, yi, zi, ti(f_igrid f := ti')) val interp_method)"
  unfolding temporal_interpolation_structured_grid_def Let_def prod.case
  by (simp only: assms if_False Option.bind.simps prod.case)


section \<open>The two branches of the driver\<close>

text \<open>
  C1. Once the time extrapolation check has passed and \<^verbatim>\<open>search_time_index\<close> has
  returned the (possibly reduced) time \<open>t\<close> and the index \<open>ti'\<close>: when
  \<open>ti' < tdim-1\<close> and \<open>t > tvals[ti']\<close>, the driver calls \<^verbatim>\<open>search_indices\<close> once with
  the interval \<open>(t0, t1) = (tvals[ti'], tvals[ti'+1])\<close> and the time \<open>t\<close>, evaluates the
  spatial kernel on the slices \<open>ti'\<close> and \<open>ti'+1\<close> and returns
  \<open>f0 + (f1 - f0) * ((t - t0) / (t1 - t0))\<close>; otherwise it calls \<^verbatim>\<open>search_indices\<close> once
  with \<open>t0 = tvals[ti']\<close>, the interval \<open>(t0, t0 + 1)\<close> and the time \<open>t0\<close>, and returns
  the kernel's value on the slice \<open>ti'\<close>. The cursor slot of the field's grid holds the
  located indices.
\<close>

theorem temporal_interpolation_structured_grid_branches:
  assumes pre: "\<not> (f_time_periodic f = 0 \<and> f_allow_time_extrapolation f = 0 \<and>
              (time < g_time (c_grid (f_grid f)) 0
               \<or> time > g_time (c_grid (f_grid f)) (g_tdim (c_grid (f_grid f)) - 1)))"
    and loc: "search_time_index time (g_tdim (c_grid (f_grid f))) (g_time (c_grid (f_grid f)))
           (ti (f_igrid f)) (f_time_periodic f) = Some (e0, t, ti')"
    and grid: "grid = c_grid (f_grid f)" and igrid: "igrid = f_igrid f"
    and t0: "t0 = g_time grid ti'" and t1: "t1 = g_time grid (ti' + 1)"
  shows "(ti' < g_tdim grid - 1 \<and> t > t0 \<longrightarrow>
           (\<forall>xi' yi' zi' xsi eta zeta f0 f1.
              search_indices x y z (g_xdim grid) (g_ydim grid) (g_zdim grid)
                (g_lon grid) (g_lat grid) (g_depth grid) (xi igrid) (yi igrid) (zi igrid)
                (Fin 0) (Fin 0) (Fin 0) (g_sphere_mesh grid) (g_zonal_periodic grid) gcode
                (g_z4d grid) ti' (g_tdim grid) t t0 t1 = (SUCCESS, xi', yi', zi', xsi, eta, zeta)
              \<and> spatial_kernel interp_method grid xsi eta zeta xi' yi' zi' (data_slice f ti') = Some f0
              \<and> spatial_kernel interp_method grid xsi eta zeta xi' yi' zi' (data_slice f (ti' + 1)) = Some f1
              \<longrightarrow> temporal_interpolation_structured_grid x y z time f gcode (xi, yi, zi, ti) val interp_method
                    = Some (SUCCESS,
                        (xi(igrid := xi'), yi(igrid := yi'), zi(igrid := zi'), ti(igrid := ti')),
                        f0 + (f1 - f0) * ((t - t0) / (t1 - t0)))))
       \<and> (\<not> (ti' < g_tdim grid - 1 \<and> t > t0) \<longrightarrow>
           (\<forall>xi' yi' zi' xsi eta zeta v.
              search_indices x y z (g_xdim grid) (g_ydim grid) (g_zdim grid)
                (g_lon grid) (g_lat grid) (g_depth grid) (xi igrid) (yi igrid) (zi igrid)
                (Fin 0) (Fin 0) (Fin 0) (g_sphere_mesh grid) (g_zonal_periodic grid) gcode
                (g_z4d grid) ti' (g_tdim grid) t0 t0 (t0 + Fin 1) = (SUCCESS, xi', yi', zi', xsi, eta, zeta)
              \<and> spatial_kernel interp_method grid xsi eta zeta xi' yi' zi' (data_slice f ti') = Some v
              \<longrightarrow> temporal_interpolation_structured_grid x y z time f gcode (xi, yi, zi, ti) val interp_method
                    = Some (SUCCESS,
                        (xi(igrid := xi'), yi(igrid := yi'), zi(igrid := zi'), ti(igrid := ti')), v)))"
proof (intro conjI impI allI)
  fix xi' yi' zi' xsi eta zeta f0 f1
  assume c: "ti' < g_tdim grid - 1 \<and> t > t0"
  assume h: "search_indices x y z (g_xdim grid) (g_ydim grid) (g_zdim grid)
                (g_lon grid) (g_lat grid) (g_depth grid) (xi igrid) (yi igrid) (zi igrid)
                (Fin 0) (Fin 0) (Fin 0) (g_sphere_mesh grid) (g_zonal_periodic grid) gcode
                (g_z4d grid) ti' (g_tdim grid) t t0 t1 = (SUCCESS, xi', yi', zi', xsi, eta, zeta)
              \<and> spatial_kernel interp_method grid xsi eta zeta xi' yi' zi' (data_slice f ti') = Some f0
              \<and> spatial_kernel interp_method grid xsi eta zeta xi' yi' zi' (data_slice f (ti' + 1)) = Some f1"
  have s: "search_indices x y z (g_xdim (c_grid (f_grid f))) (g_ydim (c_grid (f_grid f)))
             (g_zdim (c_grid (f_grid f))) (g_lon (c_grid (f_grid f))) (g_lat (c_grid (f_grid f)))
             (g_depth (c_grid (f_grid f))) (xi (f_igrid f)) (yi (f_igrid f)) (zi (f_igrid f))
             (Fin 0) (Fin 0) (Fin 0) (g_sphere_mesh (c_grid (f_grid f)))
             (g_zonal_periodic (c_grid (f_grid f))) gcode (g_z4d (c_grid (f_grid f)))
             ((ti(f_igrid f := ti')) (f_igrid f)) (g_tdim (c_grid (f_grid f))) t
             (g_time (c_grid (f_grid f)) ((ti(f_igrid f := ti')) (f_igrid f)))
             (g_time (c_grid (f_grid f)) ((ti(f_igrid f := ti')) (f_igrid f) + 1))
           = (SUCCESS, xi', yi', zi', xsi, eta, zeta)"
    using h by (simp add: grid igrid t0 t1)
  show "temporal_interpolation_structured_grid x y z time f gcode (xi, yi, zi, ti) val interp_method
          = Some (SUCCESS, (xi(igrid := xi'), yi(igrid := yi'), zi(igrid := zi'), ti(igrid := ti')),
                  f0 + (f1 - f0) * ((t - t0) / (t1 - t0)))"
    unfolding driver_unfold[where f=f and ti=ti, OF pre loc]
      two_sample_branch_unfold[where f=f and xi=xi and yi=yi and zi=zi and ti="ti(f_igrid f := ti')", OF s]
    using c h by (simp add: grid igrid t0 t1)
next
  fix xi' yi' zi' xsi eta zeta v
  assume c: "\<not> (ti' < g_tdim grid - 1 \<and> t > t0)"
  assume h: "search_indices x y z (g_xdim grid) (g_ydim grid) (g_zdim grid)
                (g_lon grid) (g_lat grid) (g_depth grid) (xi igrid) (yi igrid) (zi igrid)
                (Fin 0) (Fin 0) (Fin 0) (g_sphere_mesh grid) (g_zonal_periodic grid) gcode
                (g_z4d grid) ti' (g_tdim grid) t0 t0 (t0 + Fin 1) = (SUCCESS, xi', yi', zi', xsi, eta, zeta)
              \<and> spatial_kernel interp_method grid xsi eta zeta xi' yi' zi' (data_slice f ti') = Some v"
  have s: "search_indices x y z (g_xdim (c_grid (f_grid f))) (g_ydim (c_grid (f_grid f)))
             (g_zdim (c_grid (f_grid f))) (g_lon (c_grid (f_grid f))) (g_lat (c_grid (f_grid f)))
             (g_depth (c_grid (f_grid f))) (xi (f_igrid f)) (yi (f_igrid f)) (zi (f_igrid f))
             (Fin 0) (Fin 0) (Fin 0) (g_sphere_mesh (c_grid (f_grid f)))
             (g_zonal_periodic (c_grid (f_grid f))) gcode (g_z4d (c_grid (f_grid f)))
             ((ti(f_igrid f := ti')) (f_igrid f)) (g_tdim (c_grid (f_grid f)))
             (g_time (c_grid (f_grid f)) ((ti(f_igrid f := ti')) (f_igrid f)))
             (g_time (c_grid (f_grid f)) ((ti(f_igrid f := ti')) (f_igrid f)))
             (g_time (c_grid (f_grid f)) ((ti(f_igrid f := ti')) (f_igrid f)) + Fin 1)
           = (SUCCESS, xi', yi', zi', xsi, eta, zeta)"
    using h by (simp add: grid igrid t0)
  show "temporal_interpolation_structured_grid x y z time f gcode (xi, yi, zi, ti) val interp_method
          = Some (SUCCESS, (xi(igrid := xi'), yi(igrid := yi'), zi(igrid := zi'), ti(igrid := ti')), v)"
    unfolding driver_unfold[where f=f and ti=ti, OF pre loc]
      single_sample_branch_unfold[where f=f and xi=xi and yi=yi and zi=zi and ti="ti(f_igrid f := ti')", OF s]
    using c h by (auto simp: grid igrid t0)
qed


theorem temporal_interpolation_structured_grid_branches_witness:
  "temporal_interpolation_structured_grid (Fin (1 / 2)) (Fin (1 / 2)) (Fin 0) (Fin (5 / 2))
       ex_field RECTILINEAR_Z_GRID ((\<lambda>i. 0), (\<lambda>i. 0), (\<lambda>i. 0), (\<lambda>i. 0)) (Fin 0) LINEAR
     = Some (SUCCESS, ((\<lambda>i. 0)(0 := 0), (\<lambda>i. 0)(0 := 0), (\<lambda>i. 0)(0 := 0), (\<lambda>i. 0)(0 := 0)),
             Fin (1 / 4))"
proof -
  have g: "c_grid (f_grid ex_field) = ex_grid" by (simp add: ex_field_def)
  have pre: "\<not> (f_time_periodic ex_field = 0 \<and> f_allow_time_extrapolation ex_field = 0 \<and>
              (Fin (5 / 2) < g_time (c_grid (f_grid ex_field)) 0
               \<or> Fin (5 / 2) > g_time (c_grid (f_grid ex_field)) (g_tdim (c_grid (f_grid ex_field)) - 1)))"
    by (simp add: g) (simp add: ex_grid_def)
  have loc: "search_time_index (Fin (5 / 2)) (g_tdim (c_grid (f_grid ex_field)))
           (g_time (c_grid (f_grid ex_field))) ((\<lambda>i. 0) (f_igrid ex_field)) (f_time_periodic ex_field)
           = Some (SUCCESS, Fin (5 / 2), 0)"
    by (subst search_time_index.simps)
       (simp add: g ex_grid_def ex_field_def time_walk_up.simps walk_down.simps)
  have si: "search_indices (Fin (1 / 2)) (Fin (1 / 2)) (Fin 0) (g_xdim ex_grid) (g_ydim ex_grid) (g_zdim ex_grid)
                (g_lon ex_grid) (g_lat ex_grid) (g_depth ex_grid) 0 0 0
                (Fin 0) (Fin 0) (Fin 0) (g_sphere_mesh ex_grid) (g_zonal_periodic ex_grid) RECTILINEAR_Z_GRID
                (g_z4d ex_grid) 0 (g_tdim ex_grid) (Fin (5 / 2)) (g_time ex_grid 0) (g_time ex_grid (0 + 1))
              = (SUCCESS, 0, 0, 0, Fin (1 / 2), Fin (1 / 2), Fin 0)"
    by (simp add: ex_grid_def search_indices_def search_indices_rectilinear_def rectilinear_x_def
          vertical_stage_def vertical_switch_def walk_up.simps walk_down.simps Let_def)
  have k0: "spatial_kernel LINEAR ex_grid (Fin (1 / 2)) (Fin (1 / 2)) (Fin 0) 0 0 0 (data_slice ex_field 0)
              = Some (Fin 0)"
    by (simp add: spatial_kernel_def spatial_interpolation_bilinear_def data_slice_def idx2_def
          ex_grid_def ex_field_def)
  have k1: "spatial_kernel LINEAR ex_grid (Fin (1 / 2)) (Fin (1 / 2)) (Fin 0) 0 0 0 (data_slice ex_field (0 + 1))
              = Some (Fin 1)"
    by (simp add: spatial_kernel_def spatial_interpolation_bilinear_def data_slice_def idx2_def
          ex_grid_def ex_field_def)
  have c: "(0::int) < g_tdim ex_grid - 1 \<and> Fin (5 / 2) > g_time ex_grid 0" by (simp add: ex_grid_def)
  have i0: "f_igrid ex_field = 0" by (simp add: ex_field_def)
  from temporal_interpolation_structured_grid_branches
         [OF pre loc g[symmetric] i0[symmetric] refl refl,
          where x="Fin (1 / 2)" and y="Fin (1 / 2)" and z="Fin 0" and gcode=RECTILINEAR_Z_GRID
            and xi="\<lambda>i. 0" and yi="\<lambda>i. 0" and zi="\<lambda>i. 0" and val="Fin 0" and interp_method=LINEAR]
       c si k0 k1
  show ?thesis by (simp add: ex_grid_def)
qed

section \<open>Codes of the driver\<close>

lemma two_sample_branch_codes:
  "\<exists>e c v. two_sample_branch x y z time f gcode cur val interp_method = Some (e, c, v)
            \<and> e \<in> {SUCCESS, ERROR, ERROR_OUT_OF_BOUNDS}"
proof -
  obtain xi yi zi ti where cur: "cur = (xi, yi, zi, ti)" by (rule prod_cases4)
  obtain err xi' yi' zi' xsi eta zeta where s:
    "search_indices x y z (g_xdim (c_grid (f_grid f))) (g_ydim (c_grid (f_grid f)))
             (g_zdim (c_grid (f_grid f))) (g_lon (c_grid (f_grid f))) (g_lat (c_grid (f_grid f)))
             (g_depth (c_grid (f_grid f))) (xi (f_igrid f)) (yi (f_igrid f)) (zi (f_igrid f))
             (Fin 0) (Fin 0) (Fin 0) (g_sphere_mesh (c_grid (f_grid f)))
             (g_zonal_periodic (c_grid (f_grid f))) gcode (g_z4d (c_grid (f_grid f)))
             (ti (f_igrid f)) (g_tdim (c_grid (f_grid f))) time
             (g_time (c_grid (f_grid f)) (ti (f_igrid f)))
             (g_time (c_grid (f_grid f)) (ti (f_igrid f) + 1))
           = (err, xi', yi', zi', xsi, eta, zeta)"
    by (rule prod_cases7)
  have e: "err \<in> {SUCCESS, ERROR, ERROR_OUT_OF_BOUNDS}"
    using search_indices_codes[of x y z "g_xdim (c_grid (f_grid f))" "g_ydim (c_grid (f_grid f))"
             "g_zdim (c_grid (f_grid f))" "g_lon (c_grid (f_grid f))" "g_lat (c_grid (f_grid f))"
             "g_depth (c_grid (f_grid f))" "xi (f_igrid f)" "yi (f_igrid f)" "zi (f_igrid f)"
             "Fin 0" "Fin 0" "Fin 0" "g_sphere_mesh (c_grid (f_grid f))"
             "g_zonal_periodic (c_grid (f_grid f))" gcode "g_z4d (c_grid (f_grid f))"
             "ti (f_igrid f)" "g_tdim (c_grid (f_grid f))" time
             "g_time (c_grid (f_grid f)) (ti (f_igrid f))"
             "g_time (c_grid (f_grid f)) (ti (f_igrid f) + 1)"]
    by (simp add: s)
  show ?thesis
    unfolding cur two_sample_branch_unfold[where f=f and xi=xi and yi=yi and zi=zi and ti=ti, OF s]
    using e by (auto split: option.splits)
qed

lemma single_sample_branch_codes:
  "\<exists>e c v. single_sample_branch x y z f gcode cur val interp_method = Some (e, c, v)
            \<and> e \<in> {SUCCESS, ERROR, ERROR_OUT_OF_BOUNDS}"
proof -
  obtain xi yi zi ti where cur: "cur = (xi, yi, zi, ti)" by (rule prod_cases4)
  obtain err xi' yi' zi' xsi eta zeta where s:
    "search_indices x y z (g_xdim (c_grid (f_grid f))) (g_ydim (c_grid (f_grid f)))
             (g_zdim (c_grid (f_grid f))) (g_lon (c_grid (f_grid f))) (g_lat (c_grid (f_grid f)))
             (g_depth (c_grid (f_grid f))) (xi (f_igrid f)) (yi (f_igrid f)) (zi (f_igrid f))
             (Fin 0) (Fin 0) (Fin 0) (g_sphere_mesh (c_grid (f_grid f)))
             (g_zonal_periodic (c_grid (f_grid f))) gcode (g_z4d (c_grid (f_grid f)))
             (ti (f_igrid f)) (g_tdim (c_grid (f_grid f)))
             (g_time (c_grid (f_grid f)) (ti (f_igrid f)))
             (g_time (c_grid (f_grid f)) (ti (f_igrid f)))
             (g_time (c_grid (f_grid f)) (ti (f_igrid f)) + Fin 1)
           = (err, xi', yi', zi', xsi, eta, zeta)"
    by (rule prod_cases7)
  have e: "err \<in> {SUCCESS, ERROR, ERROR_OUT_OF_BOUNDS}"
    using search_indices_codes[of x y z "g_xdim (c_grid (f_grid f))" "g_ydim (c_grid (f_grid f))"
             "g_zdim (c_grid (f_grid f))" "g_lon (c_grid (f_grid f))" "g_lat (c_grid (f_grid f))"
             "g_depth (c_grid (f_grid f))" "xi (f_igrid f)" "yi (f_igrid f)" "zi (f_igrid f)"
             "Fin 0" "Fin 0" "Fin 0" "g_sphere_mesh (c_grid (f_grid f))"
             "g_zonal_periodic (c_grid (f_grid f))" gcode "g_z4d (c_grid (f_grid f))"
             "ti (f_igrid f)" "g_tdim (c_grid (f_grid f))"
             "g_time (c_grid (f_grid f)) (ti (f_igrid f))"
             "g_time (c_grid (f_grid f)) (ti (f_igrid f))"
             "g_time (c_grid (f_grid f)) (ti (f_igrid f)) + Fin 1"]
    by (simp add: s)
  show ?thesis
    unfolding cur single_sample_branch_unfold[where f=f and xi=xi and yi=yi and zi=zi and ti=ti, OF s]
    using e by (auto split: option.splits)
qed

lemma driver_time_extrapolation:
  "(\<exists>c v. temporal_interpolation_structured_grid x y z time f gcode cur val interp_method
             = Some (ERROR_TIME_EXTRAPOLATION, c, v))
   \<longleftrightarrow> f_time_periodic f = 0 \<and> f_allow_time_extrapolation f = 0 \<and>
       (time < g_time (c_grid (f_grid f)) 0
        \<or> time > g_time (c_grid (f_grid f)) (g_tdim (c_grid (f_grid f)) - 1))"
proof (cases "f_time_periodic f = 0 \<and> f_allow_time_extrapolation f = 0 \<and>
       (time < g_time (c_grid (f_grid f)) 0
        \<or> time > g_time (c_grid (f_grid f)) (g_tdim (c_grid (f_grid f)) - 1))")
  case True
  obtain xi yi zi ti where cur: "cur = (xi, yi, zi, ti)" by (rule prod_cases4)
  have "temporal_interpolation_structured_grid x y z time f gcode cur val interp_method
          = Some (ERROR_TIME_EXTRAPOLATION, cur, val)"
    unfolding temporal_interpolation_structured_grid_def Let_def cur prod.case
    using True by simp
  with True show ?thesis by blast
next
  case False
  obtain xi yi zi ti where cur: "cur = (xi, yi, zi, ti)" by (rule prod_cases4)
  have "\<not> (\<exists>c v. temporal_interpolation_structured_grid x y z time f gcode cur val interp_method
             = Some (ERROR_TIME_EXTRAPOLATION, c, v))"
  proof (cases "search_time_index time (g_tdim (c_grid (f_grid f))) (g_time (c_grid (f_grid f)))
           (ti (f_igrid f)) (f_time_periodic f)")
    case None
    have "temporal_interpolation_structured_grid x y z time f gcode cur val interp_method = None"
      unfolding temporal_interpolation_structured_grid_def Let_def cur prod.case
      by (simp only: False if_False None Option.bind.simps)
    then show ?thesis by simp
  next
    case (Some r)
    obtain e0 t ti' where r: "r = (e0, t, ti')" by (rule prod_cases3)
    note u = driver_unfold[where f=f and ti=ti, OF False Some[unfolded r]]
    show ?thesis
      unfolding cur u
      using two_sample_branch_codes[of x y z t f gcode "(xi, yi, zi, ti(f_igrid f := ti'))" val interp_method]
            single_sample_branch_codes[of x y z f gcode "(xi, yi, zi, ti(f_igrid f := ti'))" val interp_method]
      by auto
  qed
  with False show ?thesis by blast
qed


lemma search_time_index_at_last:
  assumes sz: "1 \<le> tsize" and arr: "real_array tvals tsize r" and inc: "increasing r tsize"
    and hint: "ti \<le> tsize - 1" and np: "time_periodic \<noteq> 1" and lo: "r (tsize - 1) \<le> tr"
  shows "search_time_index (Fin tr) tsize tvals ti time_periodic = Some (SUCCESS, Fin tr, tsize - 1)"
proof -
  define h where "h = (if ti < 0 then 0 else ti)"
  define k where "k = walk_down (Fin tr) tvals (time_walk_up (Fin tr) tsize tvals h)"
  have hb: "0 \<le> h" "h \<le> tsize - 1" using hint sz by (auto simp: h_def)
  have "r 0 \<le> r (tsize - 1)" using increasing_le[OF inc, of 0 "tsize - 1"] sz by simp
  with lo have lo0: "r 0 \<le> tr" by simp
  have l: "0 \<le> k \<and> k < tsize \<and> r k \<le> tr \<and> (\<forall>j. k < j \<and> j < tsize \<longrightarrow> tr < r j)"
    using time_locate[OF sz arr inc hb lo0 k_def] .
  have "k = tsize - 1"
  proof (rule ccontr)
    assume "k \<noteq> tsize - 1"
    with l have "k < tsize - 1" by simp
    with l have "tr < r (tsize - 1)" by simp
    with lo show False by simp
  qed
  then show ?thesis
    using search_time_index_no_reduction[of time_periodic "Fin tr" tvals tsize ti] np
    by (simp add: k_def h_def)
qed


section \<open>Time extrapolation\<close>

text \<open>
  C3. For a field on one of the four structured grids, \<^verbatim>\<open>temporal_interpolation\<close>
  returns \<^verbatim>\<open>ERROR_TIME_EXTRAPOLATION\<close> if and only if \<^verbatim>\<open>time_periodic\<close> is 0,
  \<^verbatim>\<open>allow_time_extrapolation\<close> is 0 and \<open>t < tvals[0]\<close> or \<open>t > tvals[tdim-1]\<close>. With
  both flags 0, a finite strictly increasing time axis and a cursor \<open>ti \<le> tdim-1\<close>, the
  query at \<open>t = tvals[tdim-1]\<close> is the single-sample branch at the index \<open>tdim-1\<close>.
\<close>

theorem temporal_interpolation_time_extrapolation:
  assumes gcode: "c_gtype (f_grid f) = RECTILINEAR_Z_GRID \<or> c_gtype (f_grid f) = RECTILINEAR_S_GRID
                  \<or> c_gtype (f_grid f) = CURVILINEAR_Z_GRID \<or> c_gtype (f_grid f) = CURVILINEAR_S_GRID"
    and grid: "grid = c_grid (f_grid f)"
  shows "((\<exists>c v. temporal_interpolation x y z time f cur val interp_method
                    = Some (ERROR_TIME_EXTRAPOLATION, c, v))
           \<longleftrightarrow> f_time_periodic f = 0 \<and> f_allow_time_extrapolation f = 0 \<and>
               (time < g_time grid 0 \<or> time > g_time grid (g_tdim grid - 1)))
       \<and> (f_time_periodic f = 0 \<and> f_allow_time_extrapolation f = 0 \<and> 1 \<le> g_tdim grid \<and>
          real_array (g_time grid) (g_tdim grid) r \<and> increasing r (g_tdim grid) \<and>
          time = g_time grid (g_tdim grid - 1) \<and> cur = (xi, yi, zi, ti) \<and>
          ti (f_igrid f) \<le> g_tdim grid - 1
          \<longrightarrow> temporal_interpolation x y z time f cur val interp_method
                = single_sample_branch x y z f (c_gtype (f_grid f))
                    (xi, yi, zi, ti(f_igrid f := g_tdim grid - 1)) val interp_method)"
proof -
  have ti: "temporal_interpolation x y z time f cur val interp_method
              = temporal_interpolation_structured_grid x y z time f (c_gtype (f_grid f)) cur val interp_method"
    using gcode by (auto simp: temporal_interpolation_def Let_def)
  have a: "(\<exists>c v. temporal_interpolation x y z time f cur val interp_method
                    = Some (ERROR_TIME_EXTRAPOLATION, c, v))
           \<longleftrightarrow> f_time_periodic f = 0 \<and> f_allow_time_extrapolation f = 0 \<and>
               (time < g_time grid 0 \<or> time > g_time grid (g_tdim grid - 1))"
    unfolding ti grid by (rule driver_time_extrapolation)
  have b: "temporal_interpolation x y z time f cur val interp_method
                = single_sample_branch x y z f (c_gtype (f_grid f))
                    (xi, yi, zi, ti(f_igrid f := g_tdim grid - 1)) val interp_method"
    if h: "f_time_periodic f = 0 \<and> f_allow_time_extrapolation f = 0 \<and> 1 \<le> g_tdim grid \<and>
          real_array (g_time grid) (g_tdim grid) r \<and> increasing r (g_tdim grid) \<and>
          time = g_time grid (g_tdim grid - 1) \<and> cur = (xi, yi, zi, ti) \<and>
          ti (f_igrid f) \<le> g_tdim grid - 1"
  proof -
    from h have sz: "1 \<le> g_tdim grid" and arr: "real_array (g_time grid) (g_tdim grid) r"
      and inc: "increasing r (g_tdim grid)" and hint: "ti (f_igrid f) \<le> g_tdim grid - 1"
      and np: "f_time_periodic f \<noteq> 1" and cur: "cur = (xi, yi, zi, ti)" by auto
    have tl: "g_time grid (g_tdim grid - 1) = Fin (r (g_tdim grid - 1))"
      and t0: "g_time grid 0 = Fin (r 0)"
      using arr sz by (auto simp: real_array_def)
    with h have te: "time = Fin (r (g_tdim grid - 1))" by simp
    have "r 0 \<le> r (g_tdim grid - 1)" using increasing_le[OF inc, of 0 "g_tdim grid - 1"] sz by simp
    then have pre: "\<not> (f_time_periodic f = 0 \<and> f_allow_time_extrapolation f = 0 \<and>
              (time < g_time (c_grid (f_grid f)) 0
               \<or> time > g_time (c_grid (f_grid f)) (g_tdim (c_grid (f_grid f)) - 1)))"
      unfolding grid[symmetric] by (simp add: te tl t0)
    have loc: "search_time_index time (g_tdim (c_grid (f_grid f))) (g_time (c_grid (f_grid f)))
           (ti (f_igrid f)) (f_time_periodic f) = Some (SUCCESS, time, g_tdim grid - 1)"
      unfolding grid[symmetric] te
      by (rule search_time_index_at_last[OF sz arr inc hint np]) simp
    have "temporal_interpolation_structured_grid x y z time f (c_gtype (f_grid f)) (xi, yi, zi, ti) val interp_method
            = single_sample_branch x y z f (c_gtype (f_grid f))
                    (xi, yi, zi, ti(f_igrid f := g_tdim grid - 1)) val interp_method"
      unfolding driver_unfold[where f=f and ti=ti, OF pre loc]
      by (simp add: grid)
    then show ?thesis using ti cur by simp
  qed
  from a b show ?thesis by blast
qed

theorem temporal_interpolation_time_extrapolation_witness:
  "real_array (g_time ex_grid) (g_tdim ex_grid) (\<lambda>i. 10 * of_int i)
   \<and> increasing (\<lambda>i. 10 * of_int i) (g_tdim ex_grid)
   \<and> temporal_interpolation (Fin (1 / 2)) (Fin (1 / 2)) (Fin 0) (Fin 10) ex_field
        ((\<lambda>i. 0), (\<lambda>i. 0), (\<lambda>i. 0), (\<lambda>i. 0)) (Fin 0) LINEAR
     = single_sample_branch (Fin (1 / 2)) (Fin (1 / 2)) (Fin 0) ex_field RECTILINEAR_Z_GRID
         ((\<lambda>i. 0), (\<lambda>i. 0), (\<lambda>i. 0), (\<lambda>i. 0)(0 := 1)) (Fin 0) LINEAR
   \<and> \<not> (\<exists>c v. temporal_interpolation (Fin (1 / 2)) (Fin (1 / 2)) (Fin 0) (Fin 10) ex_field
        ((\<lambda>i. 0), (\<lambda>i. 0), (\<lambda>i. 0), (\<lambda>i. 0)) (Fin 0) LINEAR = Some (ERROR_TIME_EXTRAPOLATION, c, v))"
proof -
  have g: "ex_grid = c_grid (f_grid ex_field)" by (simp add: ex_field_def)
  have gc: "c_gtype (f_grid ex_field) = RECTILINEAR_Z_GRID \<or> c_gtype (f_grid ex_field) = RECTILINEAR_S_GRID
                  \<or> c_gtype (f_grid ex_field) = CURVILINEAR_Z_GRID \<or> c_gtype (f_grid ex_field) = CURVILINEAR_S_GRID"
    by (simp add: ex_field_def)
  have h2: "real_array (g_time ex_grid) (g_tdim ex_grid) (\<lambda>i. 10 * of_int i)"
    by (simp add: real_array_def ex_grid_def)
  have h3: "increasing (\<lambda>i. 10 * of_int i) (g_tdim ex_grid)"
    by (simp add: increasing_def)
  have h: "f_time_periodic ex_field = 0 \<and> f_allow_time_extrapolation ex_field = 0 \<and> 1 \<le> g_tdim ex_grid \<and>
          real_array (g_time ex_grid) (g_tdim ex_grid) (\<lambda>i. 10 * of_int i)
          \<and> increasing (\<lambda>i. 10 * of_int i) (g_tdim ex_grid) \<and>
          Fin 10 = g_time ex_grid (g_tdim ex_grid - 1)
          \<and> ((\<lambda>i. 0), (\<lambda>i. 0), (\<lambda>i. 0), (\<lambda>i. 0)) = ((\<lambda>i. 0::int), (\<lambda>i. 0::int), (\<lambda>i. 0::int), (\<lambda>i. 0::int)) \<and>
          (\<lambda>i. 0::int) (f_igrid ex_field) \<le> g_tdim ex_grid - 1"
    using h2 h3 by (simp add: ex_field_def ex_grid_def)
  have n: "\<not> (f_time_periodic ex_field = 0 \<and> f_allow_time_extrapolation ex_field = 0 \<and>
               (Fin 10 < g_time ex_grid 0 \<or> Fin 10 > g_time ex_grid (g_tdim ex_grid - 1)))"
    by (simp add: ex_grid_def)
  have e: "f_igrid ex_field = 0" "g_tdim ex_grid - 1 = 1" "c_gtype (f_grid ex_field) = 0"
    by (simp_all add: ex_field_def ex_grid_def)
  from temporal_interpolation_time_extrapolation[OF gc g,
          where x="Fin (1 / 2)" and y="Fin (1 / 2)" and z="Fin 0" and time="Fin 10"
            and cur="((\<lambda>i. 0), (\<lambda>i. 0), (\<lambda>i. 0), (\<lambda>i. 0))" and val="Fin 0" and interp_method=LINEAR
            and r="\<lambda>i. 10 * of_int i" and xi="\<lambda>i. 0" and yi="\<lambda>i. 0" and zi="\<lambda>i. 0" and ti="\<lambda>i. 0"]
       h n h2 h3
  show ?thesis by (simp only: e) blast
qed

section \<open>The rotation adapter\<close>

text \<open>
  C7. \<^verbatim>\<open>temporal_interpolationUVrotation\<close> queries \<open>U\<close>, \<open>V\<close>, \<open>cosU\<close>, \<open>sinU\<close>,
  \<open>cosV\<close>, \<open>sinV\<close> in this order at the same \<open>(x, y, z, time)\<close>, threading the cursor
  arrays. When all six return \<^verbatim>\<open>SUCCESS\<close> it returns \<^verbatim>\<open>SUCCESS\<close> with
  \<open>valueU = u * cosU - v * sinV\<close> and \<open>valueV = u * sinU + v * cosV\<close>. When one of them
  returns another code, the adapter returns that code and leaves \<^verbatim>\<open>*valueU\<close> and
  \<^verbatim>\<open>*valueV\<close> as they were.
\<close>

theorem temporal_interpolationUVrotation_formula:
  "((temporal_interpolation x y z time U cur (Fin 0) interp_method = Some (SUCCESS, cu, u_val) \<and>
      temporal_interpolation x y z time V cu (Fin 0) interp_method = Some (SUCCESS, cv, v_val) \<and>
      temporal_interpolation x y z time cosU cv (Fin 0) interp_method = Some (SUCCESS, ccu, cosU_val) \<and>
      temporal_interpolation x y z time sinU ccu (Fin 0) interp_method = Some (SUCCESS, csu, sinU_val) \<and>
      temporal_interpolation x y z time cosV csu (Fin 0) interp_method = Some (SUCCESS, ccv, cosV_val) \<and>
      temporal_interpolation x y z time sinV ccv (Fin 0) interp_method = Some (SUCCESS, csv, sinV_val))
      \<longrightarrow> temporal_interpolationUVrotation x y z time U V cosU sinU cosV sinV cur valueU valueV interp_method
            = Some (SUCCESS, csv, u_val * cosU_val - v_val * sinV_val, u_val * sinU_val + v_val * cosV_val))
   \<and> ((temporal_interpolation x y z time U cur (Fin 0) interp_method = Some (err, cu, u_val) \<and>
      err \<noteq> SUCCESS)
      \<longrightarrow> temporal_interpolationUVrotation x y z time U V cosU sinU cosV sinV cur valueU valueV interp_method = Some (err, cu, valueU, valueV))
   \<and> ((temporal_interpolation x y z time U cur (Fin 0) interp_method = Some (SUCCESS, cu, u_val) \<and>
      temporal_interpolation x y z time V cu (Fin 0) interp_method = Some (err, cv, v_val) \<and>
      err \<noteq> SUCCESS)
      \<longrightarrow> temporal_interpolationUVrotation x y z time U V cosU sinU cosV sinV cur valueU valueV interp_method = Some (err, cv, valueU, valueV))
   \<and> ((temporal_interpolation x y z time U cur (Fin 0) interp_method = Some (SUCCESS, cu, u_val) \<and>
      temporal_interpolation x y z time V cu (Fin 0) interp_method = Some (SUCCESS, cv, v_val) \<and>
      temporal_interpolation x y z time cosU cv (Fin 0) interp_method = Some (err, ccu, cosU_val) \<and>
      err \<noteq> SUCCESS)
      \<longrightarrow> temporal_interpolationUVrotation x y z time U V cosU sinU cosV sinV cur valueU valueV interp_method = Some (err, ccu, valueU, valueV))
   \<and> ((temporal_interpolation x y z time U cur (Fin 0) interp_method = Some (SUCCESS, cu, u_val) \<and>
      temporal_interpolation x y z time V cu (Fin 0) interp_method = Some (SUCCESS, cv, v_val) \<and>
      temporal_interpolation x y z time cosU cv (Fin 0) interp_method = Some (SUCCESS, ccu, cosU_val) \<and>
      temporal_interpolation x y z time sinU ccu (Fin 0) interp_method = Some (err, csu, sinU_val) \<and>
      err \<noteq> SUCCESS)
      \<longrightarrow> temporal_interpolationUVrotation x y z time U V cosU sinU cosV sinV cur valueU valueV interp_method = Some (err, csu, valueU, valueV))
   \<and> ((temporal_interpolation x y z time U cur (Fin 0) interp_method = Some (SUCCESS, cu, u_val) \<and>
      temporal_interpolation x y z time V cu (Fin 0) interp_method = Some (SUCCESS, cv, v_val) \<and>
      temporal_interpolation x y z time cosU cv (Fin 0) interp_method = Some (SUCCESS, ccu, cosU_val) \<and>
      temporal_interpolation x y z time sinU ccu (Fin 0) interp_method = Some (SUCCESS, csu, sinU_val) \<and>
      temporal_interpolation x y z time cosV csu (Fin 0) interp_method = Some (err, ccv, cosV_val) \<and>
      err \<noteq> SUCCESS)
      \<longrightarrow> temporal_interpolationUVrotation x y z time U V cosU sinU cosV sinV cur valueU valueV interp_method = Some (err, ccv, valueU, valueV))
   \<and> ((temporal_interpolation x y z time U cur (Fin 0) interp_method = Some (SUCCESS, cu, u_val) \<and>
      temporal_interpolation x y z time V cu (Fin 0) interp_method = Some (SUCCESS, cv, v_val) \<and>
      temporal_interpolation x y z time cosU cv (Fin 0) interp_method = Some (SUCCESS, ccu, cosU_val) \<and>
      temporal_interpolation x y z time sinU ccu (Fin 0) interp_method = Some (SUCCESS, csu, sinU_val) \<and>
      temporal_interpolation x y z time cosV csu (Fin 0) interp_method = Some (SUCCESS, ccv, cosV_val) \<and>
      temporal_interpolation x y z time sinV ccv (Fin 0) interp_method = Some (err, csv, sinV_val) \<and>
      err \<noteq> SUCCESS)
      \<longrightarrow> temporal_interpolationUVrotation x y z time U V cosU sinU cosV sinV cur valueU valueV interp_method = Some (err, csv, valueU, valueV))"
  by (auto simp: temporal_interpolationUVrotation_def)

lemma const_field_query:
  "temporal_interpolation (Fin (1 / 2)) (Fin (1 / 2)) (Fin 0) (Fin (5 / 2)) (const_field c)
       ((\<lambda>i. 0), (\<lambda>i. 0), (\<lambda>i. 0), (\<lambda>i. 0)) (Fin 0) LINEAR
     = Some (SUCCESS, ((\<lambda>i. 0), (\<lambda>i. 0), (\<lambda>i. 0), (\<lambda>i. 0)), Fin c)"
proof -
  have g: "c_grid (f_grid (const_field c)) = ex_grid" by (simp add: const_field_def ex_field_def)
  have i0: "f_igrid (const_field c) = 0" by (simp add: const_field_def ex_field_def)
  have pre: "\<not> (f_time_periodic (const_field c) = 0 \<and> f_allow_time_extrapolation (const_field c) = 0 \<and>
              (Fin (5 / 2) < g_time (c_grid (f_grid (const_field c))) 0
               \<or> Fin (5 / 2) > g_time (c_grid (f_grid (const_field c)))
                     (g_tdim (c_grid (f_grid (const_field c))) - 1)))"
    by (simp add: g) (simp add: ex_grid_def)
  have loc: "search_time_index (Fin (5 / 2)) (g_tdim (c_grid (f_grid (const_field c))))
           (g_time (c_grid (f_grid (const_field c)))) ((\<lambda>i. 0) (f_igrid (const_field c)))
           (f_time_periodic (const_field c))
           = Some (SUCCESS, Fin (5 / 2), 0)"
    by (subst search_time_index.simps)
       (simp add: g ex_grid_def ex_field_def const_field_def time_walk_up.simps walk_down.simps)
  have si: "search_indices (Fin (1 / 2)) (Fin (1 / 2)) (Fin 0)
             (g_xdim (c_grid (f_grid (const_field c)))) (g_ydim (c_grid (f_grid (const_field c))))
             (g_zdim (c_grid (f_grid (const_field c)))) (g_lon (c_grid (f_grid (const_field c))))
             (g_lat (c_grid (f_grid (const_field c)))) (g_depth (c_grid (f_grid (const_field c))))
             ((\<lambda>i. 0) (f_igrid (const_field c))) ((\<lambda>i. 0) (f_igrid (const_field c)))
             ((\<lambda>i. 0) (f_igrid (const_field c)))
             (Fin 0) (Fin 0) (Fin 0) (g_sphere_mesh (c_grid (f_grid (const_field c))))
             (g_zonal_periodic (c_grid (f_grid (const_field c)))) RECTILINEAR_Z_GRID
             (g_z4d (c_grid (f_grid (const_field c))))
             (((\<lambda>i. 0)(f_igrid (const_field c) := 0)) (f_igrid (const_field c)))
             (g_tdim (c_grid (f_grid (const_field c)))) (Fin (5 / 2))
             (g_time (c_grid (f_grid (const_field c)))
                (((\<lambda>i. 0)(f_igrid (const_field c) := 0)) (f_igrid (const_field c))))
             (g_time (c_grid (f_grid (const_field c)))
                (((\<lambda>i. 0)(f_igrid (const_field c) := 0)) (f_igrid (const_field c)) + 1))
              = (SUCCESS, 0, 0, 0, Fin (1 / 2), Fin (1 / 2), Fin 0)"
    by (simp add: g ex_grid_def search_indices_def search_indices_rectilinear_def rectilinear_x_def
          vertical_stage_def vertical_switch_def walk_up.simps walk_down.simps Let_def)
  have gt: "c_gtype (f_grid (const_field c)) = RECTILINEAR_Z_GRID"
    by (simp add: const_field_def ex_field_def)
  have k: "spatial_kernel LINEAR (c_grid (f_grid (const_field c))) (Fin (1 / 2)) (Fin (1 / 2)) (Fin 0) 0 0 0
             (data_slice (const_field c) j) = Some (Fin c)" for j
    by (simp add: spatial_kernel_def spatial_interpolation_bilinear_def data_slice_def
          ex_grid_def ex_field_def const_field_def)
  have "temporal_interpolation_structured_grid (Fin (1 / 2)) (Fin (1 / 2)) (Fin 0) (Fin (5 / 2))
          (const_field c) RECTILINEAR_Z_GRID ((\<lambda>i. 0), (\<lambda>i. 0), (\<lambda>i. 0), (\<lambda>i. 0)) (Fin 0) LINEAR
        = Some (SUCCESS, ((\<lambda>i. 0), (\<lambda>i. 0), (\<lambda>i. 0), (\<lambda>i. 0)), Fin c)"
    unfolding driver_unfold[where f="const_field c" and ti="\<lambda>i. 0", OF pre loc]
      two_sample_branch_unfold[where f="const_field c" and xi="\<lambda>i. 0" and yi="\<lambda>i. 0"
        and zi="\<lambda>i. 0" and ti="(\<lambda>i. 0)(f_igrid (const_field c) := 0)", OF si]
    by (simp add: k) (simp add: g ex_grid_def i0 fun_eq_iff)
  then show ?thesis by (simp add: temporal_interpolation_def gt)
qed

theorem temporal_interpolationUVrotation_formula_witness:
  "temporal_interpolationUVrotation (Fin (1 / 2)) (Fin (1 / 2)) (Fin 0) (Fin (5 / 2))
       (const_field 3) (const_field 5) (const_field (1 / 2)) (const_field (1 / 3))
       (const_field (1 / 5)) (const_field (1 / 7))
       ((\<lambda>i. 0), (\<lambda>i. 0), (\<lambda>i. 0), (\<lambda>i. 0)) (Fin 0) (Fin 0) LINEAR
     = Some (SUCCESS, ((\<lambda>i. 0), (\<lambda>i. 0), (\<lambda>i. 0), (\<lambda>i. 0)), Fin (11 / 14), Fin 2)"
  using temporal_interpolationUVrotation_formula
          [where x="Fin (1 / 2)" and y="Fin (1 / 2)" and z="Fin 0" and time="Fin (5 / 2)"
             and U="const_field 3" and V="const_field 5" and cosU="const_field (1 / 2)"
             and sinU="const_field (1 / 3)" and cosV="const_field (1 / 5)" and sinV="const_field (1 / 7)"
             and cur="((\<lambda>i. 0), (\<lambda>i. 0), (\<lambda>i. 0), (\<lambda>i. 0))"
             and cu="((\<lambda>i. 0), (\<lambda>i. 0), (\<lambda>i. 0), (\<lambda>i. 0))"
             and cv="((\<lambda>i. 0), (\<lambda>i. 0), (\<lambda>i. 0), (\<lambda>i. 0))"
             and ccu="((\<lambda>i. 0), (\<lambda>i. 0), (\<lambda>i. 0), (\<lambda>i. 0))"
             and csu="((\<lambda>i. 0), (\<lambda>i. 0), (\<lambda>i. 0), (\<lambda>i. 0))"
             and ccv="((\<lambda>i. 0), (\<lambda>i. 0), (\<lambda>i. 0), (\<lambda>i. 0))"
             and csv="((\<lambda>i. 0), (\<lambda>i. 0), (\<lambda>i. 0), (\<lambda>i. 0))"
             and u_val="Fin 3" and v_val="Fin 5" and cosU_val="Fin (1 / 2)" and sinU_val="Fin (1 / 3)"
             and cosV_val="Fin (1 / 5)" and sinV_val="Fin (1 / 7)"
             and valueU="Fin 0" and valueV="Fin 0" and interp_method=LINEAR]
  by (simp add: const_field_query)

section \<open>Periodic time\<close>

lemma periods_of_shift:
  fixes r :: "int \<Rightarrow> real"
  assumes T: "r 0 < r (tsize - 1)"
  shows "periods_of r tsize (tr + of_int k * (r (tsize - 1) - r 0)) = periods_of r tsize tr + k"
proof -
  have nz: "r (tsize - 1) - r 0 \<noteq> 0" using T by simp
  have "(tr + of_int k * (r (tsize - 1) - r 0) - r 0) / (r (tsize - 1) - r 0)
          = (tr - r 0) / (r (tsize - 1) - r 0) + of_int k"
    using nz by (simp add: field_simps)
  then show ?thesis by (simp add: periods_of_def)
qed

text \<open>
  On a periodic axis every time but \<open>tvals[tsize-1]\<close> itself is located at
  \<open>t - \<lfloor>(t - tvals[0]) / T\<rfloor> * T\<close>.
\<close>

lemma search_time_index_periodic:
  assumes sz: "2 \<le> tsize" and arr: "real_array tvals tsize r" and inc: "increasing r tsize"
    and ne: "tr \<noteq> r (tsize - 1)" and fits: "fits_int (periods_of r tsize tr)"
    and hint: "ti \<le> tsize - 1"
    and t': "t' = tr - of_int (periods_of r tsize tr) * (r (tsize - 1) - r 0)"
  shows "\<exists>k. search_time_index (Fin tr) tsize tvals ti 1 = Some (SUCCESS, Fin t', k)
            \<and> 0 \<le> k \<and> k < tsize \<and> r k \<le> t' \<and> (\<forall>j. k < j \<and> j < tsize \<longrightarrow> t' < r j)"
proof (cases "tr < r 0 \<or> r (tsize - 1) < tr")
  case True
  have T: "r 0 < r (tsize - 1)" using inc sz by (auto simp: increasing_def)
  have rng: "r 0 \<le> t'" using reduced_time_range(1)[OF T, of tr] by (simp add: t')
  define h where "h = (if tr < r 0 then tsize - 1 else 0)"
  define k1 where "k1 = walk_down (Fin t') tvals (time_walk_up (Fin t') tsize tvals h)"
  define k where "k = walk_down (Fin t') tvals (time_walk_up (Fin t') tsize tvals k1)"
  have sz1: "1 \<le> tsize" using sz by simp
  have hb: "0 \<le> h" "h \<le> tsize - 1" using sz by (auto simp: h_def)
  have l1: "0 \<le> k1 \<and> k1 < tsize \<and> r k1 \<le> t' \<and> (\<forall>j. k1 < j \<and> j < tsize \<longrightarrow> t' < r j)"
    using time_locate[OF sz1 arr inc hb rng k1_def] .
  then have k1b: "0 \<le> k1" "k1 \<le> tsize - 1" by auto
  have l2: "0 \<le> k \<and> k < tsize \<and> r k \<le> t' \<and> (\<forall>j. k < j \<and> j < tsize \<longrightarrow> t' < r j)"
    using time_locate[OF sz1 arr inc k1b rng k_def] .
  have "search_time_index (Fin tr) tsize tvals ti 1 = Some (SUCCESS, Fin t', k)"
    using search_time_index_reduction[OF sz arr inc True fits t', of ti]
    by (simp add: k_def k1_def h_def)
  with l2 show ?thesis by blast
next
  case False
  with ne have rng: "r 0 \<le> tr" "tr < r (tsize - 1)" by auto
  have T: "r 0 < r (tsize - 1)" using inc sz by (auto simp: increasing_def)
  have "0 \<le> (tr - r 0) / (r (tsize - 1) - r 0)" "(tr - r 0) / (r (tsize - 1) - r 0) < 1"
    using rng T by simp_all
  then have "periods_of r tsize tr = 0" unfolding periods_of_def by linarith
  then have te: "t' = tr" using t' by simp
  have v0: "tvals 0 = Fin (r 0)" and vn: "tvals (tsize - 1) = Fin (r (tsize - 1))"
    using sz arr by (auto simp: real_array_def)
  have nored: "\<not> ((1::int) = 1 \<and> (Fin tr < tvals 0 \<or> Fin tr > tvals (tsize - 1)))"
    using False by (simp add: v0 vn)
  define h where "h = (if ti < 0 then 0 else ti)"
  define k where "k = walk_down (Fin tr) tvals (time_walk_up (Fin tr) tsize tvals h)"
  have sz1: "1 \<le> tsize" using sz by simp
  have hb: "0 \<le> h" "h \<le> tsize - 1" using hint sz by (auto simp: h_def)
  have l: "0 \<le> k \<and> k < tsize \<and> r k \<le> tr \<and> (\<forall>j. k < j \<and> j < tsize \<longrightarrow> tr < r j)"
    using time_locate[OF sz1 arr inc hb rng(1) k_def] .
  have "search_time_index (Fin tr) tsize tvals ti 1 = Some (SUCCESS, Fin tr, k)"
    using search_time_index_no_reduction[OF nored, of ti] by (simp add: k_def h_def)
  with l te show ?thesis by blast
qed

section \<open>NaN coordinates\<close>

text \<open>
  C5. The rectilinear locator has no test for NaN: every comparison with NaN is false, so
  neither the range checks on entry nor the final checks \<^verbatim>\<open>*xsi < 0 || *xsi > 1\<close> reject
  it. With a NaN query longitude, and with a finite query on an axis that repeats a
  value (\<open>0/0\<close>), \<^verbatim>\<open>search_indices_rectilinear\<close> returns \<^verbatim>\<open>SUCCESS\<close> and
  \<open>xsi = NaN\<close>. The curvilinear locator, which has the test
  \<^verbatim>\<open>(*xsi != *xsi) || (*eta != *eta)\<close>, rejects the NaN query.
\<close>

theorem search_indices_rectilinear_accepts_nan:
  "search_indices_rectilinear NaN (Fin (1 / 2)) (Fin 0) 3 3 1
       (\<lambda>i. Fin (of_int i)) (\<lambda>i. Fin (of_int i)) (\<lambda>i. Fin 0)
       0 0 RECTILINEAR_Z_GRID 0 0 0 (Fin 0) (Fin 0) (Fin 0) 0 0 1 (Fin 0) (Fin 0) (Fin 1)
     = (SUCCESS, 0, 0, 0, NaN, Fin (1 / 2), Fin 0)
   \<and> search_indices_rectilinear (Fin 0) (Fin (1 / 2)) (Fin 0) 3 3 1
       (\<lambda>i. if i \<le> 1 then Fin 0 else Fin 1) (\<lambda>i. Fin (of_int i)) (\<lambda>i. Fin 0)
       0 0 RECTILINEAR_Z_GRID 0 0 0 (Fin 0) (Fin 0) (Fin 0) 0 0 1 (Fin 0) (Fin 0) (Fin 1)
     = (SUCCESS, 0, 0, 0, NaN, Fin (1 / 2), Fin 0)
   \<and> fst (search_indices_curvilinear NaN (Fin (1 / 2)) (Fin 0) 2 2 1
       (\<lambda>i. if i = 1 \<or> i = 3 then Fin 1 else Fin 0) (\<lambda>i. if 2 \<le> i then Fin 1 else Fin 0) (\<lambda>i. Fin 0)
       0 0 CURVILINEAR_Z_GRID 0 0 0 (Fin 0) (Fin 0) (Fin 0) 0 0 1 (Fin 0) (Fin 0) (Fin 1))
     = ERROR_OUT_OF_BOUNDS"
proof (intro conjI)
  show "search_indices_rectilinear NaN (Fin (1 / 2)) (Fin 0) 3 3 1
       (\<lambda>i. Fin (of_int i)) (\<lambda>i. Fin (of_int i)) (\<lambda>i. Fin 0)
       0 0 RECTILINEAR_Z_GRID 0 0 0 (Fin 0) (Fin 0) (Fin 0) 0 0 1 (Fin 0) (Fin 0) (Fin 1)
     = (SUCCESS, 0, 0, 0, NaN, Fin (1 / 2), Fin 0)"
    by (simp add: search_indices_rectilinear_def rectilinear_x_def vertical_stage_def
          vertical_switch_def walk_up.simps walk_down.simps Let_def minus_fl_def)
  show "search_indices_rectilinear (Fin 0) (Fin (1 / 2)) (Fin 0) 3 3 1
       (\<lambda>i. if i \<le> 1 then Fin 0 else Fin 1) (\<lambda>i. Fin (of_int i)) (\<lambda>i. Fin 0)
       0 0 RECTILINEAR_Z_GRID 0 0 0 (Fin 0) (Fin 0) (Fin 0) 0 0 1 (Fin 0) (Fin 0) (Fin 1)
     = (SUCCESS, 0, 0, 0, NaN, Fin (1 / 2), Fin 0)"
    by (simp add: search_indices_rectilinear_def rectilinear_x_def vertical_stage_def
          vertical_switch_def walk_up.simps walk_down.simps Let_def)
  have cell: "curvilinear_cell NaN (Fin (1 / 2)) 2
       (\<lambda>i. if i = 1 \<or> i = 3 then Fin 1 else Fin 0) (\<lambda>i. if 2 \<le> i then Fin 1 else Fin 0) 0 0 0 (Fin (- 1))
       = (NaN, NaN)"
    by (simp add: curvilinear_cell_def idx2_def Let_def minus_fl_def)
  have srch: "curvilinear_search NaN (Fin (1 / 2)) 2 2
       (\<lambda>i. if i = 1 \<or> i = 3 then Fin 1 else Fin 0) (\<lambda>i. if 2 \<le> i then Fin 1 else Fin 0) 0
       0 0 (Fin (- 1)) (Fin (- 1)) 0 = (SUCCESS, 0, 0, NaN, NaN)"
    by (subst curvilinear_search.simps, subst curvilinear_search.simps)
       (simp add: cell fix_2d_indices_def Let_def)
  show "fst (search_indices_curvilinear NaN (Fin (1 / 2)) (Fin 0) 2 2 1
       (\<lambda>i. if i = 1 \<or> i = 3 then Fin 1 else Fin 0) (\<lambda>i. if 2 \<le> i then Fin 1 else Fin 0) (\<lambda>i. Fin 0)
       0 0 CURVILINEAR_Z_GRID 0 0 0 (Fin 0) (Fin 0) (Fin 0) 0 0 1 (Fin 0) (Fin 0) (Fin 1))
     = ERROR_OUT_OF_BOUNDS"
    by (simp add: search_indices_curvilinear_def idx2_def srch fl_eq_def)
qed

theorem search_indices_rectilinear_accepts_nan_witness:
  "fst (search_indices_rectilinear NaN (Fin (1 / 2)) (Fin 0) 3 3 1
       (\<lambda>i. Fin (of_int i)) (\<lambda>i. Fin (of_int i)) (\<lambda>i. Fin 0)
       0 0 RECTILINEAR_Z_GRID 0 0 0 (Fin 0) (Fin 0) (Fin 0) 0 0 1 (Fin 0) (Fin 0) (Fin 1))
     = SUCCESS"
  using search_indices_rectilinear_accepts_nan by simp

section \<open>The rectilinear longitude search\<close>

lemma unwrap_real:
  "\<exists>m\<in>{- 1, 0, 1 :: int}. unwrap (Fin w) (Fin c) (Fin a) = Fin (a + 360 * of_int m)"
  by (simp add: unwrap_def Let_def)

lemma unwrap_180_width:
  assumes "unwrap (Fin 180) (Fin v) (Fin a1) = Fin v1" and "a1 - v < 720"
  shows "v1 - v < 360"
  using assms by (auto simp: unwrap_def Let_def split: if_splits)

lemma fix_1d_index_sphere_range:
  "2 \<le> xdim \<Longrightarrow> 0 \<le> fix_1d_index xi xdim 1 \<and> fix_1d_index xi xdim 1 \<le> xdim - 2"
  by (auto simp: fix_1d_index_def Let_def)

lemma rectilinear_x_sphere_success:
  assumes sph: "sphere_mesh \<noteq> 0" and xdim: "2 \<le> xdim" and hint: "0 \<le> xi" "xi \<le> xdim - 2"
    and res: "rectilinear_x x xdim xvals sphere_mesh zonal_periodic xi xsi = (SUCCESS, xi', xsi')"
  shows "0 \<le> xi' \<and> xi' \<le> xdim - 2
       \<and> \<not> unwrap (Fin 225) x (xvals xi') > x
       \<and> \<not> unwrap (Fin 180) (unwrap (Fin 225) x (xvals xi')) (xvals (xi' + 1)) < x
       \<and> xsi' = (x - unwrap (Fin 225) x (xvals xi'))
                 / (unwrap (Fin 180) (unwrap (Fin 225) x (xvals xi')) (xvals (xi' + 1))
                      - unwrap (Fin 225) x (xvals xi'))"
proof -
  define J where "J = (\<lambda>i v v1. 0 \<le> i \<and> i \<le> xdim - 2 \<and> v = unwrap (Fin 225) x (xvals i)
                          \<and> v1 = unwrap (Fin 180) v (xvals (i + 1)))"
  obtain e a b c where s: "sphere_search x xdim xvals xi (unwrap (Fin 225) x (xvals xi))
          (unwrap (Fin 180) (unwrap (Fin 225) x (xvals xi)) (xvals (xi + 1))) 0 = (e, a, b, c)"
    by (rule prod_cases4)
  have r: "rectilinear_x x xdim xvals sphere_mesh zonal_periodic xi xsi
             = (if e \<noteq> SUCCESS then (e, a, xsi) else (SUCCESS, a, (x - b) / (c - b)))"
    using res sph by (auto simp: rectilinear_x_def Let_def s split: if_splits)
  from res r have e: "e = SUCCESS" and a: "a = xi'" and x: "xsi' = (x - b) / (c - b)"
    by (auto split: if_splits)
  have step: "\<And>i v v1. J i v v1 \<Longrightarrow> v > x \<or> v1 < x \<Longrightarrow>
      J (fix_1d_index (if v1 < x then i + 1 else if v > x then i - 1 else i) xdim 1)
        (unwrap (Fin 225) x
           (xvals (fix_1d_index (if v1 < x then i + 1 else if v > x then i - 1 else i) xdim 1)))
        (unwrap (Fin 180)
           (unwrap (Fin 225) x
              (xvals (fix_1d_index (if v1 < x then i + 1 else if v > x then i - 1 else i) xdim 1)))
           (xvals (fix_1d_index (if v1 < x then i + 1 else if v > x then i - 1 else i) xdim 1 + 1)))"
    unfolding J_def using fix_1d_index_sphere_range[OF xdim] by blast
  have init: "J xi (unwrap (Fin 225) x (xvals xi))
                (unwrap (Fin 180) (unwrap (Fin 225) x (xvals xi)) (xvals (xi + 1)))"
    unfolding J_def using hint by simp
  have "J a b c \<and> \<not> (b > x \<or> c < x)"
    by (rule sphere_search_invariant[where J=J, OF step init s[unfolded e]])
  then show ?thesis using a x by (auto simp: J_def)
qed

lemma rectilinear_x_sphere_cell:
  assumes sph: "sphere_mesh \<noteq> 0" and xdim: "2 \<le> xdim" and hint: "0 \<le> xi" "xi \<le> xdim - 2"
    and arr: "real_array xvals xdim r"
    and turn: "\<forall>i. 0 \<le> i \<and> i \<le> xdim - 2 \<longrightarrow> r (i + 1) - r i < 360"
    and res: "rectilinear_x (Fin xr) xdim xvals sphere_mesh zonal_periodic xi xsi = (SUCCESS, xi', xsi')"
  shows "0 \<le> xi' \<and> xi' \<le> xdim - 2 \<and> lon_cell r xi' xr"
proof -
  note s = rectilinear_x_sphere_success[OF sph xdim hint res]
  then have b: "0 \<le> xi'" "xi' \<le> xdim - 2" by auto
  then have va: "xvals xi' = Fin (r xi')" and vb: "xvals (xi' + 1) = Fin (r (xi' + 1))"
    using arr by (auto simp: real_array_def)
  obtain m where m: "m \<in> {- 1, 0, 1 :: int}"
      "unwrap (Fin 225) (Fin xr) (Fin (r xi')) = Fin (r xi' + 360 * of_int m)"
    using unwrap_real[of 225 xr "r xi'"] by blast
  obtain m' where m': "m' \<in> {- 1, 0, 1 :: int}"
      "unwrap (Fin 180) (Fin (r xi' + 360 * of_int m)) (Fin (r (xi' + 1)))
         = Fin (r (xi' + 1) + 360 * of_int m')"
    using unwrap_real[of 180 "r xi' + 360 * of_int m" "r (xi' + 1)"] by blast
  from s have "\<not> Fin (r xi' + 360 * of_int m) > Fin xr" "\<not> Fin (r (xi' + 1) + 360 * of_int m') < Fin xr"
    by (simp_all add: va vb m m')
  then have c: "r xi' + 360 * of_int m \<le> xr" "xr \<le> r (xi' + 1) + 360 * of_int m'" by simp_all
  have "r (xi' + 1) - r xi' < 360" using turn b by simp
  with m(1) have "r (xi' + 1) - (r xi' + 360 * of_int m) < 720" by auto
  from unwrap_180_width[OF m'(2) this]
  have w: "(r (xi' + 1) + 360 * of_int m') - (r xi' + 360 * of_int m) < 360" .
  have "lon_cell r xi' xr" unfolding lon_cell_def using m(1) m'(1) c w by blast
  with b show ?thesis by simp
qed


text \<open>
  The early check of the spherical branch returns \<^verbatim>\<open>ERROR_OUT_OF_BOUNDS\<close> with the
  cursor untouched for every \<open>x\<close> outside \<open>[xvals[0], xvals[xdim-1]]\<close> when the end values
  are ascending, and for every \<open>x\<close> strictly between \<open>xvals[xdim-1]\<close> and \<open>xvals[0]\<close> when
  they are descending. In exact arithmetic, moreover, every finite \<open>x\<close> that lies in no
  cell of the axis modulo full turns is rejected with \<^verbatim>\<open>ERROR_OUT_OF_BOUNDS\<close> (by the
  iteration cap of the search where the early check lets it pass), for a valid hint and
  adjacent longitudes less than a full turn apart.
\<close>

lemma search_indices_rectilinear_rejects_outside_exact:
  assumes sph: "sphere_mesh \<noteq> 0" and zp: "zonal_periodic = 0"
  shows "(xvals 0 < xvals (xdim - 1) \<and> (x < xvals 0 \<or> x > xvals (xdim - 1)) \<longrightarrow>
            search_indices_rectilinear x y z xdim ydim zdim xvals yvals zvals sphere_mesh zonal_periodic
             gcode xi yi zi xsi eta zeta z4d ti tdim time t0 t1 = (ERROR_OUT_OF_BOUNDS, xi, yi, zi, xsi, eta, zeta))
       \<and> (xvals 0 \<ge> xvals (xdim - 1) \<and> x < xvals 0 \<and> x > xvals (xdim - 1) \<longrightarrow>
            search_indices_rectilinear x y z xdim ydim zdim xvals yvals zvals sphere_mesh zonal_periodic
             gcode xi yi zi xsi eta zeta z4d ti tdim time t0 t1 = (ERROR_OUT_OF_BOUNDS, xi, yi, zi, xsi, eta, zeta))
       \<and> (2 \<le> xdim \<and> 0 \<le> xi \<and> xi \<le> xdim - 2 \<and> x = Fin xr \<and> real_array xvals xdim r \<and>
          (\<forall>i. 0 \<le> i \<and> i \<le> xdim - 2 \<longrightarrow> r (i + 1) - r i < 360) \<and> \<not> lon_covered r xdim xr \<longrightarrow>
            fst (search_indices_rectilinear x y z xdim ydim zdim xvals yvals zvals sphere_mesh zonal_periodic
             gcode xi yi zi xsi eta zeta z4d ti tdim time t0 t1) = ERROR_OUT_OF_BOUNDS)"
proof (intro conjI impI)
  assume "xvals 0 < xvals (xdim - 1) \<and> (x < xvals 0 \<or> x > xvals (xdim - 1))"
  then have "rectilinear_x x xdim xvals sphere_mesh zonal_periodic xi xsi = (ERROR_OUT_OF_BOUNDS, xi, xsi)"
    using sph zp by (simp add: rectilinear_x_def)
  then show "search_indices_rectilinear x y z xdim ydim zdim xvals yvals zvals sphere_mesh zonal_periodic
             gcode xi yi zi xsi eta zeta z4d ti tdim time t0 t1 = (ERROR_OUT_OF_BOUNDS, xi, yi, zi, xsi, eta, zeta)"
    by (simp add: search_indices_rectilinear_def)
next
  assume "xvals 0 \<ge> xvals (xdim - 1) \<and> x < xvals 0 \<and> x > xvals (xdim - 1)"
  then have "rectilinear_x x xdim xvals sphere_mesh zonal_periodic xi xsi = (ERROR_OUT_OF_BOUNDS, xi, xsi)"
    using sph zp by (simp add: rectilinear_x_def)
  then show "search_indices_rectilinear x y z xdim ydim zdim xvals yvals zvals sphere_mesh zonal_periodic
             gcode xi yi zi xsi eta zeta z4d ti tdim time t0 t1 = (ERROR_OUT_OF_BOUNDS, xi, yi, zi, xsi, eta, zeta)"
    by (simp add: search_indices_rectilinear_def)
next
  assume h: "2 \<le> xdim \<and> 0 \<le> xi \<and> xi \<le> xdim - 2 \<and> x = Fin xr \<and> real_array xvals xdim r \<and>
          (\<forall>i. 0 \<le> i \<and> i \<le> xdim - 2 \<longrightarrow> r (i + 1) - r i < 360) \<and> \<not> lon_covered r xdim xr"
  obtain e a b where s: "rectilinear_x x xdim xvals sphere_mesh zonal_periodic xi xsi = (e, a, b)"
    by (rule prod_cases3)
  have "e \<noteq> SUCCESS"
  proof
    assume "e = SUCCESS"
    with s h have "rectilinear_x (Fin xr) xdim xvals sphere_mesh zonal_periodic xi xsi = (SUCCESS, a, b)"
      by simp
    from rectilinear_x_sphere_cell[OF sph _ _ _ _ _ this, of r] h
    have "0 \<le> a \<and> a \<le> xdim - 2 \<and> lon_cell r a xr" by blast
    then have "lon_covered r xdim xr" unfolding lon_covered_def by auto
    with h show False by simp
  qed
  moreover have "e \<in> {SUCCESS, ERROR_OUT_OF_BOUNDS}"
    using rectilinear_x_codes[of x xdim xvals sphere_mesh zonal_periodic xi xsi] by (simp add: s)
  ultimately have "e = ERROR_OUT_OF_BOUNDS" by simp
  then show "fst (search_indices_rectilinear x y z xdim ydim zdim xvals yvals zvals sphere_mesh zonal_periodic
             gcode xi yi zi xsi eta zeta z4d ti tdim time t0 t1) = ERROR_OUT_OF_BOUNDS"
    by (simp add: search_indices_rectilinear_def s)
qed


section \<open>Properties of the time locator with rounding\<close>

lemma round_fl_id [simp]: "round_fl (\<lambda>v. v) x = x"
  by (cases x) simp_all


lemma search_time_index_rd_no_reduction:
  assumes "\<not> (time_periodic = 1 \<and> (t < tvals 0 \<or> t > tvals (tsize - 1)))"
  shows "search_time_index_rd rd t tsize tvals ti time_periodic
           = Some (SUCCESS, t, walk_down t tvals (time_walk_up t tsize tvals (if ti < 0 then 0 else ti)))"
  using assms by (subst search_time_index_rd.simps) (auto simp: Let_def)

text \<open>Without rounding the two definitions of the time locator agree.\<close>

lemma search_time_index_rd_exact_le:
  assumes "search_time_index_rd rd t tsize tvals ti time_periodic = Some y" and "rd = (\<lambda>v. v)"
  shows "search_time_index t tsize tvals ti time_periodic = Some y"
proof -
  have "rd = (\<lambda>v. v) \<longrightarrow> search_time_index t tsize tvals ti time_periodic = Some y"
  proof (rule search_time_index_rd.raw_induct[where P = "\<lambda>rd t tsize tvals ti time_periodic y.
            rd = (\<lambda>v. v) \<longrightarrow> search_time_index t tsize tvals ti time_periodic = Some y"])
    show "search_time_index_rd rd t tsize tvals ti time_periodic = Some y" by (rule assms(1))
  next
    fix f :: "(real \<Rightarrow> real) \<Rightarrow> fl \<Rightarrow> int \<Rightarrow> (int \<Rightarrow> fl) \<Rightarrow> int \<Rightarrow> int \<Rightarrow> (ErrorCode \<times> fl \<times> int) option"
    fix rd t tsize tvals ti time_periodic y
    assume IH: "\<And>t tsize tvals ti time_periodic b y. f t tsize tvals ti time_periodic b = Some y \<Longrightarrow>
                  t = (\<lambda>v. v) \<longrightarrow> search_time_index tsize tvals ti time_periodic b = Some y"
    assume body: "(let ti0 = if ti < 0 then 0 else ti
      in if time_periodic = 1 \<and> t < tvals 0
         then Option.bind
               (int_of_double (floor_fl (round_fl rd
                     (round_fl rd (t - tvals 0) / round_fl rd (tvals (tsize - 1) - tvals 0)))))
               (\<lambda>periods.
                   Option.bind
                    (f rd (round_fl rd (t - round_fl rd
                          (double_of_int periods * round_fl rd (tvals (tsize - 1) - tvals 0))))
                      tsize tvals (tsize - 1) time_periodic)
                    (\<lambda>(err, t', ti').
                        Some (SUCCESS, t', walk_down t' tvals (time_walk_up t' tsize tvals ti'))))
         else if time_periodic = 1 \<and> tvals (tsize - 1) < t
              then Option.bind
                    (int_of_double (floor_fl (round_fl rd
                          (round_fl rd (t - tvals 0) / round_fl rd (tvals (tsize - 1) - tvals 0)))))
                    (\<lambda>periods.
                        Option.bind
                         (f rd (round_fl rd (t - round_fl rd
                               (double_of_int periods * round_fl rd (tvals (tsize - 1) - tvals 0))))
                           tsize tvals 0 time_periodic)
                         (\<lambda>(err, t', ti').
                             Some (SUCCESS, t', walk_down t' tvals (time_walk_up t' tsize tvals ti'))))
              else Some (SUCCESS, t, walk_down t tvals (time_walk_up t tsize tvals ti0))) = Some y"
    show "rd = (\<lambda>v. v) \<longrightarrow> search_time_index t tsize tvals ti time_periodic = Some y"
    proof
      assume rd: "rd = (\<lambda>v. v)"
      show "search_time_index t tsize tvals ti time_periodic = Some y"
        using body IH unfolding rd
        by (subst search_time_index.simps)
           (auto simp: Let_def split: if_splits Option.bind_splits prod.splits)
    qed
  qed
  with assms(2) show ?thesis by simp
qed

lemma search_time_index_exact_le:
  assumes "search_time_index t tsize tvals ti time_periodic = Some y"
  shows "search_time_index_rd (\<lambda>v. v) t tsize tvals ti time_periodic = Some y"
proof (rule search_time_index.raw_induct[where P = "\<lambda>t tsize tvals ti time_periodic y.
            search_time_index_rd (\<lambda>v. v) t tsize tvals ti time_periodic = Some y"])
  show "search_time_index t tsize tvals ti time_periodic = Some y" by (rule assms)
next
  fix f :: "fl \<Rightarrow> int \<Rightarrow> (int \<Rightarrow> fl) \<Rightarrow> int \<Rightarrow> int \<Rightarrow> (ErrorCode \<times> fl \<times> int) option"
  fix t tsize tvals ti time_periodic y
  assume IH: "\<And>t tsize tvals ti time_periodic y. f t tsize tvals ti time_periodic = Some y \<Longrightarrow>
                search_time_index_rd (\<lambda>v. v) t tsize tvals ti time_periodic = Some y"
  assume body: "(let ti0 = if ti < 0 then 0 else ti
      in if time_periodic = 1 \<and> t < tvals 0
         then Option.bind
               (int_of_double (floor_fl ((t - tvals 0) / (tvals (tsize - 1) - tvals 0))))
               (\<lambda>periods.
                   Option.bind
                    (f (t - double_of_int periods * (tvals (tsize - 1) - tvals 0))
                      tsize tvals (tsize - 1) time_periodic)
                    (\<lambda>(err, t', ti').
                        Some (SUCCESS, t', walk_down t' tvals (time_walk_up t' tsize tvals ti'))))
         else if time_periodic = 1 \<and> tvals (tsize - 1) < t
              then Option.bind
                    (int_of_double (floor_fl ((t - tvals 0) / (tvals (tsize - 1) - tvals 0))))
                    (\<lambda>periods.
                        Option.bind
                         (f (t - double_of_int periods * (tvals (tsize - 1) - tvals 0))
                           tsize tvals 0 time_periodic)
                         (\<lambda>(err, t', ti').
                             Some (SUCCESS, t', walk_down t' tvals (time_walk_up t' tsize tvals ti'))))
              else Some (SUCCESS, t, walk_down t tvals (time_walk_up t tsize tvals ti0))) = Some y"
  show "search_time_index_rd (\<lambda>v. v) t tsize tvals ti time_periodic = Some y"
    using body IH
    by (subst search_time_index_rd.simps)
       (auto simp: Let_def split: if_splits Option.bind_splits prod.splits)
qed

lemma search_time_index_rd_exact:
  "search_time_index_rd (\<lambda>v. v) t tsize tvals ti time_periodic
     = search_time_index t tsize tvals ti time_periodic"
proof (cases "search_time_index t tsize tvals ti time_periodic")
  case None
  show ?thesis
  proof (cases "search_time_index_rd (\<lambda>v. v) t tsize tvals ti time_periodic")
    case N: None
    with None show ?thesis by simp
  next
    case (Some y)
    from search_time_index_rd_exact_le[OF Some refl] None show ?thesis by simp
  qed
next
  case (Some y)
  from search_time_index_exact_le[OF Some] Some show ?thesis by simp
qed


text \<open>One reduction step, for every rounding.\<close>

lemma int_of_double_int: "int_of_double (Fin (of_int k)) = (if fits_int k then Some k else None)"
  by (simp add: fits_int_def Let_def)

lemma search_time_index_rd_step:
  assumes sz: "1 \<le> tsize" and arr: "real_array tvals tsize r"
    and out: "tr < r 0 \<or> r (tsize - 1) < tr"
  shows "search_time_index_rd rd (Fin tr) tsize tvals ti 1 =
     (if rd (r (tsize - 1) - r 0) = 0 \<or> \<not> fits_int (periods_rd rd r tsize tr) then None
      else Option.bind
             (search_time_index_rd rd (Fin (reduced_rd rd r tsize tr)) tsize tvals
                (if tr < r 0 then tsize - 1 else 0) 1)
             (\<lambda>(err, t', ti'). Some (SUCCESS, t', walk_down t' tvals (time_walk_up t' tsize tvals ti'))))"
proof -
  have v0: "tvals 0 = Fin (r 0)" and vn: "tvals (tsize - 1) = Fin (r (tsize - 1))"
    using sz arr by (auto simp: real_array_def)
  define T where "T = rd (r (tsize - 1) - r 0)"
  have a: "round_fl rd (Fin tr - tvals 0) = Fin (rd (tr - r 0))" by (simp add: v0)
  have b: "round_fl rd (tvals (tsize - 1) - tvals 0) = Fin T" by (simp add: v0 vn T_def)
  have conv: "int_of_double (floor_fl (round_fl rd
             (round_fl rd (Fin tr - tvals 0) / round_fl rd (tvals (tsize - 1) - tvals 0))))
           = (if T = 0 \<or> \<not> fits_int (periods_rd rd r tsize tr) then None
              else Some (periods_rd rd r tsize tr))"
  proof (cases "T = 0")
    case True
    have "int_of_double (floor_fl (round_fl rd (Fin (rd (tr - r 0)) / Fin 0))) = None" by simp
    then show ?thesis unfolding a b using True by simp
  next
    case False
    have "floor_fl (round_fl rd (Fin (rd (tr - r 0)) / Fin T))
            = Fin (of_int (periods_rd rd r tsize tr))"
      using False by (simp add: periods_rd_def T_def)
    then show ?thesis unfolding a b using False by (simp only: int_of_double_int) simp
  qed
  have red: "round_fl rd (Fin tr - round_fl rd
                     (double_of_int (periods_rd rd r tsize tr) * round_fl rd (tvals (tsize - 1) - tvals 0)))
           = Fin (reduced_rd rd r tsize tr)"
    by (simp add: v0 vn double_of_int_def reduced_rd_def)
  show ?thesis
  proof (cases "tr < r 0")
    case True
    have c: "Fin tr < tvals 0" using True by (simp add: v0)
    show ?thesis
      by (subst search_time_index_rd.simps)
         (simp add: Let_def c conv red True T_def del: round_fl.simps floor_fl.simps int_of_double.simps)
  next
    case False
    with out have gt: "r (tsize - 1) < tr" by simp
    have c: "\<not> Fin tr < tvals 0" "Fin tr > tvals (tsize - 1)" using False gt by (simp_all add: v0 vn)
    show ?thesis
      by (subst search_time_index_rd.simps)
         (simp add: Let_def c conv red False T_def del: round_fl.simps floor_fl.simps int_of_double.simps)
  qed
qed


text \<open>Exact operations give the reduction of the specification.\<close>

lemma exact_reduction_values:
  assumes T: "r 0 < r (tsize - 1)" and out: "tr < r 0 \<or> r (tsize - 1) < tr"
    and ex: "exact_reduction rd r tsize tr"
  shows "rd (r (tsize - 1) - r 0) \<noteq> 0"
    and "periods_rd rd r tsize tr = periods_of r tsize tr"
    and "reduced_rd rd r tsize tr = tr - of_int (periods_of r tsize tr) * (r (tsize - 1) - r 0)"
proof -
  from ex out have e: "rd (tr - r 0) = tr - r 0"
    "rd (r (tsize - 1) - r 0) = r (tsize - 1) - r 0"
    "\<lfloor>rd ((tr - r 0) / (r (tsize - 1) - r 0))\<rfloor> = periods_of r tsize tr"
    "rd (of_int (periods_of r tsize tr) * (r (tsize - 1) - r 0))
          = of_int (periods_of r tsize tr) * (r (tsize - 1) - r 0)"
    "rd (tr - of_int (periods_of r tsize tr) * (r (tsize - 1) - r 0))
          = tr - of_int (periods_of r tsize tr) * (r (tsize - 1) - r 0)"
    unfolding exact_reduction_def by blast+
  show "rd (r (tsize - 1) - r 0) \<noteq> 0" using T e(2) by simp
  show p: "periods_rd rd r tsize tr = periods_of r tsize tr"
    unfolding periods_rd_def e(1) e(2) by (rule e(3))
  show "reduced_rd rd r tsize tr = tr - of_int (periods_of r tsize tr) * (r (tsize - 1) - r 0)"
    unfolding reduced_rd_def p e(2) e(4) by (rule e(5))
qed

lemma search_time_index_rd_agree:
  assumes sz: "2 \<le> tsize" and arr: "real_array tvals tsize r" and inc: "increasing r tsize"
    and fits: "fits_int (periods_of r tsize tr)" and ex: "exact_reduction rd r tsize tr"
  shows "search_time_index_rd rd (Fin tr) tsize tvals ti 1 = search_time_index (Fin tr) tsize tvals ti 1"
proof (cases "tr < r 0 \<or> r (tsize - 1) < tr")
  case True
  have sz1: "1 \<le> tsize" using sz by simp
  have T: "r 0 < r (tsize - 1)" using inc sz by (auto simp: increasing_def)
  have v0: "tvals 0 = Fin (r 0)" and vn: "tvals (tsize - 1) = Fin (r (tsize - 1))"
    using sz arr by (auto simp: real_array_def)
  note e = exact_reduction_values[OF T True ex]
  define t' where "t' = tr - of_int (periods_of r tsize tr) * (r (tsize - 1) - r 0)"
  have rng: "r 0 \<le> t'" "t' < r (tsize - 1)"
    using reduced_time_range[OF T, of tr] by (simp_all add: t'_def)
  define h where "h = (if tr < r 0 then tsize - 1 else 0)"
  have "\<not> ((1::int) = 1 \<and> (Fin t' < tvals 0 \<or> Fin t' > tvals (tsize - 1)))"
    using rng by (simp add: v0 vn)
  from search_time_index_rd_no_reduction[OF this, of rd h]
  have inner: "search_time_index_rd rd (Fin t') tsize tvals h 1
      = Some (SUCCESS, Fin t', walk_down (Fin t') tvals (time_walk_up (Fin t') tsize tvals (if h < 0 then 0 else h)))" .
  have hb: "\<not> h < 0" using sz by (simp add: h_def)
  have a: "search_time_index_rd rd (Fin tr) tsize tvals ti 1
      = Some (SUCCESS, Fin t', walk_down (Fin t') tvals (time_walk_up (Fin t') tsize tvals
               (walk_down (Fin t') tvals (time_walk_up (Fin t') tsize tvals h))))"
    using search_time_index_rd_step[OF sz1 arr True, of rd ti] e(1) fits inner hb
    by (simp add: e(2) e(3) t'_def[symmetric] h_def[symmetric])
  show ?thesis
    unfolding a using search_time_index_reduction[OF sz arr inc True fits t'_def, of ti]
    by (simp add: h_def)
next
  case False
  have v0: "tvals 0 = Fin (r 0)" and vn: "tvals (tsize - 1) = Fin (r (tsize - 1))"
    using sz arr by (auto simp: real_array_def)
  have n: "\<not> ((1::int) = 1 \<and> (Fin tr < tvals 0 \<or> Fin tr > tvals (tsize - 1)))"
    using False by (simp add: v0 vn)
  show ?thesis
    by (simp only: search_time_index_rd_no_reduction[OF n] search_time_index_no_reduction[OF n])
qed






lemma exact_reduction_id: "exact_reduction (\<lambda>v. v) r tsize tr"
  by (simp add: exact_reduction_def periods_of_def)

text \<open>A time on the axis is located without any arithmetic.\<close>

lemma search_time_index_rd_on_axis:
  assumes sz: "1 \<le> tsize" and arr: "real_array tvals tsize r" and inc: "increasing r tsize"
    and hint: "ti \<le> tsize - 1"
    and rng: "r 0 \<le> tr" "time_periodic = 1 \<longrightarrow> tr \<le> r (tsize - 1)"
  shows "\<exists>k. search_time_index_rd rd (Fin tr) tsize tvals ti time_periodic = Some (SUCCESS, Fin tr, k)
            \<and> 0 \<le> k \<and> k < tsize \<and> r k \<le> tr \<and> (\<forall>j. k < j \<and> j < tsize \<longrightarrow> tr < r j)
            \<and> search_time_index_rd rd (Fin tr) tsize tvals 0 time_periodic = Some (SUCCESS, Fin tr, k)"
proof -
  have v0: "tvals 0 = Fin (r 0)" and vn: "tvals (tsize - 1) = Fin (r (tsize - 1))"
    using sz arr by (auto simp: real_array_def)
  have n: "\<not> (time_periodic = 1 \<and> (Fin tr < tvals 0 \<or> Fin tr > tvals (tsize - 1)))"
    using rng by (auto simp: v0 vn)
  define h where "h = (if ti < 0 then 0 else ti)"
  define k where "k = walk_down (Fin tr) tvals (time_walk_up (Fin tr) tsize tvals h)"
  define k0 where "k0 = walk_down (Fin tr) tvals (time_walk_up (Fin tr) tsize tvals 0)"
  have hb: "0 \<le> h" "h \<le> tsize - 1" using hint sz by (auto simp: h_def)
  have zb: "(0::int) \<le> 0" "0 \<le> tsize - 1" using sz by simp_all
  have l: "0 \<le> k \<and> k < tsize \<and> r k \<le> tr \<and> (\<forall>j. k < j \<and> j < tsize \<longrightarrow> tr < r j)"
    using time_locate[OF sz arr inc hb rng(1) k_def] .
  have l0: "0 \<le> k0 \<and> k0 < tsize \<and> r k0 \<le> tr \<and> (\<forall>j. k0 < j \<and> j < tsize \<longrightarrow> tr < r j)"
    using time_locate[OF sz arr inc zb rng(1) k0_def] .
  have same: "k0 = k"
    using greatest_index_unique[of k0 tsize r tr k] l l0 by blast
  have a: "search_time_index_rd rd (Fin tr) tsize tvals ti time_periodic = Some (SUCCESS, Fin tr, k)"
    using search_time_index_rd_no_reduction[OF n, of rd ti] by (simp add: k_def h_def)
  have b: "search_time_index_rd rd (Fin tr) tsize tvals 0 time_periodic = Some (SUCCESS, Fin tr, k)"
    using search_time_index_rd_no_reduction[OF n, of rd 0] same by (simp add: k0_def)
  from a b l show ?thesis by blast
qed


section \<open>The driver with rounding\<close>



lemma driver_rd_periodic_cong:
  assumes "f_time_periodic f \<noteq> 0"
    and "search_time_index_rd rd time1 (g_tdim (c_grid (f_grid f))) (g_time (c_grid (f_grid f)))
           (snd (snd (snd cur)) (f_igrid f)) (f_time_periodic f)
         = search_time_index_rd rd time2 (g_tdim (c_grid (f_grid f))) (g_time (c_grid (f_grid f)))
           (snd (snd (snd cur)) (f_igrid f)) (f_time_periodic f)"
  shows "temporal_interpolation_rd rd x y z time1 f cur val interp_method
         = temporal_interpolation_rd rd x y z time2 f cur val interp_method"
proof -
  obtain xi yi zi ti where cur: "cur = (xi, yi, zi, ti)" by (rule prod_cases4)
  have "temporal_interpolation_structured_grid_rd rd x y z time1 f gcode cur val interp_method
         = temporal_interpolation_structured_grid_rd rd x y z time2 f gcode cur val interp_method" for gcode
    using assms unfolding temporal_interpolation_structured_grid_rd_def Let_def cur prod.case
    by simp
  then show ?thesis by (simp add: temporal_interpolation_rd_def Let_def)
qed

lemma temporal_interpolation_rd_exact:
  "temporal_interpolation_rd (\<lambda>v. v) x y z time f cur val interp_method
     = temporal_interpolation x y z time f cur val interp_method"
proof -
  have "temporal_interpolation_structured_grid_rd (\<lambda>v. v) x y z time f gcode cur val interp_method
      = temporal_interpolation_structured_grid x y z time f gcode cur val interp_method" for gcode
    unfolding temporal_interpolation_structured_grid_rd_def temporal_interpolation_structured_grid_def
      search_time_index_rd_exact by (rule refl)
  then show ?thesis by (simp add: temporal_interpolation_rd_def temporal_interpolation_def Let_def)
qed


section \<open>The greatest index, with rounding\<close>





section \<open>Where the time locator returns\<close>





section \<open>Periodic time, with rounding\<close>

text \<open>
  C4 as stated fails in two ways. At \<open>t = tvals[size-1]\<close> the time is not reduced (the
  test is \<^verbatim>\<open>*t > tvals[size-1]\<close>) and is located at the last index, while \<open>t + T\<close> is
  reduced to \<open>tvals[0]\<close> and located at index 0: \<open>tvals = [0, 1, 2]\<close>, \<open>t = 2\<close>, where
  every operation is exact. And the reduction is computed in rounded arithmetic: with
  the \<^verbatim>\<open>double\<close>s \<open>tvals = [0, 0.05, 0.1]\<close>, \<open>T = 0.1 = 3602879701896397 / 2\<^sup>5\<^sup>5\<close>, the
  time \<open>t = 1 - 9 T\<close> lies on the axis and is located at index 1, but for \<open>t + 9 T = 1\<close>
  the quotient \<open>1 / T\<close> is rounded to \<open>10\<close> and the product \<open>10 T\<close> to \<open>1\<close>, so that the
  time is reduced to \<open>0\<close> and located at index 0. The rounding function of the second
  example changes these two values, as rounding to the nearest \<^verbatim>\<open>double\<close> does, and no
  other value.
\<close>

theorem search_time_index_rd_periodic_shift_counterexample:
  "search_time_index_rd (\<lambda>v. v) (Fin 2) 3 (\<lambda>i. Fin (of_int i)) 0 1 = Some (SUCCESS, Fin 2, 2)
   \<and> search_time_index_rd (\<lambda>v. v) (Fin (2 + 1 * (2 - 0))) 3 (\<lambda>i. Fin (of_int i)) 0 1
       = Some (SUCCESS, Fin 0, 0)
   \<and> search_time_index_rd (\<lambda>v. if v = 36028797018963968 / 3602879701896397 then 10
          else if v = 36028797018963970 / 36028797018963968 then 1 else v)
        (Fin (3602879701896395 / 36028797018963968)) 3
        (\<lambda>i. if i = 0 then Fin 0 else if i = 1 then Fin (3602879701896397 / 72057594037927936)
          else Fin (3602879701896397 / 36028797018963968)) 0 1
       = Some (SUCCESS, Fin (3602879701896395 / 36028797018963968), 1)
   \<and> search_time_index_rd (\<lambda>v. if v = 36028797018963968 / 3602879701896397 then 10
          else if v = 36028797018963970 / 36028797018963968 then 1 else v)
        (Fin 1) 3
        (\<lambda>i. if i = 0 then Fin 0 else if i = 1 then Fin (3602879701896397 / 72057594037927936)
          else Fin (3602879701896397 / 36028797018963968)) 0 1
       = Some (SUCCESS, Fin 0, 0)
   \<and> (1::real) = 3602879701896395 / 36028797018963968
                   + 9 * (3602879701896397 / 36028797018963968 - 0)"
proof (intro conjI)
  show "search_time_index_rd (\<lambda>v. v) (Fin 2) 3 (\<lambda>i. Fin (of_int i)) 0 1 = Some (SUCCESS, Fin 2, 2)"
    by (subst search_time_index_rd.simps) (simp add: time_walk_up.simps walk_down.simps)
  have inner: "search_time_index_rd (\<lambda>v. v) (Fin 0) 3 (\<lambda>i. Fin (of_int i)) 0 1 = Some (SUCCESS, Fin 0, 0)"
    by (subst search_time_index_rd.simps) (simp add: time_walk_up.simps walk_down.simps)
  show "search_time_index_rd (\<lambda>v. v) (Fin (2 + 1 * (2 - 0))) 3 (\<lambda>i. Fin (of_int i)) 0 1
       = Some (SUCCESS, Fin 0, 0)"
    by (subst search_time_index_rd.simps)
       (simp add: double_of_int_def inner time_walk_up.simps walk_down.simps)
  show "search_time_index_rd (\<lambda>v. if v = 36028797018963968 / 3602879701896397 then 10
          else if v = 36028797018963970 / 36028797018963968 then 1 else v)
        (Fin (3602879701896395 / 36028797018963968)) 3
        (\<lambda>i. if i = 0 then Fin 0 else if i = 1 then Fin (3602879701896397 / 72057594037927936)
          else Fin (3602879701896397 / 36028797018963968)) 0 1
       = Some (SUCCESS, Fin (3602879701896395 / 36028797018963968), 1)"
    by (subst search_time_index_rd.simps) (simp add: time_walk_up.simps walk_down.simps)
  have inner2: "search_time_index_rd (\<lambda>v. if v = 36028797018963968 / 3602879701896397 then 10
          else if v = 36028797018963970 / 36028797018963968 then 1 else v)
        (Fin 0) 3
        (\<lambda>i. if i = 0 then Fin 0 else if i = 1 then Fin (3602879701896397 / 72057594037927936)
          else Fin (3602879701896397 / 36028797018963968)) 0 1
       = Some (SUCCESS, Fin 0, 0)"
    by (subst search_time_index_rd.simps) (simp add: time_walk_up.simps walk_down.simps)
  show "search_time_index_rd (\<lambda>v. if v = 36028797018963968 / 3602879701896397 then 10
          else if v = 36028797018963970 / 36028797018963968 then 1 else v)
        (Fin 1) 3
        (\<lambda>i. if i = 0 then Fin 0 else if i = 1 then Fin (3602879701896397 / 72057594037927936)
          else Fin (3602879701896397 / 36028797018963968)) 0 1
       = Some (SUCCESS, Fin 0, 0)"
    by (subst search_time_index_rd.simps)
       (simp add: double_of_int_def inner2[simplified] time_walk_up.simps walk_down.simps)
  show "(1::real) = 3602879701896395 / 36028797018963968
                   + 9 * (3602879701896397 / 36028797018963968 - 0)" by simp
qed


lemma search_time_index_rd_at_ends:
  assumes sz: "2 \<le> tsize" and arr: "real_array tvals tsize r" and inc: "increasing r tsize"
    and hint: "ti \<le> tsize - 1"
  shows "search_time_index_rd rd (Fin (r 0)) tsize tvals ti 1 = Some (SUCCESS, Fin (r 0), 0)"
    and "search_time_index_rd rd (Fin (r (tsize - 1))) tsize tvals ti 1
           = Some (SUCCESS, Fin (r (tsize - 1)), tsize - 1)"
proof -
  have sz1: "1 \<le> tsize" using sz by simp
  have T: "r 0 < r (tsize - 1)" using inc sz by (auto simp: increasing_def)
  have b0: "r 0 \<le> r 0" "(1::int) = 1 \<longrightarrow> r 0 \<le> r (tsize - 1)" using T by simp_all
  from search_time_index_rd_on_axis[OF sz1 arr inc hint b0, of rd] obtain k where
    k: "search_time_index_rd rd (Fin (r 0)) tsize tvals ti 1 = Some (SUCCESS, Fin (r 0), k)"
       "0 \<le> k" "k < tsize" "r k \<le> r 0" by blast
  have "k \<le> 0" using increasing_inj_le[OF inc k(2) k(3) _ _ k(4)] sz by simp
  with k show "search_time_index_rd rd (Fin (r 0)) tsize tvals ti 1 = Some (SUCCESS, Fin (r 0), 0)"
    by simp
  have bn: "r 0 \<le> r (tsize - 1)" "(1::int) = 1 \<longrightarrow> r (tsize - 1) \<le> r (tsize - 1)" using T by simp_all
  from search_time_index_rd_on_axis[OF sz1 arr inc hint bn, of rd] obtain j where
    j: "search_time_index_rd rd (Fin (r (tsize - 1))) tsize tvals ti 1
          = Some (SUCCESS, Fin (r (tsize - 1)), j)"
       "0 \<le> j" "j < tsize" "\<forall>i. j < i \<and> i < tsize \<longrightarrow> r (tsize - 1) < r i" by blast
  have "j = tsize - 1"
  proof (rule ccontr)
    assume "j \<noteq> tsize - 1"
    with j(3) have "j < tsize - 1 \<and> tsize - 1 < tsize" by simp
    with j(4) have "r (tsize - 1) < r (tsize - 1)" by blast
    then show False by simp
  qed
  with j show "search_time_index_rd rd (Fin (r (tsize - 1))) tsize tvals ti 1
           = Some (SUCCESS, Fin (r (tsize - 1)), tsize - 1)" by simp
qed

text \<open>
  C4, amended. For a periodic field on a finite, strictly increasing time axis with at
  least two samples and period \<open>T = tvals[size-1] - tvals[0]\<close>, for times \<open>t\<close> and
  \<open>t + k T\<close> whose numbers of periods fit the C \<^verbatim>\<open>int\<close> and whose reductions are
  computed without rounding error (in the reduction of a time outside the axis the
  subtractions and the product yield their exact results and the rounded quotient has
  the floor of the exact one, \<open>exact_reduction\<close>):
  if neither \<open>t\<close> nor \<open>t + k T\<close> is \<open>tvals[size-1]\<close>, \<^verbatim>\<open>search_time_index\<close> returns the same
  time and the same index for both, the time returned is \<open>t - \<lfloor>(t - tvals[0]) / T\<rfloor> T\<close>,
  which lies in \<open>[tvals[0], tvals[size-1])\<close>, and \<^verbatim>\<open>temporal_interpolation\<close> returns the
  same code, cursors and value for both; if \<open>t = tvals[size-1]\<close>, the query at \<open>t\<close> is not
  reduced and is located at the index \<open>size-1\<close>, and for every \<open>k \<noteq> 0\<close> the query at
  \<open>t + k T\<close> returns the time \<open>tvals[0]\<close> and the index 0.
\<close>

theorem search_time_index_rd_periodic_shift:
  assumes sz: "2 \<le> tsize" and arr: "real_array tvals tsize r" and inc: "increasing r tsize"
    and T: "T = r (tsize - 1) - r 0"
    and f1: "fits_int (periods_of r tsize tr)"
    and f2: "fits_int (periods_of r tsize (tr + of_int k * T))"
    and e1: "exact_reduction rd r tsize tr"
    and e2: "exact_reduction rd r tsize (tr + of_int k * T)"
    and hint: "ti \<le> tsize - 1"
    and fld: "f_time_periodic f = 1" "g_tdim (c_grid (f_grid f)) = tsize"
      "g_time (c_grid (f_grid f)) = tvals" "cur = (xi, yi, zi, tic)" "tic (f_igrid f) = ti"
    and t': "t' = tr - of_int (periods_of r tsize tr) * T"
  shows "(tr \<noteq> r (tsize - 1) \<and> tr + of_int k * T \<noteq> r (tsize - 1) \<longrightarrow>
           search_time_index_rd rd (Fin (tr + of_int k * T)) tsize tvals ti 1
             = search_time_index_rd rd (Fin tr) tsize tvals ti 1
         \<and> (\<exists>j. search_time_index_rd rd (Fin tr) tsize tvals ti 1 = Some (SUCCESS, Fin t', j))
         \<and> r 0 \<le> t' \<and> t' < r (tsize - 1)
         \<and> temporal_interpolation_rd rd x y z (Fin (tr + of_int k * T)) f cur val interp_method
             = temporal_interpolation_rd rd x y z (Fin tr) f cur val interp_method)
       \<and> (tr = r (tsize - 1) \<longrightarrow>
           search_time_index_rd rd (Fin tr) tsize tvals ti 1 = Some (SUCCESS, Fin tr, tsize - 1)
         \<and> (k \<noteq> 0 \<longrightarrow>
              search_time_index_rd rd (Fin (tr + of_int k * T)) tsize tvals ti 1
                = Some (SUCCESS, Fin (r 0), 0)))"
proof (intro conjI impI)
  have Tpos: "r 0 < r (tsize - 1)" using inc sz by (auto simp: increasing_def)
  have p2: "periods_of r tsize (tr + of_int k * T) = periods_of r tsize tr + k"
    unfolding T by (rule periods_of_shift[OF Tpos])
  have t2: "t' = (tr + of_int k * T) - of_int (periods_of r tsize (tr + of_int k * T)) * (r (tsize - 1) - r 0)"
    using p2 unfolding t' T by (simp add: algebra_simps)
  have t1: "t' = tr - of_int (periods_of r tsize tr) * (r (tsize - 1) - r 0)"
    unfolding t' T by simp
  have a1: "search_time_index_rd rd (Fin tr) tsize tvals ti 1 = search_time_index (Fin tr) tsize tvals ti 1"
    by (rule search_time_index_rd_agree[OF sz arr inc f1 e1])
  have a2: "search_time_index_rd rd (Fin (tr + of_int k * T)) tsize tvals ti 1
              = search_time_index (Fin (tr + of_int k * T)) tsize tvals ti 1"
    by (rule search_time_index_rd_agree[OF sz arr inc f2 e2])
  {
    assume ne: "tr \<noteq> r (tsize - 1) \<and> tr + of_int k * T \<noteq> r (tsize - 1)"
    then have ne1: "tr \<noteq> r (tsize - 1)" and ne2: "tr + of_int k * T \<noteq> r (tsize - 1)" by simp_all
    obtain j1 where j1: "search_time_index (Fin tr) tsize tvals ti 1 = Some (SUCCESS, Fin t', j1)"
        "0 \<le> j1" "j1 < tsize" "r j1 \<le> t'" "\<forall>j. j1 < j \<and> j < tsize \<longrightarrow> t' < r j"
      using search_time_index_periodic[OF sz arr inc ne1 f1 hint t1] by blast
    obtain j2 where j2: "search_time_index (Fin (tr + of_int k * T)) tsize tvals ti 1 = Some (SUCCESS, Fin t', j2)"
        "0 \<le> j2" "j2 < tsize" "r j2 \<le> t'" "\<forall>j. j2 < j \<and> j < tsize \<longrightarrow> t' < r j"
      using search_time_index_periodic[OF sz arr inc ne2 f2 hint t2] by blast
    have same: "j2 = j1"
      by (rule greatest_index_unique[OF j2(2) j2(3) j2(4) j2(5) j1(2) j1(3) j1(4) j1(5)])
    show eq: "search_time_index_rd rd (Fin (tr + of_int k * T)) tsize tvals ti 1
             = search_time_index_rd rd (Fin tr) tsize tvals ti 1"
      unfolding a1 a2 using j1(1) j2(1) same by simp
    show "\<exists>j. search_time_index_rd rd (Fin tr) tsize tvals ti 1 = Some (SUCCESS, Fin t', j)"
      unfolding a1 using j1(1) by blast
    show "r 0 \<le> t'" "t' < r (tsize - 1)"
      using reduced_time_range[OF Tpos, of tr] by (simp_all add: t1)
    show "temporal_interpolation_rd rd x y z (Fin (tr + of_int k * T)) f cur val interp_method
             = temporal_interpolation_rd rd x y z (Fin tr) f cur val interp_method"
      by (rule driver_rd_periodic_cong) (simp_all add: fld eq)
  }
  {
    assume b: "tr = r (tsize - 1)"
    show "search_time_index_rd rd (Fin tr) tsize tvals ti 1 = Some (SUCCESS, Fin tr, tsize - 1)"
      unfolding b by (rule search_time_index_rd_at_ends(2)[OF sz arr inc hint])
    {
      assume k: "k \<noteq> 0"
      have Tp: "0 < T" using Tpos T by simp
      have pn: "periods_of r tsize tr = 1" using Tpos unfolding b periods_of_def by simp
      have t2v: "(tr + of_int k * T) - of_int (periods_of r tsize (tr + of_int k * T)) * (r (tsize - 1) - r 0)
                   = r 0"
        unfolding p2 pn unfolding b T by (simp add: algebra_simps)
      have "of_int k * T \<noteq> 0" using k Tp by simp
      then have ne2: "tr + of_int k * T \<noteq> r (tsize - 1)" unfolding b by simp
      obtain j where j: "search_time_index (Fin (tr + of_int k * T)) tsize tvals ti 1
                           = Some (SUCCESS, Fin (r 0), j)"
          "0 \<le> j" "j < tsize" "r j \<le> r 0"
        using search_time_index_periodic[OF sz arr inc ne2 f2 hint t2v[symmetric]] by blast
      have "j \<le> 0" using increasing_inj_le[OF inc j(2) j(3) _ _ j(4)] sz by simp
      with j(2) have "j = 0" by simp
      with j(1) show "search_time_index_rd rd (Fin (tr + of_int k * T)) tsize tvals ti 1
                = Some (SUCCESS, Fin (r 0), 0)"
        unfolding a2 by simp
    }
  }
qed

theorem search_time_index_rd_periodic_shift_witness:
  "real_array (\<lambda>i. Fin (of_int i)) 3 of_int \<and> increasing of_int 3
   \<and> fits_int (periods_of of_int 3 (5 / 4)) \<and> fits_int (periods_of of_int 3 (5 / 4 + of_int 2 * 2))
   \<and> exact_reduction (\<lambda>v. v) of_int 3 (5 / 4)
   \<and> exact_reduction (\<lambda>v. v) of_int 3 (5 / 4 + of_int 2 * 2)
   \<and> search_time_index_rd (\<lambda>v. v) (Fin (5 / 4 + of_int 2 * 2)) 3 (\<lambda>i. Fin (of_int i)) 0 1
       = search_time_index_rd (\<lambda>v. v) (Fin (5 / 4)) 3 (\<lambda>i. Fin (of_int i)) 0 1
   \<and> (\<exists>j. search_time_index_rd (\<lambda>v. v) (Fin (5 / 4)) 3 (\<lambda>i. Fin (of_int i)) 0 1
             = Some (SUCCESS, Fin (5 / 4), j))
   \<and> search_time_index_rd (\<lambda>v. v) (Fin 2) 3 (\<lambda>i. Fin (of_int i)) 0 1 = Some (SUCCESS, Fin 2, 2)
   \<and> search_time_index_rd (\<lambda>v. v) (Fin (2 + of_int (- 3) * 2)) 3 (\<lambda>i. Fin (of_int i)) 0 1
       = Some (SUCCESS, Fin 0, 0)"
proof -
  define g where "g = ex_grid\<lparr>g_tdim := 3, g_time := (\<lambda>i. Fin (of_int i))\<rparr>"
  define f where "f = ex_field\<lparr>f_time_periodic := 1, f_grid := \<lparr>c_gtype = RECTILINEAR_Z_GRID, c_grid = g\<rparr>\<rparr>"
  have h1: "2 \<le> (3::int)" by simp
  have h2: "real_array (\<lambda>i. Fin (of_int i)) 3 of_int" by (simp add: real_array_def)
  have h3: "increasing of_int 3" by (simp add: increasing_def)
  have h4: "(2::real) = of_int (3 - 1) - of_int 0" by simp
  have p1: "periods_of of_int 3 (5 / 4) = 0" by (simp add: periods_of_def)
  have h7: "fits_int (periods_of of_int 3 (5 / 4))" by (simp add: p1 fits_int_def)
  have h8: "fits_int (periods_of of_int 3 (5 / 4 + of_int 2 * 2))"
    by (simp add: periods_of_def fits_int_def)
  have x1: "exact_reduction (\<lambda>v. v) of_int 3 (5 / 4)" by (rule exact_reduction_id)
  have x2: "exact_reduction (\<lambda>v. v) of_int 3 (5 / 4 + of_int 2 * 2)" by (rule exact_reduction_id)
  have h9: "(0::int) \<le> 3 - 1" by simp
  have fl: "f_time_periodic f = 1" "g_tdim (c_grid (f_grid f)) = 3"
      "g_time (c_grid (f_grid f)) = (\<lambda>i. Fin (of_int i))"
      "((\<lambda>i. 0::int), (\<lambda>i. 0::int), (\<lambda>i. 0::int), (\<lambda>i. 0::int)) = ((\<lambda>i. 0), (\<lambda>i. 0), (\<lambda>i. 0), (\<lambda>i. 0))"
      "(\<lambda>i. 0::int) (f_igrid f) = 0"
    by (simp_all add: f_def g_def)
  have h10: "(5 / 4 :: real) = 5 / 4 - of_int (periods_of of_int 3 (5 / 4)) * 2" by (simp add: p1)
  note w1 = search_time_index_rd_periodic_shift[OF h1 h2 h3 h4 h7 h8 x1 x2 h9 fl h10]
  have pb: "periods_of of_int 3 2 = 1" by (simp add: periods_of_def)
  have g7: "fits_int (periods_of of_int 3 2)" by (simp add: pb fits_int_def)
  have g8: "fits_int (periods_of of_int 3 (2 + of_int (- 3) * 2))"
    by (simp add: periods_of_def fits_int_def)
  have y1: "exact_reduction (\<lambda>v. v) of_int 3 2" by (rule exact_reduction_id)
  have y2: "exact_reduction (\<lambda>v. v) of_int 3 (2 + of_int (- 3) * 2)" by (rule exact_reduction_id)
  have g10: "(0 :: real) = 2 - of_int (periods_of of_int 3 2) * 2" by (simp add: pb)
  note w2 = search_time_index_rd_periodic_shift[OF h1 h2 h3 h4 g7 g8 y1 y2 h9 fl g10]
  have a: "search_time_index_rd (\<lambda>v. v) (Fin (5 / 4 + of_int 2 * 2)) 3 (\<lambda>i. Fin (of_int i)) 0 1
       = search_time_index_rd (\<lambda>v. v) (Fin (5 / 4)) 3 (\<lambda>i. Fin (of_int i)) 0 1
     \<and> (\<exists>j. search_time_index_rd (\<lambda>v. v) (Fin (5 / 4)) 3 (\<lambda>i. Fin (of_int i)) 0 1
             = Some (SUCCESS, Fin (5 / 4), j))"
    using w1 by simp
  have b: "search_time_index_rd (\<lambda>v. v) (Fin 2) 3 (\<lambda>i. Fin (of_int i)) 0 1 = Some (SUCCESS, Fin 2, 2)
     \<and> search_time_index_rd (\<lambda>v. v) (Fin (2 + of_int (- 3) * 2)) 3 (\<lambda>i. Fin (of_int i)) 0 1
       = Some (SUCCESS, Fin 0, 0)"
    using w2 by simp
  from h2 h3 h7 h8 x1 x2 a b show ?thesis by blast
qed

section \<open>Longitudes outside the extent, with rounding\<close>

text \<open>Without rounding the definitions of the longitude search agree.\<close>

declare sphere_search_rf.simps [simp del]

lemma unwrap_rf_exact: "unwrap_rf (\<lambda>v. v) w c v = unwrap w c v"
  by (simp add: unwrap_rf_def unwrap_def Let_def)

lemma sphere_search_rf_exact:
  "sphere_search_rf (\<lambda>v. v) x xdim xvals xi xvalsi xvalsi1 it
     = sphere_search x xdim xvals xi xvalsi xvalsi1 it"
proof (induction x xdim xvals xi xvalsi xvalsi1 it rule: sphere_search.induct)
  case (1 x xdim xvals xi xvalsi xvalsi1 it)
  show ?case
    by (subst sphere_search_rf.simps, subst sphere_search.simps)
       (simp add: unwrap_rf_exact Let_def 1)
qed

lemma rectilinear_x_rf_exact:
  "rectilinear_x_rf (\<lambda>v. v) x xdim xvals sphere_mesh zonal_periodic xi xsi
     = rectilinear_x x xdim xvals sphere_mesh zonal_periodic xi xsi"
  unfolding rectilinear_x_rf_def rectilinear_x_def unwrap_rf_exact sphere_search_rf_exact
    round_fl_id by (rule refl)

lemma search_indices_rectilinear_rf_exact:
  "search_indices_rectilinear_rf (\<lambda>v. v) x y z xdim ydim zdim xvals yvals zvals
       sphere_mesh zonal_periodic gcode xi yi zi xsi eta zeta z4d ti tdim time t0 t1
     = search_indices_rectilinear x y z xdim ydim zdim xvals yvals zvals
       sphere_mesh zonal_periodic gcode xi yi zi xsi eta zeta z4d ti tdim time t0 t1"
  unfolding search_indices_rectilinear_rf_def search_indices_rectilinear_def
    rectilinear_x_rf_exact round_fl_id by (rule refl)

text \<open>
  The axis \<open>100, 180, -(100 + 2\<^sup>-\<^sup>1\<^sup>7)\<close> runs east across the antimeridian and ends
  \<open>2\<^sup>-\<^sup>1\<^sup>7\<close> degrees west of the longitude \<open>260 = -100\<close>; its three values are numbers of
  type \<^verbatim>\<open>float\<close>. For the query \<open>x = 260\<close> with hint 0 the search moves to the cell 1 and
  computes \<^verbatim>\<open>xvalsi1 += 360\<close>, whose exact value \<open>260 - 2\<^sup>-\<^sup>1\<^sup>7\<close> lies between the
  neighbouring \<^verbatim>\<open>float\<close> values \<open>260 - 2\<^sup>-\<^sup>1\<^sup>5\<close> and \<open>260\<close> and is stored as \<open>260\<close>.
\<close>

lemma rectilinear_x_rf_at_260:
  assumes r1: "rf (260 - 1 / 2 ^ 17) = 260"
    and ri: "\<And>n::int. \<bar>n\<bar> \<le> 1000 \<Longrightarrow> rf (of_int n) = of_int n"
  shows "rectilinear_x_rf rf (Fin 260) 3
           (\<lambda>i. if i = 0 then Fin 100 else if i = 1 then Fin 180 else Fin (- (100 + 1 / 2 ^ 17)))
           1 0 0 (Fin 0) = (SUCCESS, 1, Fin 1)"
proof -
  let ?xv = "\<lambda>i::int. if i = 0 then Fin 100 else if i = 1 then Fin 180 else Fin (- (100 + 1 / 2 ^ 17))"
  have v: "rf 35 = 35" "rf 485 = 485" "rf (- 80) = - 80" "rf 280 = 280" "rf 0 = 0"
    "rf 360 = 360" "rf 80 = 80" "rf 1 = 1"
    using ri[of 35] ri[of 485] ri[of "- 80"] ri[of 280] ri[of 0] ri[of 360] ri[of 80] ri[of 1]
    by simp_all
  have u0: "unwrap_rf rf (Fin 225) (Fin 260) (?xv 0) = Fin 100"
    by (simp add: unwrap_rf_def v)
  have u1: "unwrap_rf rf (Fin 180) (Fin 100) (?xv 1) = Fin 180"
    by (simp add: unwrap_rf_def v)
  have u2: "unwrap_rf rf (Fin 225) (Fin 260) (?xv 1) = Fin 180"
    by (simp add: unwrap_rf_def v)
  have u3: "unwrap_rf rf (Fin 180) (Fin 180) (?xv 2) = Fin 260"
    using r1 by (simp add: unwrap_rf_def v)
  have s2: "sphere_search_rf rf (Fin 260) 3 ?xv 1 (Fin 180) (Fin 260) 1
              = (SUCCESS, 1, Fin 180, Fin 260)"
    by (subst sphere_search_rf.simps) simp
  have s1: "sphere_search_rf rf (Fin 260) 3 ?xv 0 (Fin 100) (Fin 180) 0
              = (SUCCESS, 1, Fin 180, Fin 260)"
    by (subst sphere_search_rf.simps)
       (simp add: fix_1d_index_def Let_def u2[simplified] u3[simplified] s2[simplified])
  show ?thesis
    unfolding rectilinear_x_rf_def
    by (simp add: u0[simplified] u1[simplified] s1[simplified] v)
qed

lemma search_indices_rectilinear_rf_at_260:
  assumes r1: "rf (260 - 1 / 2 ^ 17) = 260"
    and ri: "\<And>n::int. \<bar>n\<bar> \<le> 1000 \<Longrightarrow> rf (of_int n) = of_int n"
    and rh: "rf (1 / 2) = 1 / 2"
  shows "search_indices_rectilinear_rf rf (Fin 260) (Fin (1 / 2)) (Fin 0) 3 3 1
           (\<lambda>i. if i = 0 then Fin 100 else if i = 1 then Fin 180 else Fin (- (100 + 1 / 2 ^ 17)))
           (\<lambda>i. Fin (of_int i)) (\<lambda>i. Fin 0) 1 0 RECTILINEAR_Z_GRID
           0 0 0 (Fin 0) (Fin 0) (Fin 0) 0 0 1 (Fin 0) (Fin 0) (Fin 1)
         = (SUCCESS, 1, 0, 0, Fin 1, Fin (1 / 2), Fin 0)"
proof -
  have v: "rf 1 = 1" using ri[of 1] by simp
  show ?thesis
    unfolding search_indices_rectilinear_rf_def
    by (simp add: rectilinear_x_rf_at_260[OF r1 ri, simplified] walk_up.simps walk_down.simps
          vertical_stage_def vertical_switch_def Let_def v rh)
qed

lemma not_lon_covered_260:
  "\<not> lon_covered (\<lambda>i. if i = 0 then 100 else if i = 1 then 180 else - (100 + 1 / 2 ^ 17)) 3 260"
proof -
  have "{0 .. 3 - 2} = {0, 1 :: int}" by auto
  then show ?thesis
    by (simp add: lon_covered_def lon_cell_def)
qed

lemma search_indices_rectilinear_exact_at_260:
  "fst (search_indices_rectilinear (Fin 260) (Fin (1 / 2)) (Fin 0) 3 3 1
           (\<lambda>i. if i = 0 then Fin 100 else if i = 1 then Fin 180 else Fin (- (100 + 1 / 2 ^ 17)))
           (\<lambda>i. Fin (of_int i)) (\<lambda>i. Fin 0) 1 0 RECTILINEAR_Z_GRID
           0 0 0 (Fin 0) (Fin 0) (Fin 0) 0 0 1 (Fin 0) (Fin 0) (Fin 1))
     = ERROR_OUT_OF_BOUNDS"
proof -
  let ?r = "\<lambda>i::int. if i = 0 then 100 else if i = 1 then 180 else - (100 + 1 / 2 ^ 17) :: real"
  let ?xv = "\<lambda>i::int. if i = 0 then Fin 100 else if i = 1 then Fin 180 else Fin (- (100 + 1 / 2 ^ 17))"
  have arr: "real_array ?xv 3 ?r" by (simp add: real_array_def)
  have w: "\<forall>i. 0 \<le> i \<and> i \<le> 3 - 2 \<longrightarrow> ?r (i + 1) - ?r i < 360" by auto
  from search_indices_rectilinear_rejects_outside_exact[where sphere_mesh = 1 and zonal_periodic = 0
      and xdim = 3 and xi = 0 and x = "Fin 260" and xr = 260 and xvals = ?xv and r = ?r]
    arr w not_lon_covered_260
  show ?thesis by simp
qed

text \<open>
  C6 does not hold of the code. On the spherical rectilinear grid with the longitudes
  \<open>100, 180, -(100 + 2\<^sup>-\<^sup>1\<^sup>7)\<close> and \<^verbatim>\<open>zonal_periodic = 0\<close>, whose end values are
  descending, the query \<open>x = 260\<close> lies outside the longitudinal extent: \<open>2\<^sup>-\<^sup>1\<^sup>7\<close>
  degrees east of the last longitude, in no cell of the axis modulo full turns. The
  early check lets it pass (\<open>x < xvals[0]\<close> is false), and the search accepts it in the
  cell 1 with \<open>xsi = 1\<close>, for every rounding \<open>rf\<close> that stores \<open>260 - 2\<^sup>-\<^sup>1\<^sup>7\<close> as \<open>260\<close> and
  leaves the small integers and \<open>1/2\<close> as they are, as rounding to \<^verbatim>\<open>float\<close> does. In
  exact arithmetic the same query is rejected with \<^verbatim>\<open>ERROR_OUT_OF_BOUNDS\<close>.
\<close>

theorem search_indices_rectilinear_rf_accepts_outside:
  assumes "rf (260 - 1 / 2 ^ 17) = 260"
    and "\<forall>n::int. \<bar>n\<bar> \<le> 1000 \<longrightarrow> rf (of_int n) = of_int n"
    and "rf (1 / 2) = 1 / 2"
  shows "search_indices_rectilinear_rf rf (Fin 260) (Fin (1 / 2)) (Fin 0) 3 3 1
           (\<lambda>i. if i = 0 then Fin 100 else if i = 1 then Fin 180 else Fin (- (100 + 1 / 2 ^ 17)))
           (\<lambda>i. Fin (of_int i)) (\<lambda>i. Fin 0) 1 0 RECTILINEAR_Z_GRID
           0 0 0 (Fin 0) (Fin 0) (Fin 0) 0 0 1 (Fin 0) (Fin 0) (Fin 1)
         = (SUCCESS, 1, 0, 0, Fin 1, Fin (1 / 2), Fin 0)
       \<and> \<not> lon_covered (\<lambda>i. if i = 0 then 100 else if i = 1 then 180 else - (100 + 1 / 2 ^ 17)) 3 260
       \<and> fst (search_indices_rectilinear (Fin 260) (Fin (1 / 2)) (Fin 0) 3 3 1
           (\<lambda>i. if i = 0 then Fin 100 else if i = 1 then Fin 180 else Fin (- (100 + 1 / 2 ^ 17)))
           (\<lambda>i. Fin (of_int i)) (\<lambda>i. Fin 0) 1 0 RECTILINEAR_Z_GRID
           0 0 0 (Fin 0) (Fin 0) (Fin 0) 0 0 1 (Fin 0) (Fin 0) (Fin 1))
         = ERROR_OUT_OF_BOUNDS"
  using search_indices_rectilinear_rf_at_260[of rf] assms not_lon_covered_260
    search_indices_rectilinear_exact_at_260
  by blast

lemma not_int_260: "of_int n \<noteq> (260 - 1 / 2 ^ 17 :: real)"
proof
  assume "of_int n = (260 - 1 / 2 ^ 17 :: real)"
  then have "of_int n * 131072 = (34078719 :: real)" by simp
  then have "(of_int (n * 131072) :: real) = of_int 34078719" by simp
  then have "n * 131072 = 34078719" by (simp only: of_int_eq_iff)
  then have "(n * 131072) mod 131072 = 34078719 mod 131072" by simp
  then show False by simp
qed

theorem search_indices_rectilinear_rf_accepts_outside_witness:
  "((\<lambda>v. if v = 260 - 1 / 2 ^ 17 then 260 else v) (260 - 1 / 2 ^ 17) = (260 :: real)
    \<and> (\<lambda>v. if v = 260 - 1 / 2 ^ 17 then 260 else v) 360 = (360 :: real)
    \<and> (\<lambda>v. if v = 260 - 1 / 2 ^ 17 then 260 else v) (1 / 2) = (1 / 2 :: real))
   \<and> search_indices_rectilinear_rf (\<lambda>v. if v = 260 - 1 / 2 ^ 17 then 260 else v)
           (Fin 260) (Fin (1 / 2)) (Fin 0) 3 3 1
           (\<lambda>i. if i = 0 then Fin 100 else if i = 1 then Fin 180 else Fin (- (100 + 1 / 2 ^ 17)))
           (\<lambda>i. Fin (of_int i)) (\<lambda>i. Fin 0) 1 0 RECTILINEAR_Z_GRID
           0 0 0 (Fin 0) (Fin 0) (Fin 0) 0 0 1 (Fin 0) (Fin 0) (Fin 1)
         = (SUCCESS, 1, 0, 0, Fin 1, Fin (1 / 2), Fin 0)"
proof -
  let ?rf = "\<lambda>v::real. if v = 260 - 1 / 2 ^ 17 then 260 else v"
  have a: "?rf (260 - 1 / 2 ^ 17) = 260" by simp
  have b: "\<forall>n::int. \<bar>n\<bar> \<le> 1000 \<longrightarrow> ?rf (of_int n) = of_int n"
    using not_int_260 by simp
  have c: "?rf (1 / 2) = 1 / 2" by simp
  have d: "?rf 360 = 360" by simp
  from search_indices_rectilinear_rf_accepts_outside[of ?rf, OF a b c] a d c
  show ?thesis by blast
qed

section \<open>Successful queries outside the returned cell\<close>

lemma skew_search:
  "search_indices (Fin (3 / 2)) (Fin (1 / 2)) (Fin 0) 3 2 1
       (\<lambda>k. Fin (skew_x k)) (\<lambda>k. Fin (skew_y k)) (\<lambda>k. Fin 0)
       0 0 0 (Fin 0) (Fin 0) (Fin 0) 0 0 CURVILINEAR_Z_GRID 0 0 1 (Fin 0) (Fin 0) (Fin 1)
     = (SUCCESS, 1, 0, 0, Fin (2 / 5), Fin (1 / 2), Fin 0)"
proof -
  have c1: "curvilinear_cell (Fin (3 / 2)) (Fin (1 / 2)) 3
       (\<lambda>k. Fin (skew_x k)) (\<lambda>k. Fin (skew_y k)) 0 0 0 (Fin (- 1))
       = (Fin (3 / 2), Fin (1 / 2))"
    by (simp add: curvilinear_cell_def idx2_def skew_x_def skew_y_def Let_def)
  have c2: "curvilinear_cell (Fin (3 / 2)) (Fin (1 / 2)) 3
       (\<lambda>k. Fin (skew_x k)) (\<lambda>k. Fin (skew_y k)) 0 1 0 (Fin (1 / 2))
       = (Fin (2 / 5), Fin (1 / 2))"
    by (simp add: curvilinear_cell_def idx2_def skew_x_def skew_y_def Let_def fl_eq_def)
  have s2: "curvilinear_search (Fin (3 / 2)) (Fin (1 / 2)) 3 2
       (\<lambda>k. Fin (skew_x k)) (\<lambda>k. Fin (skew_y k)) 0 1 0 (Fin (3 / 2)) (Fin (1 / 2)) 1
       = (SUCCESS, 1, 0, Fin (2 / 5), Fin (1 / 2))"
    by (subst curvilinear_search.simps, subst curvilinear_search.simps)
       (simp add: c2 fix_2d_indices_def Let_def)
  have s1: "curvilinear_search (Fin (3 / 2)) (Fin (1 / 2)) 3 2
       (\<lambda>k. Fin (skew_x k)) (\<lambda>k. Fin (skew_y k)) 0 0 0 (Fin (- 1)) (Fin (- 1)) 0
       = (SUCCESS, 1, 0, Fin (2 / 5), Fin (1 / 2))"
    by (subst curvilinear_search.simps) (simp add: c1 fix_2d_indices_def Let_def s2)
  show ?thesis
    unfolding search_indices_def search_indices_curvilinear_def s1
    by (simp add: idx2_def fl_eq_def vertical_stage_def vertical_switch_def skew_x_def)
qed

lemma sliver_search:
  "search_indices (Fin (1 / 2 ^ 22)) (Fin (1 / 2 ^ 19)) (Fin 0) 2 2 1
       (\<lambda>k. Fin (sliver_x k)) (\<lambda>k. Fin (sliver_y k)) (\<lambda>k. Fin 0)
       0 0 0 (Fin 0) (Fin 0) (Fin 0) 0 0 CURVILINEAR_Z_GRID 0 0 1 (Fin 0) (Fin 0) (Fin 1)
     = (SUCCESS, 0, 0, 0, Fin (1 / 2), Fin 1, Fin 0)"
proof -
  have cell: "curvilinear_cell (Fin (1 / 2 ^ 22)) (Fin (1 / 2 ^ 19)) 2
       (\<lambda>k. Fin (sliver_x k)) (\<lambda>k. Fin (sliver_y k)) 0 0 0 (Fin (- 1))
       = (Fin (1 / 2), Fin 1)"
    by (simp add: curvilinear_cell_def idx2_def sliver_x_def sliver_y_def Let_def)
  have srch: "curvilinear_search (Fin (1 / 2 ^ 22)) (Fin (1 / 2 ^ 19)) 2 2
       (\<lambda>k. Fin (sliver_x k)) (\<lambda>k. Fin (sliver_y k)) 0
       0 0 (Fin (- 1)) (Fin (- 1)) 0 = (SUCCESS, 0, 0, Fin (1 / 2), Fin 1)"
    by (subst curvilinear_search.simps, subst curvilinear_search.simps)
       (simp add: cell[simplified] fix_2d_indices_def Let_def)
  show ?thesis
    unfolding search_indices_def search_indices_curvilinear_def srch
    by (simp add: idx2_def fl_eq_def vertical_stage_def vertical_switch_def sliver_x_def)
qed

lemma polar_search:
  assumes h: "35 \<le> h"
  shows "search_indices (Fin 5) (Fin 35) (Fin 0) 4 4 1
       (\<lambda>k. Fin (polar_x k)) (\<lambda>k. Fin (polar_y h k)) (\<lambda>k. Fin 0)
       0 2 0 (Fin 0) (Fin 0) (Fin 0) 1 0 CURVILINEAR_Z_GRID 0 0 1 (Fin 0) (Fin 0) (Fin 1)
     = (SUCCESS, 0, 2, 0, Fin (1 / 2), Fin (5 / (h - 30)), Fin 0)"
proof -
  have c1: "curvilinear_cell (Fin 5) (Fin 35) 4
       (\<lambda>k. Fin (polar_x k)) (\<lambda>k. Fin (polar_y h k)) 1 0 2 (Fin (- 1))
       = (Fin (1 / 2), Fin (3 / 2))"
    by (simp add: curvilinear_cell_def idx2_def polar_x_def polar_y_def unwrap_def Let_def)
  have c2: "curvilinear_cell (Fin 5) (Fin 35) 4
       (\<lambda>k. Fin (polar_x k)) (\<lambda>k. Fin (polar_y h k)) 1 4 2 (Fin (3 / 2))
       = (Fin (1 / 2), Fin (5 / (h - 30)))"
    using h by (simp add: curvilinear_cell_def idx2_def polar_x_def polar_y_def unwrap_def Let_def
        field_simps)
  have e: "0 \<le> 5 / (h - 30)" "5 / (h - 30) \<le> 1" using h by (simp_all add: field_simps)
  have s2: "curvilinear_search (Fin 5) (Fin 35) 4 4
       (\<lambda>k. Fin (polar_x k)) (\<lambda>k. Fin (polar_y h k)) 1 4 2 (Fin (1 / 2)) (Fin (3 / 2)) 1
       = (SUCCESS, 0, 2, Fin (1 / 2), Fin (5 / (h - 30)))"
    using e by (subst curvilinear_search.simps, subst curvilinear_search.simps)
       (simp add: c2 fix_2d_indices_def Let_def)
  have s1: "curvilinear_search (Fin 5) (Fin 35) 4 4
       (\<lambda>k. Fin (polar_x k)) (\<lambda>k. Fin (polar_y h k)) 1 0 2 (Fin (- 1)) (Fin (- 1)) 0
       = (SUCCESS, 0, 2, Fin (1 / 2), Fin (5 / (h - 30)))"
    by (subst curvilinear_search.simps) (simp add: c1 fix_2d_indices_def Let_def s2)
  show ?thesis
    using e unfolding search_indices_def search_indices_curvilinear_def s1
    by (simp add: idx2_def fl_eq_def vertical_stage_def vertical_switch_def polar_x_def)
qed

lemma polar_pass:
  "curvilinear_search (Fin 5) (Fin 35) 4 4 (\<lambda>k. Fin (polar_x k)) (\<lambda>k. Fin (polar_y h k)) 1
       0 2 (Fin (- 1)) (Fin (- 1)) 0
     = curvilinear_search (Fin 5) (Fin 35) 4 4 (\<lambda>k. Fin (polar_x k)) (\<lambda>k. Fin (polar_y h k)) 1
       4 2 (Fin (1 / 2)) (Fin (3 / 2)) 1"
proof -
  have c1: "curvilinear_cell (Fin 5) (Fin 35) 4
       (\<lambda>k. Fin (polar_x k)) (\<lambda>k. Fin (polar_y h k)) 1 0 2 (Fin (- 1))
       = (Fin (1 / 2), Fin (3 / 2))"
    by (simp add: curvilinear_cell_def idx2_def polar_x_def polar_y_def unwrap_def Let_def)
  show ?thesis
    by (subst curvilinear_search.simps) (simp add: c1 fix_2d_indices_def Let_def)
qed

lemma flat_search_one_level:
  "search_indices (Fin (1 / 2)) (Fin (1 / 2)) (Fin 0) 3 3 1
       (\<lambda>i. Fin (of_int i)) (\<lambda>i. Fin (of_int i)) (\<lambda>i. Fin 0)
       0 0 0 (Fin 0) (Fin 0) (Fin 0) 0 0 RECTILINEAR_Z_GRID 0 0 1 (Fin 0) (Fin 0) (Fin 1)
     = (SUCCESS, 0, 0, 0, Fin (1 / 2), Fin (1 / 2), Fin 0)"
  by (simp add: search_indices_def search_indices_rectilinear_def rectilinear_x_def
        vertical_stage_def vertical_switch_def walk_up.simps walk_down.simps Let_def)

lemma nan_depth_search:
  "search_indices (Fin (3 / 2)) (Fin 1) NaN 2 2 2
       (\<lambda>i. if i = 0 then Fin 0 else if i = 1 then Fin 2 else if i = 2 then Fin 1 else Fin 3)
       (\<lambda>i. if 2 \<le> i then Fin 2 else Fin 0) (\<lambda>i. Fin (10 * of_int i))
       0 0 0 (Fin 0) (Fin 0) (Fin 0) 0 0 CURVILINEAR_Z_GRID 0 0 1 (Fin 0) (Fin 0) (Fin 1)
     = (SUCCESS, 0, 0, 0, Fin (1 / 2), Fin (1 / 2), NaN)"
proof -
  have cell': "curvilinear_cell (Fin (3 / 2)) (Fin 1) 2
       (\<lambda>i. if i = 0 then Fin 0 else if i = 1 then Fin 2 else if i = 2 then Fin 1 else Fin 3)
       (\<lambda>i. if 2 \<le> i then Fin 2 else Fin 0) 0 0 0 (Fin (- 1))
       = (Fin (1 / 2), Fin (1 / 2))"
    by (simp add: curvilinear_cell_def idx2_def Let_def)
  have srch': "curvilinear_search (Fin (3 / 2)) (Fin 1) 2 2
       (\<lambda>i. if i = 0 then Fin 0 else if i = 1 then Fin 2 else if i = 2 then Fin 1 else Fin 3)
       (\<lambda>i. if 2 \<le> i then Fin 2 else Fin 0) 0
       0 0 (Fin (- 1)) (Fin (- 1)) 0 = (SUCCESS, 0, 0, Fin (1 / 2), Fin (1 / 2))"
    by (subst curvilinear_search.simps, subst curvilinear_search.simps)
       (simp add: cell' fix_2d_indices_def Let_def)
  show ?thesis
    by (simp add: search_indices_def search_indices_curvilinear_def idx2_def srch' fl_eq_def
          vertical_stage_def vertical_switch_def search_indices_vertical_z_def
          walk_up.simps walk_down.simps Let_def minus_fl_def)
qed

text \<open>
  C2 does not hold of the code: \<^verbatim>\<open>search_indices\<close> returns \<^verbatim>\<open>SUCCESS\<close> with a cursor
  whose cell does not contain the query point, and with coordinates outside \<open>[0, 1]\<^sup>3\<close>.

  \<^item> On the flat curvilinear mesh \<open>skew\<close> the query \<open>(3/2, 1/2)\<close> with hint \<open>(0, 0)\<close>
    gets \<open>xsi = 3/2\<close>, \<open>eta = 1/2\<close> in the cell \<open>(0, 0)\<close> and moves to the cell \<open>(1, 0)\<close>.
    There the discriminant of the quadratic for \<open>eta\<close> is \<open>-15/16\<close>, \<^verbatim>\<open>sqrt\<close> gives NaN,
    and \<^verbatim>\<open>if (det == det)\<close> keeps \<open>eta = 1/2\<close> of the cell before; with it \<open>xsi = 2/5\<close>,
    the loop ends, and the cursor \<open>(1, 0)\<close> is returned. The line \<open>y = 5 (x - 1)\<close> has
    the four corners of that cell on or above it and the query below it.
  \<^item> On the single cell \<open>sliver\<close> the quadratic coefficient is \<open>aa = -2\<^sup>-\<^sup>4\<^sup>1\<close>, below the
    absolute tolerance \<^verbatim>\<open>1e-12\<close>, so \<open>eta\<close> is taken from the linear equation: the query
    \<open>(2\<^sup>-\<^sup>2\<^sup>2, 2\<^sup>-\<^sup>1\<^sup>9)\<close>, twice as far north as the northern corners, is accepted with
    \<open>(xsi, eta) = (1/2, 1)\<close>.
  \<^item> On the spherical mesh \<open>polar\<close> the query \<open>(5, 35)\<close>, north of the last row, with hint
    \<open>(0, 2)\<close> gets \<open>eta = 3/2\<close>; \<^verbatim>\<open>fix_2d_indices\<close> puts \<open>yi\<close> back to \<open>ydim - 2\<close> and
    mirrors \<open>xi\<close> to \<open>xdim - xi = 4\<close>. The next pass runs at \<open>xi = xdim\<close> and reads the
    elements 16 and 17 of arrays that hold the 16 elements \<open>0 .. 15\<close>. What is returned
    depends on the memory behind the arrays: with 40 there \<open>eta = 1/2\<close>, with 50 there
    \<open>eta = 1/4\<close>, in both cases \<^verbatim>\<open>SUCCESS\<close> with the cursor \<open>(0, 2)\<close>, a cell that lies
    south of the query.
  \<^item> With \<open>zdim = 1\<close> the vertical search is skipped and \<open>zi\<close> is returned as it came,
    while \<open>[0, zdim - 2]\<close> is empty.
  \<^item> A NaN depth passes the vertical range check and the final check on \<open>zeta\<close>, and
    \<^verbatim>\<open>SUCCESS\<close> is returned with \<open>zeta = NaN\<close>.
\<close>

theorem search_indices_success_outside_cell:
  "search_indices (Fin (3 / 2)) (Fin (1 / 2)) (Fin 0) 3 2 1
       (\<lambda>k. Fin (skew_x k)) (\<lambda>k. Fin (skew_y k)) (\<lambda>k. Fin 0)
       0 0 0 (Fin 0) (Fin 0) (Fin 0) 0 0 CURVILINEAR_Z_GRID 0 0 1 (Fin 0) (Fin 0) (Fin 1)
     = (SUCCESS, 1, 0, 0, Fin (2 / 5), Fin (1 / 2), Fin 0)
   \<and> separated skew_x skew_y 3 1 0 (3 / 2) (1 / 2) (- 5) 1 (- 5)
   \<and> search_indices (Fin (1 / 2 ^ 22)) (Fin (1 / 2 ^ 19)) (Fin 0) 2 2 1
       (\<lambda>k. Fin (sliver_x k)) (\<lambda>k. Fin (sliver_y k)) (\<lambda>k. Fin 0)
       0 0 0 (Fin 0) (Fin 0) (Fin 0) 0 0 CURVILINEAR_Z_GRID 0 0 1 (Fin 0) (Fin 0) (Fin 1)
     = (SUCCESS, 0, 0, 0, Fin (1 / 2), Fin 1, Fin 0)
   \<and> separated sliver_x sliver_y 2 0 0 (1 / 2 ^ 22) (1 / 2 ^ 19) 0 (- 1) (- (1 / 2 ^ 20))
   \<and> curvilinear_search (Fin 5) (Fin 35) 4 4 (\<lambda>k. Fin (polar_x k)) (\<lambda>k. Fin (polar_y 40 k)) 1
       0 2 (Fin (- 1)) (Fin (- 1)) 0
     = curvilinear_search (Fin 5) (Fin 35) 4 4 (\<lambda>k. Fin (polar_x k)) (\<lambda>k. Fin (polar_y 40 k)) 1
       4 2 (Fin (1 / 2)) (Fin (3 / 2)) 1
   \<and> idx2 4 (2 + 1) 4 = 16 \<and> idx2 4 (2 + 1) (4 + 1) = 17
   \<and> (\<forall>k. k < 16 \<longrightarrow> polar_y 40 k = polar_y 50 k)
   \<and> search_indices (Fin 5) (Fin 35) (Fin 0) 4 4 1
       (\<lambda>k. Fin (polar_x k)) (\<lambda>k. Fin (polar_y 40 k)) (\<lambda>k. Fin 0)
       0 2 0 (Fin 0) (Fin 0) (Fin 0) 1 0 CURVILINEAR_Z_GRID 0 0 1 (Fin 0) (Fin 0) (Fin 1)
     = (SUCCESS, 0, 2, 0, Fin (1 / 2), Fin (1 / 2), Fin 0)
   \<and> search_indices (Fin 5) (Fin 35) (Fin 0) 4 4 1
       (\<lambda>k. Fin (polar_x k)) (\<lambda>k. Fin (polar_y 50 k)) (\<lambda>k. Fin 0)
       0 2 0 (Fin 0) (Fin 0) (Fin 0) 1 0 CURVILINEAR_Z_GRID 0 0 1 (Fin 0) (Fin 0) (Fin 1)
     = (SUCCESS, 0, 2, 0, Fin (1 / 2), Fin (1 / 4), Fin 0)
   \<and> separated polar_x (polar_y 40) 4 0 2 5 35 0 (- 1) (- 30)
   \<and> search_indices (Fin (1 / 2)) (Fin (1 / 2)) (Fin 0) 3 3 1
       (\<lambda>i. Fin (of_int i)) (\<lambda>i. Fin (of_int i)) (\<lambda>i. Fin 0)
       0 0 0 (Fin 0) (Fin 0) (Fin 0) 0 0 RECTILINEAR_Z_GRID 0 0 1 (Fin 0) (Fin 0) (Fin 1)
     = (SUCCESS, 0, 0, 0, Fin (1 / 2), Fin (1 / 2), Fin 0)
   \<and> \<not> (0 \<le> (0::int) \<and> (0::int) \<le> 1 - 2)
   \<and> search_indices (Fin (3 / 2)) (Fin 1) NaN 2 2 2
       (\<lambda>i. if i = 0 then Fin 0 else if i = 1 then Fin 2 else if i = 2 then Fin 1 else Fin 3)
       (\<lambda>i. if 2 \<le> i then Fin 2 else Fin 0) (\<lambda>i. Fin (10 * of_int i))
       0 0 0 (Fin 0) (Fin 0) (Fin 0) 0 0 CURVILINEAR_Z_GRID 0 0 1 (Fin 0) (Fin 0) (Fin 1)
     = (SUCCESS, 0, 0, 0, Fin (1 / 2), Fin (1 / 2), NaN)
   \<and> \<not> unit_coord NaN"
proof -
  have p40: "search_indices (Fin 5) (Fin 35) (Fin 0) 4 4 1
       (\<lambda>k. Fin (polar_x k)) (\<lambda>k. Fin (polar_y 40 k)) (\<lambda>k. Fin 0)
       0 2 0 (Fin 0) (Fin 0) (Fin 0) 1 0 CURVILINEAR_Z_GRID 0 0 1 (Fin 0) (Fin 0) (Fin 1)
     = (SUCCESS, 0, 2, 0, Fin (1 / 2), Fin (1 / 2), Fin 0)"
    using polar_search[of 40] by simp
  have p50: "search_indices (Fin 5) (Fin 35) (Fin 0) 4 4 1
       (\<lambda>k. Fin (polar_x k)) (\<lambda>k. Fin (polar_y 50 k)) (\<lambda>k. Fin 0)
       0 2 0 (Fin 0) (Fin 0) (Fin 0) 1 0 CURVILINEAR_Z_GRID 0 0 1 (Fin 0) (Fin 0) (Fin 1)
     = (SUCCESS, 0, 2, 0, Fin (1 / 2), Fin (1 / 4), Fin 0)"
    using polar_search[of 50] by simp
  have s1: "separated skew_x skew_y 3 1 0 (3 / 2) (1 / 2) (- 5) 1 (- 5)"
    by (simp add: separated_def idx2_def skew_x_def skew_y_def)
  have s2: "separated sliver_x sliver_y 2 0 0 (1 / 2 ^ 22) (1 / 2 ^ 19) 0 (- 1) (- (1 / 2 ^ 20))"
    by (simp add: separated_def idx2_def sliver_x_def sliver_y_def)
  have s3: "separated polar_x (polar_y 40) 4 0 2 5 35 0 (- 1) (- 30)"
    by (simp add: separated_def idx2_def polar_x_def polar_y_def)
  have i: "idx2 4 (2 + 1) 4 = 16" "idx2 4 (2 + 1) (4 + 1) = 17" by (simp_all add: idx2_def)
  have m: "\<forall>k. k < 16 \<longrightarrow> polar_y 40 k = polar_y 50 k" by (simp add: polar_y_def)
  have z: "\<not> (0 \<le> (0::int) \<and> (0::int) \<le> 1 - 2)" by simp
  have n: "\<not> unit_coord NaN" by simp
  show ?thesis
    by (intro conjI)
       (rule skew_search s1 sliver_search s2 polar_pass i m p40 p50 s3 flat_search_one_level z
          nan_depth_search n)+
qed

theorem search_indices_success_outside_cell_witness:
  "fst (search_indices (Fin (3 / 2)) (Fin (1 / 2)) (Fin 0) 3 2 1
       (\<lambda>k. Fin (skew_x k)) (\<lambda>k. Fin (skew_y k)) (\<lambda>k. Fin 0)
       0 0 0 (Fin 0) (Fin 0) (Fin 0) 0 0 CURVILINEAR_Z_GRID 0 0 1 (Fin 0) (Fin 0) (Fin 1))
     = SUCCESS
   \<and> polar_y 40 15 = polar_y 50 15"
  using search_indices_success_outside_cell by simp

end
